theory Spec2Isabelle
  imports Main
begin

section \<open>Python values used by repro\_bug.py\<close>

text \<open>
  A Python \<open>str\<close> is a sequence of Unicode code points: slicing and \<open>len\<close> count code
  points, and the script prints characters outside ASCII. A string is therefore a list
  of code points; \<open>lit\<close> embeds an ASCII literal.
\<close>

type_synonym pystr = "nat list"

definition lit :: "string \<Rightarrow> pystr" where
  "lit cs = map of_char cs"

text \<open>The non-ASCII characters of the script's messages, by code point.\<close>

definition emoji_bug :: pystr where "emoji_bug = [0x1F41B]"
definition emoji_check :: pystr where "emoji_check = [0x2705]"
definition emoji_cross :: pystr where "emoji_cross = [0x274C]"
definition emoji_boom :: pystr where "emoji_boom = [0x1F4A5]"
definition emoji_memo :: pystr where "emoji_memo = [0x1F4DD]"
definition emoji_red :: pystr where "emoji_red = [0x1F534]"
definition emoji_green :: pystr where "emoji_green = [0x1F7E2]"
definition emoji_chart :: pystr where "emoji_chart = [0x1F4CA]"
definition emoji_warning :: pystr where "emoji_warning = [0x26A0, 0xFE0F]"
definition tick :: pystr where "tick = [0x2713]"
definition left_arrow :: pystr where "left_arrow = [0x2190]"
definition nl :: pystr where "nl = [10]"

text \<open>\<open>"=" * 60\<close> and \<open>"-" * 40\<close>.\<close>

definition str_mul :: "string \<Rightarrow> nat \<Rightarrow> pystr" where
  "str_mul cs n = concat (replicate n (lit cs))"

text \<open>\<open>str(n)\<close> of a natural number, in decimal.\<close>

fun str_nat :: "nat \<Rightarrow> pystr" where
  "str_nat n = (if n < 10 then [48 + n] else str_nat (n div 10) @ [48 + n mod 10])"

declare str_nat.simps [simp del]

text \<open>\<open>str(n)\<close> of an integer.\<close>

definition str_int :: "int \<Rightarrow> pystr" where
  "str_int n = (if n < 0 then 45 # str_nat (nat (- n)) else str_nat (nat n))"

text \<open>
  The argument of \<open>SystemExit\<close>: none, an integer, or another object, of which only
  its \<open>str\<close> matters.
\<close>

datatype exit_arg = No_code | Int_code int | Other_code pystr

fun str_exit_arg :: "exit_arg \<Rightarrow> pystr" where
  "str_exit_arg No_code = []"
| "str_exit_arg (Int_code n) = str_int n"
| "str_exit_arg (Other_code s) = s"

text \<open>
  An exception object. \<open>Exn\<close> is an instance of a class that derives from
  \<open>Exception\<close>, or of another class that derives from \<open>BaseException\<close> only, with
  \<open>type(e).__name__\<close> and \<open>str(e)\<close>. \<open>SystemExit\<close> and \<open>KeyboardInterrupt\<close> do not
  derive from \<open>Exception\<close>, and no \<open>except Exception\<close> clause catches them; the
  interpreter treats them apart when they end the process.
\<close>

datatype exn =
    Exn (is_Exception: bool) (type_name: pystr) (message: pystr)
  | SystemExit (exit_arg: exit_arg)
  | KeyboardInterrupt
where
  "is_Exception (SystemExit a) = False"
| "is_Exception KeyboardInterrupt = False"
| "type_name (SystemExit a) = lit ''SystemExit''"
| "type_name KeyboardInterrupt = lit ''KeyboardInterrupt''"
| "message (SystemExit a) = str_exit_arg a"
| "message KeyboardInterrupt = []"
| "exit_arg (Exn b n m) = No_code"
| "exit_arg KeyboardInterrupt = No_code"

type_synonym 'a result = "exn + 'a"

section \<open>The entities of app.models, as the script uses them\<close>

type_synonym uuid = nat

text \<open>A \<open>datetime\<close> value; the script only stores it and passes it on.\<close>

type_synonym datetime = int

text \<open>
  The enumeration \<open>MemoryState\<close> is declared in app.models; the script names only its
  member \<open>active\<close> and reads \<open>.value\<close>. Every other member is \<open>other_state v\<close>, with
  \<open>v\<close> its value.
\<close>

datatype MemoryState = active | other_state pystr

fun state_value :: "MemoryState \<Rightarrow> pystr" where
  "state_value active = lit ''active''"
| "state_value (other_state v) = v"

datatype json = JStr pystr | JInt int

type_synonym metadata = "(pystr \<times> json) list"

record User =
  user_id :: uuid
  user_user_id :: pystr
  user_email :: pystr

record App =
  app_id :: uuid
  app_name :: pystr
  app_owner_id :: uuid

record Category =
  category_id :: uuid
  category_name :: pystr

text \<open>The columns of a \<open>Memory\<close>.\<close>

record Memory =
  memory_id :: uuid
  memory_content :: pystr
  memory_user_id :: uuid
  memory_app_id :: uuid
  memory_state :: MemoryState
  memory_created_at :: datetime
  memory_metadata :: metadata

section \<open>The world: console, databases, sessions, randomness, clock\<close>

text \<open>
  One SQLite database: whether \<open>Base.metadata.create_all\<close> has created its tables,
  the file behind it (\<open>None\<close> for an in-memory database), and its tables in insertion
  order. \<open>tbl_memory_categories\<close> is the association table of the many-to-many
  relationship, as pairs (memory id, category id).
\<close>

record db =
  db_file :: "pystr option"
  has_schema :: bool
  tbl_users :: "User list"
  tbl_apps :: "App list"
  tbl_categories :: "Category list"
  tbl_memories :: "Memory list"
  tbl_memory_categories :: "(uuid \<times> uuid) list"

text \<open>
  An object added to a session and not yet written: for a \<open>Memory\<close>, with the
  categories appended to its \<open>categories\<close> relationship.
\<close>

datatype pending = PUser User | PApp App | PCategory Category | PMemory Memory "Category list"

text \<open>
  A \<open>Session\<close> object: the engine it is bound to, the objects added and not yet
  flushed, the rows of its open transaction (\<open>None\<close> when no transaction has begun),
  and whether \<open>close()\<close> has detached its objects.
\<close>

record session =
  sess_engine :: nat
  sess_pending :: "pending list"
  sess_tx :: "db option"
  sess_closed :: bool

text \<open>
  What the process does that an observer can see, in order: a line written by
  \<open>print\<close>, the traceback written by \<open>traceback.print_exc()\<close>, and the calls into the
  database library.
\<close>

datatype db_op =
    Create_engine nat pystr
  | Create_all nat
  | Open_session nat nat
  | Flush nat nat
  | Commit nat
  | Query_all nat bool
  | Close_session nat
  | Read_relationship uuid bool

datatype event = Stdout pystr | Stderr_traceback exn | Db db_op

text \<open>
  Sessions and databases are mutable objects that several references share (a
  loaded object keeps a reference to its session), so they live in stores indexed by
  handle. \<open>uuid_source\<close> and \<open>clock_source\<close> are the values \<open>uuid4()\<close> and
  \<open>datetime.now(UTC)\<close> return, call after call. \<open>files\<close> are the paths of the files
  that exist, \<open>argv\<close> and \<open>environ\<close> the arguments and environment the process was
  started with, \<open>script_dir\<close> is \<open>str(Path(__file__).parent)\<close>.

  \<open>stdout_raises\<close> is what \<open>sys.stdout.write\<close> does with a string: \<open>None\<close> when it
  writes it, else the exception it raises (a \<open>UnicodeEncodeError\<close> when the encoding
  of standard output lacks one of the characters, an \<open>OSError\<close> when the write fails).
  The interpreter opens standard output before the script runs, with the encoding and
  error handler it derives from the environment (\<open>PYTHONIOENCODING\<close>, \<open>PYTHONUTF8\<close>,
  the locale variables): \<open>stdio\<close> is that rule, from the environment to the behaviour
  of standard output. \<open>dont_write_bytecode\<close> is \<open>sys.dont_write_bytecode\<close>, and
  \<open>cache_tag\<close> is \<open>sys.implementation.cache_tag\<close>.
\<close>

record world =
  trace :: "event list"
  dbs :: "nat \<Rightarrow> db"
  next_engine :: nat
  sessions :: "nat \<Rightarrow> session"
  next_session :: nat
  uuid_source :: "nat \<Rightarrow> uuid"
  uuid_count :: nat
  clock_source :: "nat \<Rightarrow> datetime"
  clock_count :: nat
  files :: "pystr list"
  argv :: "pystr list"
  environ :: "(pystr \<times> pystr) list"
  sys_path :: "pystr list"
  script_dir :: pystr
  stdout_raises :: "pystr \<Rightarrow> exn option"
  stdio :: "(pystr \<times> pystr) list \<Rightarrow> pystr \<Rightarrow> exn option"
  dont_write_bytecode :: bool
  cache_tag :: pystr

section \<open>Statements that may raise\<close>

type_synonym 'a prog = "world \<Rightarrow> 'a result \<times> world"

definition ret :: "'a \<Rightarrow> 'a prog" where
  "ret x w = (Inr x, w)"

definition raise :: "exn \<Rightarrow> 'a prog" where
  "raise e w = (Inl e, w)"

definition bnd :: "'a prog \<Rightarrow> ('a \<Rightarrow> 'b prog) \<Rightarrow> 'b prog" where
  "bnd m f w = (case m w of (Inl e, w') \<Rightarrow> (Inl e, w') | (Inr x, w') \<Rightarrow> f x w')"

definition seq :: "unit prog \<Rightarrow> 'a prog \<Rightarrow> 'a prog" where
  "seq m n = bnd m (\<lambda>_. n)"

fun block :: "unit prog list \<Rightarrow> unit prog" where
  "block [] = ret ()"
| "block (s # ss) = seq s (block ss)"

text \<open>
  \<open>try: body except Exception as e: handler\<close>. An exception whose class does not
  derive from \<open>Exception\<close> passes through.
\<close>

definition try_except :: "'a prog \<Rightarrow> (exn \<Rightarrow> 'a prog) \<Rightarrow> 'a prog" where
  "try_except body handler w =
     (case body w of
        (Inl e, w') \<Rightarrow> if is_Exception e then handler e w' else (Inl e, w')
      | (Inr x, w') \<Rightarrow> (Inr x, w'))"

definition emit :: "event \<Rightarrow> unit prog" where
  "emit ev w = (Inr (), w\<lparr>trace := trace w @ [ev]\<rparr>)"

text \<open>
  \<open>print(s)\<close> writes the string to standard output, and raises what the write raises;
  nothing of the string is written then.
\<close>

definition print :: "pystr \<Rightarrow> unit prog" where
  "print s w = (case stdout_raises w s of None \<Rightarrow> emit (Stdout s) w | Some e \<Rightarrow> (Inl e, w))"

text \<open>
  \<open>traceback.print_exc()\<close> writes to standard error, whose error handler is
  \<open>backslashreplace\<close>: it encodes every string.
\<close>

definition print_exc :: "exn \<Rightarrow> unit prog" where
  "print_exc e = emit (Stderr_traceback e)"

definition uuid4 :: "uuid prog" where
  "uuid4 w = (Inr (uuid_source w (uuid_count w)), w\<lparr>uuid_count := Suc (uuid_count w)\<rparr>)"

definition datetime_now :: "datetime prog" where
  "datetime_now w =
     (Inr (clock_source w (clock_count w)), w\<lparr>clock_count := Suc (clock_count w)\<rparr>)"

section \<open>The database library, as the script calls it\<close>

definition memory_url :: pystr where
  "memory_url = lit ''sqlite:///:memory:''"

definition empty_db :: "pystr option \<Rightarrow> db" where
  "empty_db f =
     \<lparr>db_file = f, has_schema = False, tbl_users = [], tbl_apps = [], tbl_categories = [],
      tbl_memories = [], tbl_memory_categories = []\<rparr>"

text \<open>
  \<open>create_engine(url, echo=False)\<close>: a new engine. Every engine on
  \<open>sqlite:///:memory:\<close> has an empty database of its own, kept in the process's
  memory; any other SQLite URL names the file after \<open>sqlite:///\<close>.
\<close>

definition create_engine :: "pystr \<Rightarrow> nat prog" where
  "create_engine url w =
     (let e = next_engine w;
          f = (if url = memory_url then None else Some (drop 10 url))
      in (Inr e, w\<lparr>trace := trace w @ [Db (Create_engine e url)],
                     dbs := (dbs w)(e := empty_db f),
                     next_engine := Suc e\<rparr>))"

text \<open>
  \<open>Base.metadata.create_all(engine)\<close> connects and creates the tables; connecting to
  a file database creates its file.
\<close>

definition create_all :: "nat \<Rightarrow> unit prog" where
  "create_all e w =
     (let d = dbs w e
      in (Inr (), w\<lparr>trace := trace w @ [Db (Create_all e)],
                      dbs := (dbs w)(e := d\<lparr>has_schema := True\<rparr>),
                      files := (case db_file d of None \<Rightarrow> files w
                                | Some p \<Rightarrow> if p \<in> set (files w) then files w else files w @ [p])\<rparr>))"

text \<open>
  \<open>sessionmaker(autocommit=False, autoflush=False, bind=engine)\<close>: the factory is
  its engine; calling it makes a new session.
\<close>

definition sessionmaker :: "nat \<Rightarrow> nat" where
  "sessionmaker engine = engine"

definition new_session :: "nat \<Rightarrow> nat prog" where
  "new_session factory w =
     (let h = next_session w
      in (Inr h, w\<lparr>trace := trace w @ [Db (Open_session h factory)],
                     sessions := (sessions w)(h :=
                       \<lparr>sess_engine = factory, sess_pending = [], sess_tx = None,
                        sess_closed = False\<rparr>),
                     next_session := Suc h\<rparr>))"

definition session_add :: "nat \<Rightarrow> pending \<Rightarrow> unit prog" where
  "session_add h obj w =
     (let s = sessions w h
      in (Inr (), w\<lparr>sessions := (sessions w)(h := s\<lparr>sess_pending := sess_pending s @ [obj]\<rparr>)\<rparr>))"

definition integrity_error :: "pystr \<Rightarrow> exn" where
  "integrity_error tbl =
     Exn True (lit ''IntegrityError'') (lit ''UNIQUE constraint failed: '' @ tbl @ lit ''.id'')"

definition operational_error :: exn where
  "operational_error = Exn True (lit ''OperationalError'') (lit ''no such table'')"

text \<open>
  One INSERT. The primary key \<open>id\<close> of each table is unique; the other constraints
  of the tables are declared in app.models and are not modelled. A \<open>Memory\<close> is
  written with one association row per category of its relationship.
\<close>

fun insert_row :: "pending \<Rightarrow> db \<Rightarrow> exn + db" where
  "insert_row (PUser x) d =
     (if user_id x \<in> set (map user_id (tbl_users d)) then Inl (integrity_error (lit ''users''))
      else Inr (d\<lparr>tbl_users := tbl_users d @ [x]\<rparr>))"
| "insert_row (PApp x) d =
     (if app_id x \<in> set (map app_id (tbl_apps d)) then Inl (integrity_error (lit ''apps''))
      else Inr (d\<lparr>tbl_apps := tbl_apps d @ [x]\<rparr>))"
| "insert_row (PCategory x) d =
     (if category_id x \<in> set (map category_id (tbl_categories d))
      then Inl (integrity_error (lit ''categories''))
      else Inr (d\<lparr>tbl_categories := tbl_categories d @ [x]\<rparr>))"
| "insert_row (PMemory x cs) d =
     (if memory_id x \<in> set (map memory_id (tbl_memories d))
      then Inl (integrity_error (lit ''memories''))
      else Inr (d\<lparr>tbl_memories := tbl_memories d @ [x],
                   tbl_memory_categories :=
                     tbl_memory_categories d @ map (\<lambda>c. (memory_id x, category_id c)) cs\<rparr>))"

fun insert_rows :: "pending list \<Rightarrow> db \<Rightarrow> exn + db" where
  "insert_rows [] d = Inr d"
| "insert_rows (p # ps) d =
     (case insert_row p d of Inl e \<Rightarrow> Inl e | Inr d' \<Rightarrow> insert_rows ps d')"

text \<open>The rows a session sees: those of its transaction, else the committed ones.\<close>

definition session_view :: "world \<Rightarrow> nat \<Rightarrow> db" where
  "session_view w h =
     (case sess_tx (sessions w h) of None \<Rightarrow> dbs w (sess_engine (sessions w h)) | Some d \<Rightarrow> d)"

text \<open>
  \<open>session.flush()\<close> writes the pending objects, in the order they were added,
  inside the session's transaction. A failed flush rolls the transaction back and
  raises.
\<close>

definition session_flush :: "nat \<Rightarrow> unit prog" where
  "session_flush h w =
     (let s = sessions w h
      in if sess_pending s = [] then (Inr (), w)
         else if \<not> has_schema (session_view w h)
         then (Inl operational_error,
               w\<lparr>sessions := (sessions w)(h := s\<lparr>sess_pending := [], sess_tx := None\<rparr>)\<rparr>)
         else (case insert_rows (sess_pending s) (session_view w h) of
                 Inl e \<Rightarrow>
                   (Inl e, w\<lparr>sessions := (sessions w)(h := s\<lparr>sess_pending := [], sess_tx := None\<rparr>)\<rparr>)
               | Inr d \<Rightarrow>
                   (Inr (), w\<lparr>trace := trace w @ [Db (Flush h (length (sess_pending s)))],
                              sessions := (sessions w)(h := s\<lparr>sess_pending := [], sess_tx := Some d\<rparr>)\<rparr>)))"

text \<open>\<open>session.commit()\<close> flushes, then makes the transaction's rows the database's.\<close>

definition commit_tx :: "nat \<Rightarrow> unit prog" where
  "commit_tx h w =
     (let s = sessions w h
      in (Inr (), w\<lparr>trace := trace w @ [Db (Commit h)],
                      dbs := (case sess_tx s of None \<Rightarrow> dbs w | Some d \<Rightarrow> (dbs w)(sess_engine s := d)),
                      sessions := (sessions w)(h := s\<lparr>sess_tx := None\<rparr>)\<rparr>))"

definition session_commit :: "nat \<Rightarrow> unit prog" where
  "session_commit h = seq (session_flush h) (commit_tx h)"

text \<open>
  \<open>session.close()\<close> rolls back what is not committed and detaches every object the
  session holds. The script does not use a session again after closing it.
\<close>

definition session_close :: "nat \<Rightarrow> unit prog" where
  "session_close h w =
     (let s = sessions w h
      in (Inr (), w\<lparr>trace := trace w @ [Db (Close_session h)],
                      sessions := (sessions w)(h :=
                        s\<lparr>sess_pending := [], sess_tx := None, sess_closed := True\<rparr>)\<rparr>))"

text \<open>
  \<open>with SessionLocal() as session: body\<close>: the session is closed when the body
  returns and when it raises, and the exception is not suppressed.
\<close>

definition with_session :: "nat \<Rightarrow> (nat \<Rightarrow> 'a prog) \<Rightarrow> 'a prog" where
  "with_session factory body =
     bnd (new_session factory)
       (\<lambda>h w. case body h w of (r, w') \<Rightarrow> (r, snd (session_close h w')))"

subsection \<open>Queries and loaded objects\<close>

text \<open>
  The query the script builds step by step: \<open>session.query(Memory).filter(...)\<close>, the
  two \<open>outerjoin\<close> calls, and \<open>options(joinedload(Memory.app),
  joinedload(Memory.categories))\<close>.
\<close>

record query =
  q_session :: nat
  q_user_id :: uuid
  q_state :: MemoryState
  q_outerjoin_app :: bool
  q_outerjoin_categories :: bool
  q_joinedload_app :: bool
  q_joinedload_categories :: bool

definition query_Memory_filter :: "nat \<Rightarrow> uuid \<Rightarrow> MemoryState \<Rightarrow> query" where
  "query_Memory_filter h uid st =
     \<lparr>q_session = h, q_user_id = uid, q_state = st, q_outerjoin_app = False,
      q_outerjoin_categories = False, q_joinedload_app = False,
      q_joinedload_categories = False\<rparr>"

definition outerjoin_App :: "query \<Rightarrow> query" where
  "outerjoin_App q = q\<lparr>q_outerjoin_app := True\<rparr>"

definition outerjoin_categories :: "query \<Rightarrow> query" where
  "outerjoin_categories q = q\<lparr>q_outerjoin_categories := True\<rparr>"

definition options_joinedload :: "query \<Rightarrow> query" where
  "options_joinedload q = q\<lparr>q_joinedload_app := True, q_joinedload_categories := True\<rparr>"

text \<open>
  A \<open>Memory\<close> instance returned by a query: its columns, the session it belongs to,
  and its two relationships, each \<open>None\<close> until it has been loaded.
\<close>

record Memory_object =
  obj_row :: Memory
  obj_session :: nat
  obj_app :: "App option option"
  obj_categories :: "Category list option"

definition related_app :: "db \<Rightarrow> Memory \<Rightarrow> App option" where
  "related_app d m = find (\<lambda>a. app_id a = memory_app_id m) (tbl_apps d)"

definition related_categories :: "db \<Rightarrow> Memory \<Rightarrow> Category list" where
  "related_categories d m =
     concat (map (\<lambda>(mid, cid).
                    if mid = memory_id m
                    then filter (\<lambda>c. category_id c = cid) (tbl_categories d) else [])
                 (tbl_memory_categories d))"

text \<open>A LEFT OUTER JOIN: a row without a partner is kept once, with \<open>None\<close>.\<close>

definition outer_join :: "'a list \<Rightarrow> ('a \<Rightarrow> 'b list) \<Rightarrow> ('a \<times> 'b option) list" where
  "outer_join xs rel =
     concat (map (\<lambda>x. case rel x of [] \<Rightarrow> [(x, None)] | y # ys \<Rightarrow> map (\<lambda>z. (x, Some z)) (y # ys)) xs)"

definition select_rows :: "db \<Rightarrow> query \<Rightarrow> ((Memory \<times> App option) \<times> Category option) list" where
  "select_rows d q =
     outer_join
       (outer_join
          (filter (\<lambda>m. memory_user_id m = q_user_id q \<and> memory_state m = q_state q)
                  (tbl_memories d))
          (\<lambda>m. if q_outerjoin_app q
                then filter (\<lambda>a. app_id a = memory_app_id m) (tbl_apps d) else []))
       (\<lambda>(m, a). if q_outerjoin_categories q then related_categories d m else [])"

text \<open>A query for one entity returns each instance once, however many rows carry it.\<close>

fun uniq_by :: "('a \<Rightarrow> 'k) \<Rightarrow> 'a list \<Rightarrow> 'a list" where
  "uniq_by key [] = []"
| "uniq_by key (x # xs) = x # uniq_by key (filter (\<lambda>y. key y \<noteq> key x) xs)"

definition load_object :: "db \<Rightarrow> query \<Rightarrow> Memory \<Rightarrow> Memory_object" where
  "load_object d q m =
     \<lparr>obj_row = m, obj_session = q_session q,
      obj_app = (if q_joinedload_app q then Some (related_app d m) else None),
      obj_categories = (if q_joinedload_categories q then Some (related_categories d m) else None)\<rparr>"

text \<open>\<open>query.all()\<close>: runs the SELECT in the session's transaction, beginning one if needed.\<close>

definition query_all :: "query \<Rightarrow> Memory_object list prog" where
  "query_all q w =
     (let h = q_session q; s = sessions w h; d = session_view w h
      in if \<not> has_schema d then (Inl operational_error, w)
         else (Inr (map (load_object d q) (uniq_by memory_id (map (fst \<circ> fst) (select_rows d q)))),
               w\<lparr>trace := trace w @ [Db (Query_all h (q_joinedload_app q \<and> q_joinedload_categories q))],
                  sessions := (sessions w)(h := s\<lparr>sess_tx := Some d\<rparr>)\<rparr>))"

definition quote :: pystr where "quote = [39]"

definition detached_instance_error :: "pystr \<Rightarrow> exn" where
  "detached_instance_error attr =
     Exn True (lit ''DetachedInstanceError'')
       (lit ''Parent instance <Memory> is not bound to a Session; lazy load operation of attribute ''
        @ quote @ attr @ quote @ lit '' cannot proceed'')"

text \<open>
  Modelled from the spec: the relationships \<open>Memory.app\<close> and \<open>Memory.categories\<close> are
  declared in app.models, which is not among the sources. By the spec, reading a
  relationship that was not pre-fetched raises once the session is closed, and reading
  a pre-fetched one does not. While the session is open the read loads the related rows.
\<close>

definition get_app :: "Memory_object \<Rightarrow> App option prog" where
  "get_app m w =
     (case obj_app m of
        Some a \<Rightarrow> (Inr a, w\<lparr>trace := trace w @ [Db (Read_relationship (memory_id (obj_row m)) True)]\<rparr>)
      | None \<Rightarrow>
          if sess_closed (sessions w (obj_session m))
          then (Inl (detached_instance_error (lit ''app'')),
                w\<lparr>trace := trace w @ [Db (Read_relationship (memory_id (obj_row m)) False)]\<rparr>)
          else (Inr (related_app (session_view w (obj_session m)) (obj_row m)),
                w\<lparr>trace := trace w @ [Db (Read_relationship (memory_id (obj_row m)) True)]\<rparr>))"

definition get_categories :: "Memory_object \<Rightarrow> Category list prog" where
  "get_categories m w =
     (case obj_categories m of
        Some cs \<Rightarrow> (Inr cs, w\<lparr>trace := trace w @ [Db (Read_relationship (memory_id (obj_row m)) True)]\<rparr>)
      | None \<Rightarrow>
          if sess_closed (sessions w (obj_session m))
          then (Inl (detached_instance_error (lit ''categories'')),
                w\<lparr>trace := trace w @ [Db (Read_relationship (memory_id (obj_row m)) False)]\<rparr>)
          else (Inr (related_categories (session_view w (obj_session m)) (obj_row m)),
                w\<lparr>trace := trace w @ [Db (Read_relationship (memory_id (obj_row m)) True)]\<rparr>))"

text \<open>\<open>x.name\<close> where \<open>x\<close> may be \<open>None\<close>.\<close>

definition attribute_error :: exn where
  "attribute_error =
     Exn True (lit ''AttributeError'')
       (quote @ lit ''NoneType'' @ quote @ lit '' object has no attribute '' @ quote @ lit ''name'' @ quote)"

definition name_of :: "App option \<Rightarrow> pystr prog" where
  "name_of x = (case x of None \<Rightarrow> raise attribute_error | Some a \<Rightarrow> ret (app_name a))"

subsection \<open>The response schema\<close>

text \<open>
  The keyword arguments of \<open>MemoryResponse(...)\<close>. \<open>created_at\<close> is the \<open>datetime\<close>
  itself in the bug demonstration and \<open>int(memory.created_at.timestamp())\<close> in the
  fix; the conversion is kept symbolic.
\<close>

datatype created = Datetime datetime | Timestamp_int datetime

record MemoryResponse_args =
  arg_id :: uuid
  arg_content :: pystr
  arg_created_at :: created
  arg_state :: pystr
  arg_app_id :: uuid
  arg_app_name :: "pystr option"
  arg_categories :: "pystr list"
  arg_metadata :: metadata

record MemoryResponse =
  resp_id :: uuid
  resp_content :: pystr
  resp_created_at :: created
  resp_state :: pystr
  resp_app_id :: uuid
  resp_app_name :: "pystr option"
  resp_categories :: "pystr list"
  resp_metadata :: metadata

text \<open>
  The class \<open>MemoryResponse\<close> is declared in app.schemas, which is not among the
  sources: its constructor is a parameter of the script, a function that validates the
  arguments and returns the response or raises.
\<close>

type_synonym constructor = "MemoryResponse_args \<Rightarrow> MemoryResponse result"

definition construct :: "constructor \<Rightarrow> MemoryResponse_args \<Rightarrow> MemoryResponse prog" where
  "construct MemoryResponse_init args w = (MemoryResponse_init args, w)"

text \<open>\<open>str(x)\<close> of an optional string, and \<open>str\<close> of a list of plain strings.\<close>

definition str_opt :: "pystr option \<Rightarrow> pystr" where
  "str_opt x = (case x of None \<Rightarrow> lit ''None'' | Some s \<Rightarrow> s)"

fun join_with :: "pystr \<Rightarrow> pystr list \<Rightarrow> pystr" where
  "join_with sep [] = []"
| "join_with sep [x] = x"
| "join_with sep (x # y # ys) = x @ sep @ join_with sep (y # ys)"

definition str_list :: "pystr list \<Rightarrow> pystr" where
  "str_list xs = lit ''['' @ join_with (lit '', '') (map (\<lambda>x. quote @ x @ quote) xs) @ lit '']''"

section \<open>The script\<close>

subsection \<open>create\_test\_database and setup\_test\_data\<close>

definition create_test_database :: "(nat \<times> nat) prog" where
  "create_test_database =
     bnd (create_engine memory_url) (\<lambda>engine.
     seq (create_all engine)
     (ret (engine, sessionmaker engine)))"

definition index_error :: exn where
  "index_error = Exn True (lit ''IndexError'') (lit ''list index out of range'')"

text \<open>The objects \<open>setup_test_data\<close> constructs.\<close>

definition new_user :: "uuid \<Rightarrow> User" where
  "new_user uid =
     \<lparr>user_id = uid, user_user_id = lit ''test_user_repro'', user_email = lit ''test@repro.com''\<rparr>"

definition new_app :: "uuid \<Rightarrow> User \<Rightarrow> App" where
  "new_app aid user =
     \<lparr>app_id = aid, app_name = lit ''Test App for Bug Reproduction'', app_owner_id = user_id user\<rparr>"

definition new_category :: "uuid \<Rightarrow> nat \<Rightarrow> Category" where
  "new_category cid i = \<lparr>category_id = cid, category_name = lit ''category_'' @ str_nat (i + 1)\<rparr>"

text \<open>The loop \<open>for i in range(2)\<close> that creates the categories.\<close>

fun create_categories :: "nat \<Rightarrow> nat list \<Rightarrow> Category list \<Rightarrow> Category list prog" where
  "create_categories session [] categories = ret categories"
| "create_categories session (i # rest) categories =
     bnd uuid4 (\<lambda>cid.
     seq (session_add session (PCategory (new_category cid i)))
     (create_categories session rest (categories @ [new_category cid i])))"

text \<open>
  The loop \<open>for i in range(3)\<close> that creates the memories; \<open>categories[i]\<close> raises
  when \<open>i\<close> is out of range.
\<close>

definition new_memory :: "uuid \<Rightarrow> datetime \<Rightarrow> User \<Rightarrow> App \<Rightarrow> nat \<Rightarrow> Memory" where
  "new_memory mid now user app i =
     \<lparr>memory_id = mid,
      memory_content = lit ''Test memory content '' @ str_nat (i + 1) @ lit '' for demonstrating the bug'',
      memory_user_id = user_id user,
      memory_app_id = app_id app,
      memory_state = active,
      memory_created_at = now,
      memory_metadata = [(lit ''test'', JStr (lit ''data_'' @ str_nat i)), (lit ''index'', JInt (int i))]\<rparr>"

fun create_memories ::
  "nat \<Rightarrow> User \<Rightarrow> App \<Rightarrow> Category list \<Rightarrow> nat list \<Rightarrow> Memory list \<Rightarrow> Memory list prog" where
  "create_memories session user app categories [] memories = ret memories"
| "create_memories session user app categories (i # rest) memories =
     bnd uuid4 (\<lambda>mid.
     bnd datetime_now (\<lambda>now.
     bnd (if i < 2
          then (if i < length categories then ret [categories ! i] else raise index_error)
          else ret []) (\<lambda>linked.
     seq (session_add session (PMemory (new_memory mid now user app i) linked))
     (create_memories session user app categories rest
        (memories @ [new_memory mid now user app i])))))"

definition setup_test_data :: "nat \<Rightarrow> (uuid \<times> uuid \<times> uuid list) prog" where
  "setup_test_data session =
     bnd uuid4 (\<lambda>uid.
     let user = new_user uid in
     seq (session_add session (PUser user))
    (seq (session_flush session)
    (bnd uuid4 (\<lambda>aid.
     let app = new_app aid user in
     seq (session_add session (PApp app))
    (seq (session_flush session)
    (bnd (create_categories session [0..<2] []) (\<lambda>categories.
     seq (session_flush session)
    (bnd (create_memories session user app categories [0..<3] []) (\<lambda>memories.
     seq (session_commit session)
    (ret (user_id user, app_id app, map memory_id memories)))))))))))"

subsection \<open>reproduce\_bug\_without\_fix\<close>

text \<open>
  The argument list of \<open>MemoryResponse(...)\<close> in the bug demonstration, evaluated left
  to right: the columns, then \<open>memory.app.name\<close>, then the names of
  \<open>memory.categories\<close>; then the constructor.
\<close>

definition bug_arguments :: "Memory \<Rightarrow> pystr \<Rightarrow> Category list \<Rightarrow> MemoryResponse_args" where
  "bug_arguments row name cats =
     \<lparr>arg_id = memory_id row,
      arg_content = memory_content row,
      arg_created_at = Datetime (memory_created_at row),
      arg_state = state_value (memory_state row),
      arg_app_id = memory_app_id row,
      arg_app_name = Some name,
      arg_categories = map category_name cats,
      arg_metadata = memory_metadata row\<rparr>"

definition bug_serialize :: "constructor \<Rightarrow> Memory_object \<Rightarrow> MemoryResponse prog" where
  "bug_serialize MemoryResponse_init memory =
     bnd (get_app memory) (\<lambda>app.
     bnd (name_of app) (\<lambda>name.
     bnd (get_categories memory) (\<lambda>cats.
     construct MemoryResponse_init (bug_arguments (obj_row memory) name cats))))"

definition bug_handler :: "exn \<Rightarrow> unit prog" where
  "bug_handler e =
     block
       [print (lit ''      '' @ emoji_boom @ lit '' FAILED: '' @ type_name e),
        print (lit ''         Error: '' @ take 100 (message e) @ lit ''...''),
        print (lit ''         ^ This is the bug! Can'' @ quote
               @ lit ''t access relationships after session close'')]"

text \<open>One pass of the loop body; the result is the new value of \<open>failed\<close>.\<close>

definition bug_iteration :: "constructor \<Rightarrow> bool \<Rightarrow> nat \<times> Memory_object \<Rightarrow> bool prog" where
  "bug_iteration MemoryResponse_init failed im =
     try_except
       (seq (print (lit ''   Memory '' @ str_nat (fst im)
                    @ lit '': Attempting to access memory.app.name...''))
       (bnd (bug_serialize MemoryResponse_init (snd im)) (\<lambda>response.
        seq (print (lit ''      '' @ emoji_check @ lit '' Success (unexpected!) - app_name: ''
                    @ str_opt (resp_app_name response)))
       (ret failed))))
       (\<lambda>e. seq (bug_handler e) (ret True))"

fun bug_loop :: "constructor \<Rightarrow> (nat \<times> Memory_object) list \<Rightarrow> bool \<Rightarrow> bool prog" where
  "bug_loop c [] failed = ret failed"
| "bug_loop c (im # rest) failed = bnd (bug_iteration c failed im) (bug_loop c rest)"

text \<open>
  The first half of both demonstrations: the banner is printed by the caller, then
  the database is made and filled inside \<open>with SessionLocal() as session\<close>.
\<close>

definition prepare_database :: "(nat \<times> uuid \<times> uuid \<times> uuid list) prog" where
  "prepare_database =
     bnd create_test_database (\<lambda>(engine, SessionLocal).
     bnd (with_session SessionLocal (\<lambda>session.
            bnd (setup_test_data session) (\<lambda>(uid, aid, memory_ids).
            seq (print (emoji_check @ lit '' Created test data: '' @ str_nat (length memory_ids)
                        @ lit '' memories''))
            (ret (uid, aid, memory_ids))))) (\<lambda>(uid, aid, memory_ids).
     ret (SessionLocal, uid, aid, memory_ids)))"

text \<open>The query of the bug demonstration, and closing its session.\<close>

definition bug_query :: "nat \<Rightarrow> uuid \<Rightarrow> Memory_object list prog" where
  "bug_query SessionLocal uid =
     seq (print (nl @ lit ''Step 1: Query memories WITHOUT eager loading...''))
    (bnd (new_session SessionLocal) (\<lambda>session.
     bnd (query_all (outerjoin_categories (outerjoin_App
            (query_Memory_filter session uid active)))) (\<lambda>memories.
     seq (print (lit ''   '' @ tick @ lit '' Found '' @ str_nat (length memories) @ lit '' memories''))
    (seq (print (nl @ lit ''Step 2: Close the database session (simulating pagination)...''))
    (seq (session_close session)
    (seq (print (lit ''   '' @ tick @ lit '' Session closed''))
    (ret memories)))))))"

definition reproduce_bug_without_fix :: "constructor \<Rightarrow> bool prog" where
  "reproduce_bug_without_fix MemoryResponse_init =
     seq (block [print (nl @ str_mul ''='' 60),
                 print (emoji_bug @ lit '' REPRODUCING THE BUG (WITHOUT FIX)''),
                 print (str_mul ''='' 60)])
    (bnd prepare_database (\<lambda>(SessionLocal, uid, aid, memory_ids).
     bnd (bug_query SessionLocal uid) (\<lambda>memories.
     seq (block [print (nl @ lit ''Step 3: Try to serialize with Pydantic (accessing relationships)...''),
                 print (lit ''   This should fail because relationships weren''
                        @ quote @ lit ''t eager-loaded!'' @ nl)])
    (bnd (bug_loop MemoryResponse_init (enumerate 1 memories) False) (\<lambda>failed.
     if failed
     then seq (print (nl @ emoji_check @ lit '' Bug successfully reproduced!'')) (ret True)
     else seq (print (nl @ emoji_cross
                      @ lit '' Bug not reproduced - this might be SQLite-specific behavior''))
              (ret False))))))"

subsection \<open>demonstrate\_fix\_with\_eager\_loading\<close>

text \<open>
  The argument list in the fix: \<open>memory.app.name if memory.app else None\<close> reads
  \<open>memory.app\<close> for the test and again for the name.
\<close>

definition fix_arguments ::
  "Memory \<Rightarrow> pystr option \<Rightarrow> Category list \<Rightarrow> MemoryResponse_args" where
  "fix_arguments row name cats =
     \<lparr>arg_id = memory_id row,
      arg_content = memory_content row,
      arg_created_at = Timestamp_int (memory_created_at row),
      arg_state = state_value (memory_state row),
      arg_app_id = memory_app_id row,
      arg_app_name = name,
      arg_categories = map category_name cats,
      arg_metadata = memory_metadata row\<rparr>"

definition fix_serialize :: "constructor \<Rightarrow> Memory_object \<Rightarrow> MemoryResponse prog" where
  "fix_serialize MemoryResponse_init memory =
     bnd (get_app memory) (\<lambda>test.
     bnd (case test of None \<Rightarrow> ret None
          | Some _ \<Rightarrow> bnd (get_app memory) (\<lambda>app. bnd (name_of app) (\<lambda>name. ret (Some name))))
         (\<lambda>name.
     bnd (get_categories memory) (\<lambda>cats.
     construct MemoryResponse_init (fix_arguments (obj_row memory) name cats))))"

text \<open>One pass of the loop body; the result is the new value of \<open>success_count\<close>.\<close>

definition fix_iteration :: "constructor \<Rightarrow> nat \<Rightarrow> nat \<times> Memory_object \<Rightarrow> nat prog" where
  "fix_iteration MemoryResponse_init success_count im =
     try_except
       (seq (print (lit ''   Memory '' @ str_nat (fst im)
                    @ lit '': Serializing with eager-loaded data...''))
       (bnd (fix_serialize MemoryResponse_init (snd im)) (\<lambda>response.
        seq (print (lit ''      '' @ emoji_check @ lit '' Success - app_name: '' @ quote
                    @ str_opt (resp_app_name response) @ quote))
       (seq (print (lit ''         categories: '' @ str_list (resp_categories response)))
       (ret (success_count + 1))))))
       (\<lambda>e. seq (print (lit ''      '' @ emoji_boom @ lit '' Failed: '' @ type_name e @ lit '': ''
                         @ take 100 (message e)))
                 (ret success_count))"

fun fix_loop :: "constructor \<Rightarrow> (nat \<times> Memory_object) list \<Rightarrow> nat \<Rightarrow> nat prog" where
  "fix_loop c [] success_count = ret success_count"
| "fix_loop c (im # rest) success_count = bnd (fix_iteration c success_count im) (fix_loop c rest)"

definition fix_query :: "nat \<Rightarrow> uuid \<Rightarrow> Memory_object list prog" where
  "fix_query SessionLocal uid =
     seq (print (nl @ lit ''Step 1: Query memories WITH eager loading (the fix)...''))
    (bnd (new_session SessionLocal) (\<lambda>session.
     bnd (query_all (options_joinedload (outerjoin_categories (outerjoin_App
            (query_Memory_filter session uid active))))) (\<lambda>memories.
     seq (print (lit ''   '' @ tick @ lit '' Found '' @ str_nat (length memories)
                 @ lit '' memories with relationships pre-loaded''))
    (seq (print (nl @ lit ''Step 2: Close the database session...''))
    (seq (session_close session)
    (seq (print (lit ''   '' @ tick @ lit '' Session closed (but data is already loaded!)''))
    (ret memories)))))))"

definition demonstrate_fix_with_eager_loading :: "constructor \<Rightarrow> bool prog" where
  "demonstrate_fix_with_eager_loading MemoryResponse_init =
     seq (block [print (nl @ str_mul ''='' 60),
                 print (emoji_check @ lit '' DEMONSTRATING THE FIX (WITH EAGER LOADING)''),
                 print (str_mul ''='' 60)])
    (bnd prepare_database (\<lambda>(SessionLocal, uid, aid, memory_ids).
     bnd (fix_query SessionLocal uid) (\<lambda>memories.
     seq (print (nl @ lit ''Step 3: Serialize with Pydantic (should work now)...'' @ nl))
    (bnd (fix_loop MemoryResponse_init (enumerate 1 memories) 0) (\<lambda>success_count.
     if success_count = length memories
     then seq (print (nl @ emoji_check @ lit '' Fix confirmed: All '' @ str_nat success_count
                      @ lit '' memories serialized successfully!''))
              (ret True)
     else seq (print (nl @ emoji_warning @ lit ''  Partial success: '' @ str_nat success_count
                      @ lit ''/'' @ str_nat (length memories) @ lit '' serialized''))
              (ret False))))))"

subsection \<open>show\_the\_actual\_code\_diff\<close>

definition before_code :: pystr where
  "before_code = concat
       [nl,
        lit ''# In list_memories() endpoint:'' @ nl,
        nl,
        lit ''query = db.query(Memory).filter(...)'' @ nl,
        lit ''query = query.outerjoin(App, Memory.app_id == App.id)'' @ nl,
        lit ''query = query.outerjoin(Memory.categories)'' @ nl,
        nl,
        lit ''# '' @ emoji_cross @ lit '' Missing: query.options(joinedload(...))'' @ nl,
        nl,
        lit ''# Direct pagination without transformer'' @ nl,
        lit ''paginated_results = sqlalchemy_paginate(query, params)'' @ nl]"

definition after_code :: pystr where
  "after_code = concat
       [nl,
        lit ''# In list_memories() endpoint:'' @ nl,
        nl,
        lit ''query = db.query(Memory).filter(...)'' @ nl,
        lit ''query = query.outerjoin(App, Memory.app_id == App.id)'' @ nl,
        lit ''query = query.outerjoin(Memory.categories)'' @ nl,
        nl,
        lit ''# '' @ emoji_check @ lit '' THE FIX: Add eager loading'' @ nl,
        lit ''query = query.options('' @ nl,
        lit ''    joinedload(Memory.app),'' @ nl,
        lit ''    joinedload(Memory.categories)'' @ nl,
        lit '')'' @ nl,
        nl,
        lit ''# '' @ emoji_check @ lit '' Use transformer for explicit serialization'' @ nl,
        lit ''paginated_results = sqlalchemy_paginate('' @ nl,
        lit ''    query, '' @ nl,
        lit ''    params,'' @ nl,
        lit ''    transformer=lambda items: ['' @ nl,
        lit ''        MemoryResponse('' @ nl,
        lit ''            id=memory.id,'' @ nl,
        lit ''            content=memory.content,'' @ nl,
        lit ''            created_at=memory.created_at,'' @ nl,
        lit ''            state=memory.state.value,'' @ nl,
        lit ''            app_id=memory.app_id,'' @ nl,
        lit ''            app_name=memory.app.name if memory.app else None,'' @ nl,
        lit ''            categories=[cat.name for cat in memory.categories],'' @ nl,
        lit ''            metadata_=memory.metadata_'' @ nl,
        lit ''        )'' @ nl,
        lit ''        for memory in items'' @ nl,
        lit ''    ]'' @ nl,
        lit '')'' @ nl]"

definition show_the_actual_code_diff :: "unit prog" where
  "show_the_actual_code_diff =
     block [print (nl @ str_mul ''='' 60),
            print (emoji_memo @ lit '' THE ACTUAL FIX IN memories.py''),
            print (str_mul ''='' 60),
            print (nl @ emoji_red @ lit '' BEFORE (broken code):''),
            print (str_mul ''-'' 40),
            print before_code,
            print (nl @ emoji_green @ lit '' AFTER (fixed code):''),
            print (str_mul ''-'' 40),
            print after_code]"

subsection \<open>main and the module body\<close>

definition summary :: "bool \<Rightarrow> bool \<Rightarrow> unit prog" where
  "summary bug_reproduced fix_works =
     seq (block [print (nl @ str_mul ''='' 60),
                 print (emoji_chart @ lit '' SUMMARY''),
                 print (str_mul ''='' 60)])
    (seq (if bug_reproduced
          then block [print (nl @ emoji_check @ lit '' Bug successfully reproduced!''),
                      print (lit ''   The error occurs when:''),
                      print (lit ''   1. SQLAlchemy relationships are not eagerly loaded''),
                      print (lit ''   2. Session closes (during pagination)''),
                      print (lit ''   3. Pydantic tries to access relationship fields''),
                      print (lit ''   4. SQLAlchemy can'' @ quote
                             @ lit ''t fetch data without active session'')]
          else block [print (nl @ emoji_warning @ lit ''  Bug not directly reproduced''),
                      print (lit ''   (SQLite may behave differently than PostgreSQL)''),
                      print (lit ''   But the issue is real in production!'')])
    (seq (if fix_works
          then block [print (nl @ emoji_check @ lit '' Fix validated!''),
                      print (lit ''   The solution:''),
                      print (lit ''   1. Use joinedload() to eagerly fetch relationships''),
                      print (lit ''   2. Use explicit transformer in pagination''),
                      print (lit ''   3. Add null safety checks'')]
          else ret ())
    (print (nl @ str_mul ''='' 60))))"

definition main_handler :: "exn \<Rightarrow> unit prog" where
  "main_handler e =
     seq (print (nl @ emoji_boom @ lit '' Unexpected error: '' @ type_name e @ lit '': '' @ message e))
         (print_exc e)"

text \<open>
  \<open>main\<close>, with the three functions it calls as parameters: the body of its
  \<open>try\<close> block, then the banner followed by the \<open>try\<close> statement with its
  \<open>except Exception\<close> handler.
\<close>

definition main_try :: "bool prog \<Rightarrow> bool prog \<Rightarrow> unit prog \<Rightarrow> unit prog" where
  "main_try bug fix diff =
     seq (print (nl @ lit ''Part 1: Attempting to reproduce the bug...''))
    (bnd bug (\<lambda>bug_reproduced.
     seq (print (nl @ lit ''Part 2: Demonstrating the fix...''))
    (bnd fix (\<lambda>fix_works.
     seq diff
    (summary bug_reproduced fix_works)))))"

definition main_with :: "bool prog \<Rightarrow> bool prog \<Rightarrow> unit prog \<Rightarrow> unit prog" where
  "main_with bug fix diff =
     seq (block [print (nl @ str_mul ''='' 60),
                 print (lit '' OpenMemory MCP - Pydantic Validation Bug Reproduction''),
                 print (lit '' Using actual models from openmemory/api/app/''),
                 print (str_mul ''='' 60)])
    (try_except (main_try bug fix diff) main_handler)"

definition main :: "constructor \<Rightarrow> unit prog" where
  "main MemoryResponse_init =
     main_with (reproduce_bug_without_fix MemoryResponse_init)
               (demonstrate_fix_with_eager_loading MemoryResponse_init)
               show_the_actual_code_diff"

subsection \<open>The module body and the process\<close>

definition sys_path_insert :: "unit prog" where
  "sys_path_insert w = (Inr (), w\<lparr>sys_path := script_dir w # sys_path w\<rparr>)"

text \<open>
  The import statements of lines 18 to 23 load \<open>app.models\<close>, \<open>app.schemas\<close> and
  \<open>sqlalchemy\<close>, which are not among the sources. What is not known of them is a
  parameter of the script: the source files the interpreter loads for them, each as the
  directory and the name of the module, and the top-level code of these modules, a
  statement that may do anything and that returns the class \<open>MemoryResponse\<close>.
\<close>

record packages =
  loaded_sources :: "(pystr \<times> pystr) list"
  module_code :: "constructor prog"

text \<open>
  What the interpreter does itself when it loads a source file: it compiles it, and
  unless \<open>sys.dont_write_bytecode\<close> is set or the cache file exists it writes the
  bytecode to \<open>__pycache__/<module>.<cache_tag>.pyc\<close> beside the source. (A cache
  file that exists and is stale is rewritten, which creates no file. The caches are
  written here before the module code runs; the interpreter interleaves the two.)
\<close>

definition cache_file :: "pystr \<Rightarrow> pystr \<times> pystr \<Rightarrow> pystr" where
  "cache_file tag src =
     fst src @ lit ''/__pycache__/'' @ snd src @ lit ''.'' @ tag @ lit ''.pyc''"

fun write_caches :: "(pystr \<times> pystr) list \<Rightarrow> unit prog" where
  "write_caches [] = ret ()"
| "write_caches (src # rest) =
     seq (\<lambda>w. (Inr (),
                if dont_write_bytecode w \<or> cache_file (cache_tag w) src \<in> set (files w) then w
                else w\<lparr>files := files w @ [cache_file (cache_tag w) src]\<rparr>))
         (write_caches rest)"

definition import_statements :: "packages \<Rightarrow> constructor prog" where
  "import_statements pk = seq (write_caches (loaded_sources pk)) (module_code pk)"

text \<open>
  The module body: \<open>sys.path.insert(0, str(Path(__file__).parent))\<close>, the imports,
  and \<open>main()\<close> under \<open>if __name__ == "__main__"\<close>.
\<close>

definition script :: "packages \<Rightarrow> unit prog" where
  "script pk =
     seq sys_path_insert
    (bnd (import_statements pk) (\<lambda>MemoryResponse_init.
     main MemoryResponse_init))"

text \<open>
  The process: the interpreter starts, opens standard output as the environment says,
  sets \<open>sys.dont_write_bytecode\<close> when it was started with \<open>-B\<close> (the value the field
  has before) or when \<open>PYTHONDONTWRITEBYTECODE\<close> is a non-empty string, and runs the
  script.
\<close>

definition interpreter_startup :: "unit prog" where
  "interpreter_startup w =
     (Inr (),
      w\<lparr>stdout_raises := stdio w (environ w),
        dont_write_bytecode :=
          (dont_write_bytecode w \<or>
           (case map_of (environ w) (lit ''PYTHONDONTWRITEBYTECODE'') of
              None \<Rightarrow> False | Some v \<Rightarrow> v \<noteq> []))\<rparr>)"

definition python :: "packages \<Rightarrow> unit prog" where
  "python pk = seq interpreter_startup (script pk)"

text \<open>
  The exit status of the process: 0 when the module body returns. When an exception
  leaves it: for \<open>SystemExit\<close> the status its argument names (0 for none, the integer
  itself, of which the system keeps the low eight bits, 1 for another object, which is
  printed); for \<open>KeyboardInterrupt\<close> 130, the interpreter ending itself by \<open>SIGINT\<close>;
  for any other exception 1, after the traceback.
\<close>

fun exit_status :: "exit_arg \<Rightarrow> nat" where
  "exit_status No_code = 0"
| "exit_status (Int_code n) = nat (n mod 256)"
| "exit_status (Other_code s) = 1"

definition exit_code :: "unit result \<Rightarrow> nat" where
  "exit_code r =
     (case r of
        Inr _ \<Rightarrow> 0
      | Inl (SystemExit a) \<Rightarrow> exit_status a
      | Inl KeyboardInterrupt \<Rightarrow> 130
      | Inl (Exn b n m) \<Rightarrow> 1)"

section \<open>Vocabulary of the properties\<close>

text \<open>A standard output that writes every string the process hands it.\<close>

definition writes_all :: "world \<Rightarrow> bool" where
  "writes_all w = (\<forall>s. stdout_raises w s = None)"

text \<open>The four lines \<open>main\<close> prints before its \<open>try\<close> statement.\<close>

definition banner :: "event list" where
  "banner =
     [Stdout (nl @ str_mul ''='' 60),
      Stdout (lit '' OpenMemory MCP - Pydantic Validation Bug Reproduction''),
      Stdout (lit '' Using actual models from openmemory/api/app/''),
      Stdout (str_mul ''='' 60)]"

text \<open>
  Concrete inputs: a constructor that accepts every argument list, one that rejects
  every argument list with an \<open>Exception\<close>, one that is interrupted, a world at process
  start (its standard output is defined below), one whose \<open>uuid4()\<close> always returns the same value, and a loaded \<open>Memory\<close>
  whose relationships were not pre-fetched and whose session is closed.
\<close>

definition accept_all :: constructor where
  "accept_all a =
     Inr \<lparr>resp_id = arg_id a, resp_content = arg_content a, resp_created_at = arg_created_at a,
          resp_state = arg_state a, resp_app_id = arg_app_id a, resp_app_name = arg_app_name a,
          resp_categories = arg_categories a, resp_metadata = arg_metadata a\<rparr>"

definition validation_error :: exn where
  "validation_error =
     Exn True (lit ''ValidationError'') (lit ''1 validation error for MemoryResponse'')"

definition reject_all :: constructor where
  "reject_all a = Inl validation_error"

definition interrupted :: constructor where
  "interrupted a = Inl KeyboardInterrupt"

text \<open>
  A standard output in UTF-8, the default: it writes every string of characters (a
  lone surrogate, which UTF-8 refuses, is not told apart from a character here). And
  a standard output in ASCII with the error handler \<open>strict\<close>: a string with a
  code point from 128 on raises \<open>UnicodeEncodeError\<close>, whose message names the first
  run of such code points.
\<close>

definition utf8_stdout :: "pystr \<Rightarrow> exn option" where
  "utf8_stdout s = None"

definition hex_digit :: "nat \<Rightarrow> nat" where
  "hex_digit d = (if d < 10 then 48 + d else 87 + d)"

fun hex :: "nat \<Rightarrow> nat \<Rightarrow> pystr" where
  "hex 0 n = []"
| "hex (Suc k) n = hex k (n div 16) @ [hex_digit (n mod 16)]"

definition escaped :: "nat \<Rightarrow> pystr" where
  "escaped c =
     (if c < 256 then (92 # lit ''x'') @ hex 2 c
      else if c < 65536 then (92 # lit ''u'') @ hex 4 c
      else (92 # lit ''U'') @ hex 8 c)"

definition unicode_encode_error :: "pystr \<Rightarrow> exn" where
  "unicode_encode_error s =
     (let i = length (takeWhile (\<lambda>c. c < 128) s);
          n = length (takeWhile (\<lambda>c. 128 \<le> c) (drop i s))
      in Exn True (lit ''UnicodeEncodeError'')
           (quote @ lit ''ascii'' @ quote @ lit '' codec can'' @ quote @ lit ''t encode ''
            @ (if n = 1
               then lit ''character '' @ quote @ escaped (s ! i) @ quote @ lit '' in position ''
                    @ str_nat i
               else lit ''characters in position '' @ str_nat i @ lit ''-'' @ str_nat (i + n - 1))
            @ lit '': ordinal not in range(128)''))"

definition ascii_stdout :: "pystr \<Rightarrow> exn option" where
  "ascii_stdout s = (if list_all (\<lambda>c. c < 128) s then None else Some (unicode_encode_error s))"

text \<open>
  The part of the interpreter's rule that is used here: \<open>PYTHONIOENCODING=ascii\<close>
  gives an ASCII standard output; every other environment is taken to give UTF-8.
\<close>

definition cpython_stdio :: "(pystr \<times> pystr) list \<Rightarrow> pystr \<Rightarrow> exn option" where
  "cpython_stdio env =
     (case map_of env (lit ''PYTHONIOENCODING'') of
        None \<Rightarrow> utf8_stdout
      | Some v \<Rightarrow> if v = lit ''ascii'' then ascii_stdout else utf8_stdout)"

definition world0 :: world where
  "world0 =
     \<lparr>trace = [], dbs = (\<lambda>_. empty_db None), next_engine = 0,
      sessions = (\<lambda>_. \<lparr>sess_engine = 0, sess_pending = [], sess_tx = None, sess_closed = True\<rparr>),
      next_session = 0, uuid_source = (\<lambda>n. 100 + n), uuid_count = 0,
      clock_source = (\<lambda>n. 1700000000 + int n), clock_count = 0, files = [],
      argv = [lit ''repro_bug.py''], environ = [], sys_path = [],
      script_dir = lit ''/repo/openmemory/api'', stdout_raises = utf8_stdout,
      stdio = cpython_stdio, dont_write_bytecode = False, cache_tag = lit ''cpython-312''\<rparr>"

definition world_same_uuid :: world where
  "world_same_uuid = world0\<lparr>uuid_source := (\<lambda>_. 5)\<rparr>"

definition detached_memory :: Memory_object where
  "detached_memory =
     \<lparr>obj_row = new_memory 7 0 (new_user 1) (new_app 2 (new_user 1)) 0, obj_session = 0,
      obj_app = None, obj_categories = None\<rparr>"

text \<open>The world inside \<open>with SessionLocal() as session\<close>, on a new test database.\<close>

definition world_in_session :: world where
  "world_in_session =
     snd (bnd create_test_database (\<lambda>(engine, SessionLocal). new_session SessionLocal) world0)"

text \<open>Another command line and another environment for the same script.\<close>

definition other_argv :: "pystr list" where
  "other_argv = [lit ''repro_bug.py'', lit ''--verbose'', lit ''x'']"

definition other_environ :: "(pystr \<times> pystr) list" where
  "other_environ = [(lit ''DATABASE_URL'', lit ''sqlite:///./openmemory.db'')]"

definition ascii_environ :: "(pystr \<times> pystr) list" where
  "ascii_environ = [(lit ''PYTHONIOENCODING'', lit ''ascii'')]"

text \<open>
  The packages of a checkout in \<open>/repo/openmemory/api\<close> whose modules do nothing but
  define their classes: the interpreter loads three source files of the package
  \<open>app\<close>, and the class \<open>MemoryResponse\<close> is the given constructor.
\<close>

definition checkout :: "constructor \<Rightarrow> packages" where
  "checkout c =
     \<lparr>loaded_sources =
        [(lit ''/repo/openmemory/api/app'', lit ''__init__''),
         (lit ''/repo/openmemory/api/app'', lit ''models''),
         (lit ''/repo/openmemory/api/app'', lit ''schemas'')],
      module_code = ret c\<rparr>"

text \<open>
  The rows \<open>setup_test_data\<close> writes when it starts in world \<open>w\<close>: the user takes
  the next value of \<open>uuid4()\<close>, the app the one after, then the two categories and
  the three memories, which also take the next three readings of the clock.
\<close>

definition test_user :: "world \<Rightarrow> User" where
  "test_user w = new_user (uuid_source w (uuid_count w))"

definition test_app :: "world \<Rightarrow> App" where
  "test_app w = new_app (uuid_source w (uuid_count w + 1)) (test_user w)"

definition test_categories :: "world \<Rightarrow> Category list" where
  "test_categories w =
     [new_category (uuid_source w (uuid_count w + 2)) 0,
      new_category (uuid_source w (uuid_count w + 3)) 1]"

definition test_memories :: "world \<Rightarrow> Memory list" where
  "test_memories w =
     [new_memory (uuid_source w (uuid_count w + 4)) (clock_source w (clock_count w))
        (test_user w) (test_app w) 0,
      new_memory (uuid_source w (uuid_count w + 5)) (clock_source w (clock_count w + 1))
        (test_user w) (test_app w) 1,
      new_memory (uuid_source w (uuid_count w + 6)) (clock_source w (clock_count w + 2))
        (test_user w) (test_app w) 2]"

definition test_links :: "world \<Rightarrow> (uuid \<times> uuid) list" where
  "test_links w =
     [(uuid_source w (uuid_count w + 4), uuid_source w (uuid_count w + 2)),
      (uuid_source w (uuid_count w + 5), uuid_source w (uuid_count w + 3))]"

text \<open>
  The values of \<open>uuid4()\<close> that must differ for the inserts into a new database to
  succeed: the two category ids, and the three memory ids.
\<close>

definition fresh_uuids :: "world \<Rightarrow> bool" where
  "fresh_uuids w =
     (uuid_source w (uuid_count w + 2) \<noteq> uuid_source w (uuid_count w + 3) \<and>
      distinct [uuid_source w (uuid_count w + 4), uuid_source w (uuid_count w + 5),
                uuid_source w (uuid_count w + 6)])"

text \<open>The database of a demonstration once \<open>setup_test_data\<close> has committed.\<close>

definition test_db :: "world \<Rightarrow> db" where
  "test_db w =
     \<lparr>db_file = None, has_schema = True, tbl_users = [test_user w], tbl_apps = [test_app w],
      tbl_categories = test_categories w, tbl_memories = test_memories w,
      tbl_memory_categories = test_links w\<rparr>"

definition closed_session :: "nat \<Rightarrow> session" where
  "closed_session e = \<lparr>sess_engine = e, sess_pending = [], sess_tx = None, sess_closed = True\<rparr>"

text \<open>
  What \<open>prepare_database\<close> adds to the trace, and the world it leaves, when the
  values of \<open>uuid4()\<close> are fresh.
\<close>

definition prepare_trace :: "world \<Rightarrow> event list" where
  "prepare_trace w =
     [Db (Create_engine (next_engine w) memory_url),
      Db (Create_all (next_engine w)),
      Db (Open_session (next_session w) (next_engine w)),
      Db (Flush (next_session w) 1),
      Db (Flush (next_session w) 1),
      Db (Flush (next_session w) 2),
      Db (Flush (next_session w) 3),
      Db (Commit (next_session w)),
      Stdout (emoji_check @ lit '' Created test data: '' @ str_nat 3 @ lit '' memories''),
      Db (Close_session (next_session w))]"

definition after_prepare :: "world \<Rightarrow> world" where
  "after_prepare w =
     w\<lparr>trace := trace w @ prepare_trace w,
       dbs := (dbs w)(next_engine w := test_db w),
       next_engine := next_engine w + 1,
       sessions := (sessions w)(next_session w := closed_session (next_engine w)),
       next_session := next_session w + 1,
       uuid_count := uuid_count w + 7,
       clock_count := clock_count w + 3\<rparr>"

text \<open>
  The objects the two queries return for the rows above: without pre-fetching, and
  with both relationships pre-fetched.
\<close>

definition lazy_objects :: "nat \<Rightarrow> world \<Rightarrow> Memory_object list" where
  "lazy_objects h w =
     map (\<lambda>m. \<lparr>obj_row = m, obj_session = h, obj_app = None, obj_categories = None\<rparr>)
         (test_memories w)"

definition eager_objects :: "nat \<Rightarrow> world \<Rightarrow> Memory_object list" where
  "eager_objects h w =
     map (\<lambda>(m, cs). \<lparr>obj_row = m, obj_session = h, obj_app = Some (Some (test_app w)),
                        obj_categories = Some cs\<rparr>)
         (zip (test_memories w)
              [[new_category (uuid_source w (uuid_count w + 2)) 0],
               [new_category (uuid_source w (uuid_count w + 3)) 1],
               []])"

definition bug_query_trace :: "nat \<Rightarrow> nat \<Rightarrow> event list" where
  "bug_query_trace h e =
     [Stdout (nl @ lit ''Step 1: Query memories WITHOUT eager loading...''),
      Db (Open_session h e),
      Db (Query_all h False),
      Stdout (lit ''   '' @ tick @ lit '' Found '' @ str_nat 3 @ lit '' memories''),
      Stdout (nl @ lit ''Step 2: Close the database session (simulating pagination)...''),
      Db (Close_session h),
      Stdout (lit ''   '' @ tick @ lit '' Session closed'')]"

definition fix_query_trace :: "nat \<Rightarrow> nat \<Rightarrow> event list" where
  "fix_query_trace h e =
     [Stdout (nl @ lit ''Step 1: Query memories WITH eager loading (the fix)...''),
      Db (Open_session h e),
      Db (Query_all h True),
      Stdout (lit ''   '' @ tick @ lit '' Found '' @ str_nat 3
              @ lit '' memories with relationships pre-loaded''),
      Stdout (nl @ lit ''Step 2: Close the database session...''),
      Db (Close_session h),
      Stdout (lit ''   '' @ tick @ lit '' Session closed (but data is already loaded!)'')]"

definition after_query :: "event list \<Rightarrow> nat \<Rightarrow> world \<Rightarrow> world" where
  "after_query t e w =
     w\<lparr>trace := trace w @ t,
       sessions := (sessions w)(next_session w := closed_session e),
       next_session := next_session w + 1\<rparr>"

text \<open>
  What one pass of the loop of the bug demonstration adds to the trace for a memory
  whose \<open>app\<close> was not pre-fetched and whose session is closed.
\<close>

definition bug_pass_trace :: "nat \<times> Memory_object \<Rightarrow> event list" where
  "bug_pass_trace im =
     [Stdout (lit ''   Memory '' @ str_nat (fst im)
              @ lit '': Attempting to access memory.app.name...''),
      Db (Read_relationship (memory_id (obj_row (snd im))) False),
      Stdout (lit ''      '' @ emoji_boom @ lit '' FAILED: ''
              @ type_name (detached_instance_error (lit ''app''))),
      Stdout (lit ''         Error: ''
              @ take 100 (message (detached_instance_error (lit ''app''))) @ lit ''...''),
      Stdout (lit ''         ^ This is the bug! Can'' @ quote
              @ lit ''t access relationships after session close'')]"

text \<open>
  A memory with both relationships pre-fetched and an app, the argument list the fix
  builds for it, and whether the constructor accepts that list.
\<close>

definition prefetched :: "Memory_object \<Rightarrow> bool" where
  "prefetched m =
     (case obj_app m of
        Some (Some a) \<Rightarrow> (case obj_categories m of Some cs \<Rightarrow> True | None \<Rightarrow> False)
      | _ \<Rightarrow> False)"

definition loaded_arguments :: "Memory_object \<Rightarrow> MemoryResponse_args" where
  "loaded_arguments m =
     fix_arguments (obj_row m)
       (case obj_app m of Some (Some a) \<Rightarrow> Some (app_name a) | _ \<Rightarrow> None)
       (case obj_categories m of Some cs \<Rightarrow> cs | None \<Rightarrow> [])"

definition serializes :: "constructor \<Rightarrow> Memory_object \<Rightarrow> bool" where
  "serializes c m = (case c (loaded_arguments m) of Inr r \<Rightarrow> True | Inl e \<Rightarrow> False)"

text \<open>What one pass of the loop of the fix adds to the trace for a pre-fetched memory.\<close>

definition fix_pass_trace :: "constructor \<Rightarrow> nat \<times> Memory_object \<Rightarrow> event list" where
  "fix_pass_trace c im =
     [Stdout (lit ''   Memory '' @ str_nat (fst im)
              @ lit '': Serializing with eager-loaded data...''),
      Db (Read_relationship (memory_id (obj_row (snd im))) True),
      Db (Read_relationship (memory_id (obj_row (snd im))) True),
      Db (Read_relationship (memory_id (obj_row (snd im))) True)]
     @ (case c (loaded_arguments (snd im)) of
          Inr response \<Rightarrow>
            [Stdout (lit ''      '' @ emoji_check @ lit '' Success - app_name: '' @ quote
                     @ str_opt (resp_app_name response) @ quote),
             Stdout (lit ''         categories: '' @ str_list (resp_categories response))]
        | Inl e \<Rightarrow>
            if is_Exception e
            then [Stdout (lit ''      '' @ emoji_boom @ lit '' Failed: '' @ type_name e @ lit '': ''
                          @ take 100 (message e))]
            else [])"

text \<open>
  The trace of each demonstration that starts in world \<open>w\<close> with fresh values of
  \<open>uuid4()\<close>, and the world it leaves: one more database, two more sessions, both
  closed.
\<close>

definition bug_banner :: "event list" where
  "bug_banner =
     [Stdout (nl @ str_mul ''='' 60),
      Stdout (emoji_bug @ lit '' REPRODUCING THE BUG (WITHOUT FIX)''),
      Stdout (str_mul ''='' 60)]"

definition fix_banner :: "event list" where
  "fix_banner =
     [Stdout (nl @ str_mul ''='' 60),
      Stdout (emoji_check @ lit '' DEMONSTRATING THE FIX (WITH EAGER LOADING)''),
      Stdout (str_mul ''='' 60)]"

definition bug_demo_trace :: "world \<Rightarrow> event list" where
  "bug_demo_trace w =
     bug_banner @ prepare_trace w
     @ bug_query_trace (next_session w + 1) (next_engine w)
     @ [Stdout (nl @ lit ''Step 3: Try to serialize with Pydantic (accessing relationships)...''),
        Stdout (lit ''   This should fail because relationships weren''
                @ quote @ lit ''t eager-loaded!'' @ nl)]
     @ concat (map bug_pass_trace (enumerate 1 (lazy_objects (next_session w + 1) w)))
     @ [Stdout (nl @ emoji_check @ lit '' Bug successfully reproduced!'')]"

definition fix_demo_trace :: "constructor \<Rightarrow> world \<Rightarrow> event list" where
  "fix_demo_trace c w =
     fix_banner @ prepare_trace w
     @ fix_query_trace (next_session w + 1) (next_engine w)
     @ [Stdout (nl @ lit ''Step 3: Serialize with Pydantic (should work now)...'' @ nl)]
     @ concat (map (fix_pass_trace c) (enumerate 1 (eager_objects (next_session w + 1) w)))
     @ [Stdout
          (if list_all (serializes c) (eager_objects (next_session w + 1) w)
           then nl @ emoji_check @ lit '' Fix confirmed: All '' @ str_nat 3
                @ lit '' memories serialized successfully!''
           else nl @ emoji_warning @ lit ''  Partial success: ''
                @ str_nat (length (filter (serializes c) (eager_objects (next_session w + 1) w)))
                @ lit ''/'' @ str_nat 3 @ lit '' serialized'')]"

definition after_demo :: "event list \<Rightarrow> world \<Rightarrow> world" where
  "after_demo t w =
     w\<lparr>trace := trace w @ t,
       dbs := (dbs w)(next_engine w := test_db w),
       next_engine := next_engine w + 1,
       sessions := (sessions w)
         (next_session w := closed_session (next_engine w),
          next_session w + 1 := closed_session (next_engine w)),
       next_session := next_session w + 2,
       uuid_count := uuid_count w + 7,
       clock_count := clock_count w + 3\<rparr>"

text \<open>The last statement of \<open>demonstrate_fix_with_eager_loading\<close>, for \<open>expected = len(memories)\<close>.\<close>

definition fix_verdict :: "nat \<Rightarrow> nat \<Rightarrow> bool prog" where
  "fix_verdict expected success_count =
     (if success_count = expected
      then seq (print (nl @ emoji_check @ lit '' Fix confirmed: All '' @ str_nat success_count
                       @ lit '' memories serialized successfully!''))
               (ret True)
      else seq (print (nl @ emoji_warning @ lit ''  Partial success: '' @ str_nat success_count
                       @ lit ''/'' @ str_nat expected @ lit '' serialized''))
               (ret False))"

text \<open>
  The lines of \<open>show_the_actual_code_diff\<close> and of the summary, and the database calls
  of a trace.
\<close>

definition diff_trace :: "event list" where
  "diff_trace =
     [Stdout (nl @ str_mul ''='' 60),
      Stdout (emoji_memo @ lit '' THE ACTUAL FIX IN memories.py''),
      Stdout (str_mul ''='' 60),
      Stdout (nl @ emoji_red @ lit '' BEFORE (broken code):''),
      Stdout (str_mul ''-'' 40),
      Stdout before_code,
      Stdout (nl @ emoji_green @ lit '' AFTER (fixed code):''),
      Stdout (str_mul ''-'' 40),
      Stdout after_code]"

definition summary_trace :: "bool \<Rightarrow> bool \<Rightarrow> event list" where
  "summary_trace bug_reproduced fix_works =
     [Stdout (nl @ str_mul ''='' 60),
      Stdout (emoji_chart @ lit '' SUMMARY''),
      Stdout (str_mul ''='' 60)]
     @ (if bug_reproduced
        then [Stdout (nl @ emoji_check @ lit '' Bug successfully reproduced!''),
              Stdout (lit ''   The error occurs when:''),
              Stdout (lit ''   1. SQLAlchemy relationships are not eagerly loaded''),
              Stdout (lit ''   2. Session closes (during pagination)''),
              Stdout (lit ''   3. Pydantic tries to access relationship fields''),
              Stdout (lit ''   4. SQLAlchemy can'' @ quote
                      @ lit ''t fetch data without active session'')]
        else [Stdout (nl @ emoji_warning @ lit ''  Bug not directly reproduced''),
              Stdout (lit ''   (SQLite may behave differently than PostgreSQL)''),
              Stdout (lit ''   But the issue is real in production!'')])
     @ (if fix_works
        then [Stdout (nl @ emoji_check @ lit '' Fix validated!''),
              Stdout (lit ''   The solution:''),
              Stdout (lit ''   1. Use joinedload() to eagerly fetch relationships''),
              Stdout (lit ''   2. Use explicit transformer in pagination''),
              Stdout (lit ''   3. Add null safety checks'')]
        else [])
     @ [Stdout (nl @ str_mul ''='' 60)]"

fun db_ops :: "event list \<Rightarrow> db_op list" where
  "db_ops [] = []"
| "db_ops (Db d # t) = d # db_ops t"
| "db_ops (Stdout s # t) = db_ops t"
| "db_ops (Stderr_traceback e # t) = db_ops t"

text \<open>The database calls of one demonstration, by its engine, sessions and memory ids.\<close>

definition demo_ops :: "nat \<Rightarrow> nat \<Rightarrow> bool \<Rightarrow> db_op list" where
  "demo_ops e h eager =
     [Create_engine e memory_url, Create_all e, Open_session h e,
      Flush h 1, Flush h 1, Flush h 2, Flush h 3, Commit h, Close_session h,
      Open_session (h + 1) e, Query_all (h + 1) eager, Close_session (h + 1)]"

text \<open>The tracebacks a trace holds, and the world in which \<open>main\<close> calls each step.\<close>

fun tracebacks :: "event list \<Rightarrow> exn list" where
  "tracebacks [] = []"
| "tracebacks (Stderr_traceback e # t) = e # tracebacks t"
| "tracebacks (Stdout s # t) = tracebacks t"
| "tracebacks (Db d # t) = tracebacks t"

definition entering_bug :: "world \<Rightarrow> world" where
  "entering_bug w =
     w\<lparr>trace := trace w @ banner
        @ [Stdout (nl @ lit ''Part 1: Attempting to reproduce the bug...'')]\<rparr>"

definition entering_fix :: "world \<Rightarrow> world" where
  "entering_fix w = w\<lparr>trace := trace w @ [Stdout (nl @ lit ''Part 2: Demonstrating the fix...'')]\<rparr>"

definition unexpected_error :: "exn \<Rightarrow> event list" where
  "unexpected_error e =
     [Stdout (nl @ emoji_boom @ lit '' Unexpected error: '' @ type_name e @ lit '': '' @ message e),
      Stderr_traceback e]"

text \<open>
  The argument lists the fix builds for the rows above, and what its loop computes
  from the constructor's answers alone: the number of accepted lists, unless the
  constructor raises something that is not an \<open>Exception\<close>.
\<close>

definition test_arguments :: "world \<Rightarrow> MemoryResponse_args list" where
  "test_arguments w = map loaded_arguments (eager_objects 0 w)"

fun count_accepted :: "constructor \<Rightarrow> MemoryResponse_args list \<Rightarrow> nat \<Rightarrow> exn + nat" where
  "count_accepted c [] n = Inr n"
| "count_accepted c (a # rest) n =
     (case c a of
        Inr r \<Rightarrow> count_accepted c rest (n + 1)
      | Inl e \<Rightarrow> if is_Exception e then count_accepted c rest n else Inl e)"

definition fix_outcome :: "constructor \<Rightarrow> world \<Rightarrow> exn + bool" where
  "fix_outcome c w =
     (case count_accepted c (test_arguments w) 0 of Inl e \<Rightarrow> Inl e | Inr k \<Rightarrow> Inr (k = 3))"

text \<open>
  A statement that neither reads nor writes \<open>argv\<close>, \<open>environ\<close> and \<open>sys_path\<close>,
  creates no file and leaves standard output as it is: started with other values of
  the three, it gives the same result and the same world but for these values.
\<close>

definition confined :: "'a prog \<Rightarrow> bool" where
  "confined m =
     (\<forall>w a e p.
        m (w\<lparr>argv := a, environ := e, sys_path := p\<rparr>) =
          (fst (m w), (snd (m w))\<lparr>argv := a, environ := e, sys_path := p\<rparr>) \<and>
        files (snd (m w)) = files w \<and>
        stdout_raises (snd (m w)) = stdout_raises w)"

text \<open>
  The events of a trace that standard output accepts; the line the handler of \<open>main\<close>
  prints for an exception; what that handler does in the world in which it runs: it
  prints the line and the traceback and returns, or its \<open>print\<close> raises; and the body of
  the \<open>try\<close> statement of \<open>main\<close>.
\<close>

fun accepted :: "world \<Rightarrow> event \<Rightarrow> bool" where
  "accepted w (Stdout s) = (stdout_raises w s = None)"
| "accepted w (Stderr_traceback e) = True"
| "accepted w (Db d) = True"

definition accepts :: "world \<Rightarrow> event list \<Rightarrow> bool" where
  "accepts w t = list_all (accepted w) t"

definition handler_line :: "exn \<Rightarrow> pystr" where
  "handler_line e =
     nl @ emoji_boom @ lit '' Unexpected error: '' @ type_name e @ lit '': '' @ message e"

definition reported :: "exn \<Rightarrow> world \<Rightarrow> unit result \<times> world" where
  "reported e w =
     (case stdout_raises w (handler_line e) of
        None \<Rightarrow> (Inr (), w\<lparr>trace := trace w @ unexpected_error e\<rparr>)
      | Some x \<Rightarrow> (Inl x, w))"

definition try_body :: "constructor \<Rightarrow> unit prog" where
  "try_body c =
     main_try (reproduce_bug_without_fix c) (demonstrate_fix_with_eager_loading c)
       show_the_actual_code_diff"

text \<open>
  A standard output that is a pipe whose reader has gone, written without buffering
  (\<open>python -u\<close>): every write raises \<open>BrokenPipeError\<close>. And the world at process start
  with this standard output, and with the ASCII one.
\<close>

definition broken_pipe_error :: exn where
  "broken_pipe_error = Exn True (lit ''BrokenPipeError'') (lit ''[Errno 32] Broken pipe'')"

definition broken_stdout :: "pystr \<Rightarrow> exn option" where
  "broken_stdout s = Some broken_pipe_error"

definition broken_world :: world where
  "broken_world = world0\<lparr>stdout_raises := broken_stdout\<rparr>"

definition ascii_world :: world where
  "ascii_world = world0\<lparr>stdout_raises := ascii_stdout\<rparr>"

text \<open>
  The world in which the import statements run: the interpreter has started and the
  script has put its directory first in \<open>sys.path\<close>. And a statement whose result and
  effects do not depend on \<open>argv\<close> and \<open>environ\<close>, and that leaves them alone.
\<close>

definition booted :: "world \<Rightarrow> world" where
  "booted w = snd (sys_path_insert (snd (interpreter_startup w)))"

definition ignores_environment :: "'a prog \<Rightarrow> bool" where
  "ignores_environment m =
     (\<forall>w a e. m (w\<lparr>argv := a, environ := e\<rparr>) =
                (fst (m w), (snd (m w))\<lparr>argv := a, environ := e\<rparr>))"

text \<open>The cache files the interpreter writes for the sources of a checkout.\<close>

definition checkout_caches :: "pystr list" where
  "checkout_caches =
     [lit ''/repo/openmemory/api/app/__pycache__/__init__.cpython-312.pyc'',
      lit ''/repo/openmemory/api/app/__pycache__/models.cpython-312.pyc'',
      lit ''/repo/openmemory/api/app/__pycache__/schemas.cpython-312.pyc'']"

section \<open>Running statements\<close>

lemma writes_all_update [simp]:
  "writes_all (w\<lparr>trace := t\<rparr>) = writes_all w"
  "writes_all (w\<lparr>dbs := d\<rparr>) = writes_all w"
  "writes_all (w\<lparr>next_engine := n\<rparr>) = writes_all w"
  "writes_all (w\<lparr>sessions := ss\<rparr>) = writes_all w"
  "writes_all (w\<lparr>next_session := n\<rparr>) = writes_all w"
  "writes_all (w\<lparr>uuid_source := us\<rparr>) = writes_all w"
  "writes_all (w\<lparr>uuid_count := n\<rparr>) = writes_all w"
  "writes_all (w\<lparr>clock_source := cs\<rparr>) = writes_all w"
  "writes_all (w\<lparr>clock_count := n\<rparr>) = writes_all w"
  "writes_all (w\<lparr>files := fs\<rparr>) = writes_all w"
  "writes_all (w\<lparr>argv := a\<rparr>) = writes_all w"
  "writes_all (w\<lparr>environ := e\<rparr>) = writes_all w"
  "writes_all (w\<lparr>sys_path := p\<rparr>) = writes_all w"
  "writes_all (w\<lparr>script_dir := sd\<rparr>) = writes_all w"
  "writes_all (w\<lparr>stdio := io\<rparr>) = writes_all w"
  "writes_all (w\<lparr>dont_write_bytecode := b\<rparr>) = writes_all w"
  "writes_all (w\<lparr>cache_tag := tg\<rparr>) = writes_all w"
  by (simp_all add: writes_all_def)

lemma print_run: "writes_all w \<Longrightarrow> print s w = (Inr (), w\<lparr>trace := trace w @ [Stdout s]\<rparr>)"
  by (simp add: print_def emit_def writes_all_def)

lemma seq_print: "writes_all w \<Longrightarrow> seq (print s) m w = m (w\<lparr>trace := trace w @ [Stdout s]\<rparr>)"
  by (simp add: seq_def bnd_def print_run)

lemma bnd_Inr: "m w = (Inr x, w') \<Longrightarrow> bnd m f w = f x w'"
  by (simp add: bnd_def)

lemma bnd_Inl: "m w = (Inl e, w') \<Longrightarrow> bnd m f w = (Inl e, w')"
  by (simp add: bnd_def)

lemma seq_Inr: "m w = (Inr x, w') \<Longrightarrow> seq m n w = n w'"
  by (simp add: seq_def bnd_def)

lemma seq_Inl: "m w = (Inl e, w') \<Longrightarrow> seq m n w = (Inl e, w')"
  by (simp add: seq_def bnd_def)

lemma try_except_Inr: "body w = (Inr x, w') \<Longrightarrow> try_except body handler w = (Inr x, w')"
  by (simp add: try_except_def)

lemma try_except_caught:
  "body w = (Inl e, w') \<Longrightarrow> is_Exception e \<Longrightarrow> try_except body handler w = handler e w'"
  by (simp add: try_except_def)

lemma try_except_passed:
  "body w = (Inl e, w') \<Longrightarrow> \<not> is_Exception e \<Longrightarrow> try_except body handler w = (Inl e, w')"
  by (simp add: try_except_def)

lemma seq_assoc: "seq (seq a b) c = seq a (seq b c)"
  by (rule ext) (simp add: seq_def bnd_def split: prod.splits sum.splits)

lemma seq_ret: "seq (ret ()) m = m"
  by (rule ext) (simp add: seq_def bnd_def ret_def)

lemma bnd_ret: "bnd (ret x) f = f x"
  by (rule ext) (simp add: bnd_def ret_def)

lemma bnd_seq: "bnd (seq a b) f = seq a (bnd b f)"
  by (rule ext) (simp add: seq_def bnd_def split: prod.splits sum.splits)

lemma main_handler_run:
  "writes_all w \<Longrightarrow> main_handler e w =
     (Inr (), w\<lparr>trace := trace w @
        [Stdout (nl @ emoji_boom @ lit '' Unexpected error: '' @ type_name e @ lit '': '' @ message e),
         Stderr_traceback e]\<rparr>)"
  by (simp add: main_handler_def seq_print print_exc_def emit_def)

lemma main_with_run:
  "writes_all w \<Longrightarrow> main_with bug_step fix_step diff_step w =
     try_except (main_try bug_step fix_step diff_step) main_handler (w\<lparr>trace := trace w @ banner\<rparr>)"
  by (simp add: main_with_def banner_def seq_assoc seq_ret seq_print)

lemma sys_path_insert_run: "sys_path_insert w = (Inr (), w\<lparr>sys_path := script_dir w # sys_path w\<rparr>)"
  by (simp add: sys_path_insert_def)

section \<open>Running the database preparation and the queries\<close>

lemma plus_Suc_numerals:
  "n + 1 = Suc n" "n + 2 = Suc (Suc n)" "n + 3 = Suc (Suc (Suc n))"
  "n + 4 = Suc (Suc (Suc (Suc n)))" "n + 5 = Suc (Suc (Suc (Suc (Suc n))))"
  "n + 6 = Suc (Suc (Suc (Suc (Suc (Suc n)))))"
  "n + 7 = Suc (Suc (Suc (Suc (Suc (Suc (Suc n))))))"
  by simp_all

lemma Suc_numerals: "Suc (Suc 0) = 2" "Suc (Suc (Suc 0)) = 3"
  by simp_all

lemma range2: "[0..<2] = [0, Suc 0]"
  by (simp add: upt_rec numeral_2_eq_2)

lemma range3: "[0..<3] = [0, Suc 0, 2]"
  by (simp add: upt_rec numeral_3_eq_3 numeral_2_eq_2)

lemmas run_defs = bnd_def seq_def ret_def raise_def uuid4_def datetime_now_def print_run emit_def
  session_add_def session_flush_def session_commit_def commit_tx_def session_close_def
  session_view_def new_session_def create_engine_def create_all_def sessionmaker_def
  with_session_def Let_def

lemmas test_defs = test_user_def test_app_def test_categories_def test_memories_def
  test_links_def


lemma prepare_database_run:
  assumes "fresh_uuids w" and "writes_all w"
  shows "prepare_database w =
           (Inr (next_engine w, user_id (test_user w), app_id (test_app w),
                 map memory_id (test_memories w)),
            after_prepare w)"
  using assms
  apply (simp add: prepare_database_def create_test_database_def setup_test_data_def run_defs
      range2 range3 test_defs plus_Suc_numerals fresh_uuids_def after_prepare_def prepare_trace_def
      test_db_def closed_session_def empty_db_def
      new_user_def new_app_def new_memory_def new_category_def Suc_numerals)
  done


lemmas query_defs = query_Memory_filter_def outerjoin_App_def outerjoin_categories_def
  options_joinedload_def

lemma select_test_db:
  assumes "fresh_uuids w" and "q_user_id q = user_id (test_user w)" and "q_state q = active"
  shows "uniq_by memory_id (map (fst \<circ> fst) (select_rows (test_db w) q)) = test_memories w"
  using assms
  by (cases "q_outerjoin_app q"; cases "q_outerjoin_categories q")
     (simp_all add: select_rows_def outer_join_def related_categories_def test_db_def test_defs
       fresh_uuids_def new_user_def new_app_def new_memory_def new_category_def)

lemma related_test_db:
  assumes "fresh_uuids w"
  shows "map (related_app (test_db w)) (test_memories w) =
           [Some (test_app w), Some (test_app w), Some (test_app w)]"
    and "map (related_categories (test_db w)) (test_memories w) =
           [[new_category (uuid_source w (uuid_count w + 2)) 0],
            [new_category (uuid_source w (uuid_count w + 3)) 1], []]"
  using assms
  by (simp_all add: related_app_def related_categories_def test_db_def test_defs
       fresh_uuids_def new_user_def new_app_def new_memory_def new_category_def)

lemma bug_query_run:
  assumes "fresh_uuids w0" and "dbs w e = test_db w0" and "writes_all w"
  shows "bug_query e (user_id (test_user w0)) w =
           (Inr (lazy_objects (next_session w) w0),
            after_query (bug_query_trace (next_session w) e) e w)"
proof -
  let ?q = "outerjoin_categories (outerjoin_App
              (query_Memory_filter (next_session w) (user_id (test_user w0)) active))"
  have sel: "uniq_by memory_id (map (fst \<circ> fst) (select_rows (test_db w0) ?q)) = test_memories w0"
    by (rule select_test_db[OF assms(1)]) (simp_all add: query_defs)
  have len: "length (test_memories w0) = 3"
    by (simp add: test_memories_def)
  show ?thesis
    using assms(2,3) sel len
    by (simp add: bug_query_def query_all_def run_defs query_defs after_query_def
        bug_query_trace_def lazy_objects_def load_object_def closed_session_def test_db_def)
qed

lemma fix_query_run:
  assumes "fresh_uuids w0" and "dbs w e = test_db w0" and "writes_all w"
  shows "fix_query e (user_id (test_user w0)) w =
           (Inr (eager_objects (next_session w) w0),
            after_query (fix_query_trace (next_session w) e) e w)"
proof -
  let ?q = "options_joinedload (outerjoin_categories (outerjoin_App
              (query_Memory_filter (next_session w) (user_id (test_user w0)) active)))"
  have sel: "uniq_by memory_id (map (fst \<circ> fst) (select_rows (test_db w0) ?q)) = test_memories w0"
    by (rule select_test_db[OF assms(1)]) (simp_all add: query_defs)
  have objs: "map (load_object (test_db w0) ?q) (test_memories w0) = eager_objects (next_session w) w0"
    using related_test_db[OF assms(1)]
    by (simp add: load_object_def eager_objects_def query_defs test_memories_def)
  have len: "length (eager_objects (next_session w) w0) = 3"
    by (simp add: eager_objects_def test_memories_def)
  have schema: "has_schema (test_db w0)"
    by (simp add: test_db_def)
  show ?thesis
    using assms(2,3) sel objs len schema
    by (simp add: fix_query_def query_all_def run_defs after_query_def
        fix_query_trace_def closed_session_def query_defs[THEN arg_cong[where f=q_session]]
        query_defs[THEN arg_cong[where f=q_joinedload_app]]
        query_defs[THEN arg_cong[where f=q_joinedload_categories]])
qed

section \<open>Running the two loops\<close>

lemma bug_iteration_detached:
  assumes "obj_app (snd im) = None" and "sess_closed (sessions w (obj_session (snd im)))"
    and "writes_all w"
  shows "bug_iteration c failed im w = (Inr True, w\<lparr>trace := trace w @ bug_pass_trace im\<rparr>)"
  using assms
  by (simp add: bug_iteration_def try_except_def seq_print bug_serialize_def get_app_def bnd_def
      detached_instance_error_def bug_handler_def seq_assoc seq_ret ret_def bug_pass_trace_def)

lemma bug_loop_detached:
  assumes "list_all (\<lambda>im. obj_app (snd im) = None \<and> sess_closed (sessions w (obj_session (snd im)))) ims"
    and "writes_all w"
  shows "bug_loop c ims failed w =
           (Inr (failed \<or> ims \<noteq> []), w\<lparr>trace := trace w @ concat (map bug_pass_trace ims)\<rparr>)"
  using assms
proof (induction ims arbitrary: failed w)
  case Nil
  then show ?case by (simp add: ret_def)
next
  case (Cons im ims)
  from Cons.prems have hd: "obj_app (snd im) = None" "sess_closed (sessions w (obj_session (snd im)))"
    "writes_all w"
    by simp_all
  let ?w = "w\<lparr>trace := trace w @ bug_pass_trace im\<rparr>"
  from Cons.prems
  have tl: "list_all (\<lambda>im. obj_app (snd im) = None \<and> sess_closed (sessions ?w (obj_session (snd im)))) ims"
    "writes_all ?w"
    by simp_all
  show ?case
    by (simp add: bnd_def bug_iteration_detached[OF hd] Cons.IH[OF tl])
qed

lemma fix_iteration_run:
  assumes "prefetched (snd im)" and "writes_all w"
  shows "fix_iteration c n im w =
           (case c (loaded_arguments (snd im)) of
              Inr r \<Rightarrow> Inr (n + 1)
            | Inl e \<Rightarrow> if is_Exception e then Inr n else Inl e,
            w\<lparr>trace := trace w @ fix_pass_trace c im\<rparr>)"
proof -
  from assms obtain a cs where loaded: "obj_app (snd im) = Some (Some a)" "obj_categories (snd im) = Some cs"
    by (auto simp: prefetched_def split: option.splits)
  have ser: "fix_serialize c (snd im) w' =
      (c (loaded_arguments (snd im)),
       w'\<lparr>trace := trace w' @
          [Db (Read_relationship (memory_id (obj_row (snd im))) True),
           Db (Read_relationship (memory_id (obj_row (snd im))) True),
           Db (Read_relationship (memory_id (obj_row (snd im))) True)]\<rparr>)" for w'
    using loaded
    by (simp add: fix_serialize_def get_app_def get_categories_def bnd_def name_of_def
        construct_def ret_def loaded_arguments_def)
  show ?thesis
  proof (cases "c (loaded_arguments (snd im))")
    case (Inl e)
    with assms(2) show ?thesis
      by (simp add: fix_iteration_def try_except_def seq_print bnd_def ser ret_def
          fix_pass_trace_def)
  next
    case (Inr r)
    with assms(2) show ?thesis
      by (simp add: fix_iteration_def try_except_def seq_print bnd_def ser ret_def
          fix_pass_trace_def)
  qed
qed

lemma fix_loop_run:
  assumes "list_all (\<lambda>im. prefetched (snd im)) ims"
    and "\<And>im e. im \<in> set ims \<Longrightarrow> c (loaded_arguments (snd im)) = Inl e \<Longrightarrow> is_Exception e"
    and "writes_all w"
  shows "fix_loop c ims n w =
           (Inr (n + length (filter (\<lambda>im. serializes c (snd im)) ims)),
            w\<lparr>trace := trace w @ concat (map (fix_pass_trace c) ims)\<rparr>)"
  using assms
proof (induction ims arbitrary: n w)
  case Nil
  then show ?case by (simp add: ret_def)
next
  case (Cons im ims)
  from Cons.prems(1) have hd: "prefetched (snd im)"
    and tl: "list_all (\<lambda>im. prefetched (snd im)) ims"
    by simp_all
  note enc = Cons.prems(3)
  have rest: "fix_loop c ims k v =
      (Inr (k + length (filter (\<lambda>im. serializes c (snd im)) ims)),
       v\<lparr>trace := trace v @ concat (map (fix_pass_trace c) ims)\<rparr>)" if "writes_all v" for k v
    by (rule Cons.IH[OF tl]) (rule Cons.prems(2), simp_all add: that)
  show ?case
  proof (cases "c (loaded_arguments (snd im))")
    case (Inl e)
    with Cons.prems(2)[of im e] have "is_Exception e" by simp
    with Inl enc show ?thesis
      by (simp add: bnd_def fix_iteration_run[OF hd] rest serializes_def)
  next
    case (Inr r)
    with enc show ?thesis
      by (simp add: bnd_def fix_iteration_run[OF hd] rest serializes_def)
  qed
qed

lemma fix_loop_count:
  assumes "list_all (\<lambda>im. prefetched (snd im)) ims"
    and "fix_loop c ims n w = (Inr r, w')"
    and "writes_all w"
  shows "r = n + length (filter (\<lambda>im. serializes c (snd im)) ims)"
  using assms
proof (induction ims arbitrary: n w)
  case Nil
  then show ?case by (simp add: ret_def)
next
  case (Cons im ims)
  from Cons.prems have hd: "prefetched (snd im)" and tl: "list_all (\<lambda>im. prefetched (snd im)) ims"
    by simp_all
  let ?w = "w\<lparr>trace := trace w @ fix_pass_trace c im\<rparr>"
  note enc = Cons.prems(3)
  have enc': "writes_all ?w" using enc by simp
  show ?case
  proof (cases "c (loaded_arguments (snd im))")
    case (Inl e)
    show ?thesis
    proof (cases "is_Exception e")
      case True
      with Inl Cons.prems(2) have "fix_loop c ims n ?w = (Inr r, w')"
        by (simp add: bnd_def fix_iteration_run[OF hd enc])
      from Cons.IH[OF tl this enc'] Inl show ?thesis by (simp add: serializes_def)
    next
      case False
      with Inl Cons.prems(2) show ?thesis
        by (simp add: bnd_def fix_iteration_run[OF hd enc])
    qed
  next
    case (Inr x)
    with Cons.prems(2) have "fix_loop c ims (n + 1) ?w = (Inr r, w')"
      by (simp add: bnd_def fix_iteration_run[OF hd enc])
    from Cons.IH[OF tl this enc'] Inr show ?thesis by (simp add: serializes_def)
  qed
qed

lemma fix_loop_writes_all:
  assumes "list_all (\<lambda>im. prefetched (snd im)) ims" and "writes_all w"
  shows "writes_all (snd (fix_loop c ims n w))"
  using assms
proof (induction ims arbitrary: n w)
  case Nil
  then show ?case by (simp add: ret_def)
next
  case (Cons im ims)
  from Cons.prems have hd: "prefetched (snd im)" and tl: "list_all (\<lambda>im. prefetched (snd im)) ims"
    by simp_all
  let ?w = "w\<lparr>trace := trace w @ fix_pass_trace c im\<rparr>"
  note enc = Cons.prems(2)
  have enc': "writes_all ?w" using enc by simp
  show ?case
  proof (cases "c (loaded_arguments (snd im))")
    case (Inl e)
    with enc enc' Cons.IH[OF tl enc'] show ?thesis
      by (simp add: bnd_def fix_iteration_run[OF hd enc])
  next
    case (Inr x)
    with enc enc' Cons.IH[OF tl enc'] show ?thesis
      by (simp add: bnd_def fix_iteration_run[OF hd enc])
  qed
qed

section \<open>Running the two demonstrations\<close>

lemma trace_irrelevant:
  "fresh_uuids (w\<lparr>trace := t\<rparr>) = fresh_uuids w"
  "test_user (w\<lparr>trace := t\<rparr>) = test_user w"
  "test_app (w\<lparr>trace := t\<rparr>) = test_app w"
  "test_memories (w\<lparr>trace := t\<rparr>) = test_memories w"
  "test_db (w\<lparr>trace := t\<rparr>) = test_db w"
  "prepare_trace (w\<lparr>trace := t\<rparr>) = prepare_trace w"
  by (simp_all add: fresh_uuids_def test_defs test_db_def prepare_trace_def)

lemma writes_all_after [simp]:
  "writes_all (after_prepare w) = writes_all w"
  "writes_all (after_query t e w) = writes_all w"
  "writes_all (after_demo t w) = writes_all w"
  by (simp_all add: after_prepare_def after_query_def after_demo_def)

lemma length_test_memories: "length (test_memories w) = 3"
  by (simp add: test_memories_def)

lemma reproduce_bug_run:
  assumes "fresh_uuids w" and enc: "writes_all w"
  shows "reproduce_bug_without_fix c w = (Inr True, after_demo (bug_demo_trace w) w)"
proof -
  let ?w1 = "w\<lparr>trace := trace w @ bug_banner\<rparr>"
  let ?w2 = "after_prepare ?w1"
  let ?h = "next_session w + 1"
  let ?e = "next_engine w"
  let ?w3 = "after_query (bug_query_trace ?h ?e) ?e ?w2"
  let ?w4 = "?w3\<lparr>trace := trace ?w3 @
     [Stdout (nl @ lit ''Step 3: Try to serialize with Pydantic (accessing relationships)...''),
      Stdout (lit ''   This should fail because relationships weren''
                @ quote @ lit ''t eager-loaded!'' @ nl)]\<rparr>"
  have fresh1: "fresh_uuids ?w1"
    using assms by (simp add: trace_irrelevant)
  have prep: "prepare_database ?w1 =
      (Inr (?e, user_id (test_user w), app_id (test_app w), map memory_id (test_memories w)), ?w2)"
    using prepare_database_run[OF fresh1] enc by (simp add: trace_irrelevant)
  have db2: "dbs ?w2 ?e = test_db w"
    by (simp add: after_prepare_def trace_irrelevant)
  have h2: "next_session ?w2 = ?h"
    by (simp add: after_prepare_def)
  have query: "bug_query ?e (user_id (test_user w)) ?w2 = (Inr (lazy_objects ?h w), ?w3)"
    using bug_query_run[OF assms(1) db2] enc by (simp add: h2)
  have detached: "list_all (\<lambda>im. obj_app (snd im) = None \<and>
      sess_closed (sessions ?w4 (obj_session (snd im)))) (enumerate 1 (lazy_objects ?h w))"
    by (simp add: lazy_objects_def test_memories_def after_query_def after_prepare_def
        closed_session_def)
  have nonempty: "enumerate 1 (lazy_objects ?h w) \<noteq> []"
    by (simp add: lazy_objects_def test_memories_def)
  have loop: "bug_loop c (enumerate 1 (lazy_objects ?h w)) False ?w4 =
      (Inr True, ?w4\<lparr>trace := trace ?w4 @
         concat (map bug_pass_trace (enumerate 1 (lazy_objects ?h w)))\<rparr>)"
    using bug_loop_detached[OF detached, of c False] nonempty enc by simp
  have final: "after_demo (bug_demo_trace w) w =
      ?w4\<lparr>trace := trace ?w4 @ concat (map bug_pass_trace (enumerate 1 (lazy_objects ?h w)))
           @ [Stdout (nl @ emoji_check @ lit '' Bug successfully reproduced!'')]\<rparr>"
    by (simp add: after_demo_def bug_demo_trace_def after_query_def after_prepare_def
        trace_irrelevant fun_upd_twist)
  let ?H = "\<lambda>failed.
     if failed
     then seq (print (nl @ emoji_check @ lit '' Bug successfully reproduced!'')) (ret True)
     else seq (print (nl @ emoji_cross
                      @ lit '' Bug not reproduced - this might be SQLite-specific behavior''))
              (ret False)"
  let ?G = "\<lambda>memories.
     seq (block [print (nl @ lit ''Step 3: Try to serialize with Pydantic (accessing relationships)...''),
                 print (lit ''   This should fail because relationships weren''
                        @ quote @ lit ''t eager-loaded!'' @ nl)])
    (bnd (bug_loop c (enumerate 1 memories) False) ?H)"
  have "reproduce_bug_without_fix c w =
      bnd prepare_database (\<lambda>(SessionLocal, uid, aid, memory_ids).
        bnd (bug_query SessionLocal uid) ?G) ?w1"
    using enc by (simp add: reproduce_bug_without_fix_def seq_assoc seq_ret seq_print bug_banner_def)
  also have "\<dots> = bnd (bug_query ?e (user_id (test_user w))) ?G ?w2"
    by (simp add: bnd_Inr[where m = prepare_database, OF prep])
  also have "\<dots> = ?G (lazy_objects ?h w) ?w3"
    by (rule bnd_Inr) (rule query)
  also have "\<dots> = bnd (bug_loop c (enumerate 1 (lazy_objects ?h w)) False) ?H ?w4"
    using enc by (simp add: seq_assoc seq_ret seq_print)
  also have "\<dots> = ?H True (?w4\<lparr>trace := trace ?w4 @
         concat (map bug_pass_trace (enumerate 1 (lazy_objects ?h w)))\<rparr>)"
    by (rule bnd_Inr) (rule loop)
  also have "\<dots> = (Inr True, ?w4\<lparr>trace := trace ?w4 @ concat (map bug_pass_trace (enumerate 1 (lazy_objects ?h w)))
           @ [Stdout (nl @ emoji_check @ lit '' Bug successfully reproduced!'')]\<rparr>)"
    using enc by (simp add: seq_print ret_def)
  finally show ?thesis by (simp only: final)
qed

lemma filter_enumerate_length:
  "length (filter (\<lambda>im. P (snd im)) (enumerate n xs)) = length (filter P xs)"
  by (induction xs arbitrary: n) simp_all

lemma map_snd_enumerate: "map snd (enumerate n xs) = xs"
  by (induction xs arbitrary: n) simp_all

lemma length_filter_all: "(length (filter P xs) = length xs) = list_all P xs"
proof (induction xs)
  case Nil
  then show ?case by simp
next
  case (Cons x xs)
  have "length (filter P xs) \<noteq> Suc (length xs)"
    using length_filter_le[of P xs] by arith
  with Cons show ?case by auto
qed

lemma fix_verdict_run:
  "writes_all w \<Longrightarrow> fix_verdict expected n w =
     (Inr (n = expected),
      w\<lparr>trace := trace w @
        [Stdout (if n = expected
                 then nl @ emoji_check @ lit '' Fix confirmed: All '' @ str_nat n
                      @ lit '' memories serialized successfully!''
                 else nl @ emoji_warning @ lit ''  Partial success: '' @ str_nat n
                      @ lit ''/'' @ str_nat expected @ lit '' serialized'')]\<rparr>)"
  by (simp add: fix_verdict_def seq_print ret_def)

lemma prefetched_eager:
  "list_all (\<lambda>im. prefetched (snd im)) (enumerate n (eager_objects h w))"
  by (simp add: eager_objects_def test_memories_def prefetched_def)

lemma length_eager: "length (eager_objects h w) = 3"
  by (simp add: eager_objects_def test_memories_def)

lemma demonstrate_fix_to_loop:
  assumes "fresh_uuids w" and enc: "writes_all w"
  shows "demonstrate_fix_with_eager_loading c w =
           bnd (fix_loop c (enumerate 1 (eager_objects (next_session w + 1) w)) 0)
               (fix_verdict 3)
               ((after_demo (fix_banner @ prepare_trace w
                   @ fix_query_trace (next_session w + 1) (next_engine w)
                   @ [Stdout (nl @ lit ''Step 3: Serialize with Pydantic (should work now)...'' @ nl)])
                 w))"
proof -
  let ?w1 = "w\<lparr>trace := trace w @ fix_banner\<rparr>"
  let ?w2 = "after_prepare ?w1"
  let ?h = "next_session w + 1"
  let ?e = "next_engine w"
  let ?w3 = "after_query (fix_query_trace ?h ?e) ?e ?w2"
  let ?w4 = "?w3\<lparr>trace := trace ?w3 @
     [Stdout (nl @ lit ''Step 3: Serialize with Pydantic (should work now)...'' @ nl)]\<rparr>"
  have fresh1: "fresh_uuids ?w1"
    using assms by (simp add: trace_irrelevant)
  have prep: "prepare_database ?w1 =
      (Inr (?e, user_id (test_user w), app_id (test_app w), map memory_id (test_memories w)), ?w2)"
    using prepare_database_run[OF fresh1] enc by (simp add: trace_irrelevant)
  have db2: "dbs ?w2 ?e = test_db w"
    by (simp add: after_prepare_def trace_irrelevant)
  have h2: "next_session ?w2 = ?h"
    by (simp add: after_prepare_def)
  have query: "fix_query ?e (user_id (test_user w)) ?w2 = (Inr (eager_objects ?h w), ?w3)"
    using fix_query_run[OF assms(1) db2] enc by (simp add: h2)
  have final: "after_demo (fix_banner @ prepare_trace w
                   @ fix_query_trace (next_session w + 1) (next_engine w)
                   @ [Stdout (nl @ lit ''Step 3: Serialize with Pydantic (should work now)...'' @ nl)])
                 w = ?w4"
    by (simp add: after_demo_def after_query_def after_prepare_def trace_irrelevant fun_upd_twist)
  let ?G = "\<lambda>memories.
     seq (print (nl @ lit ''Step 3: Serialize with Pydantic (should work now)...'' @ nl))
    (bnd (fix_loop c (enumerate 1 memories) 0) (fix_verdict (length memories)))"
  have "demonstrate_fix_with_eager_loading c w =
      bnd prepare_database (\<lambda>(SessionLocal, uid, aid, memory_ids).
        bnd (fix_query SessionLocal uid) ?G) ?w1"
    using enc by (simp add: demonstrate_fix_with_eager_loading_def seq_assoc seq_ret seq_print
        fix_banner_def fix_verdict_def[abs_def])
  also have "\<dots> = bnd (fix_query ?e (user_id (test_user w))) ?G ?w2"
    by (simp add: bnd_Inr[where m = prepare_database, OF prep])
  also have "\<dots> = ?G (eager_objects ?h w) ?w3"
    by (rule bnd_Inr) (rule query)
  also have "\<dots> = bnd (fix_loop c (enumerate 1 (eager_objects ?h w)) 0) (fix_verdict 3) ?w4"
    using enc by (simp add: seq_print length_eager)
  finally show ?thesis by (simp only: final)
qed

lemma demonstrate_fix_run:
  assumes "fresh_uuids w"
    and "\<And>im e. im \<in> set (enumerate 1 (eager_objects (next_session w + 1) w)) \<Longrightarrow>
           c (loaded_arguments (snd im)) = Inl e \<Longrightarrow> is_Exception e"
    and enc: "writes_all w"
  shows "demonstrate_fix_with_eager_loading c w =
           (Inr (list_all (serializes c) (eager_objects (next_session w + 1) w)),
            after_demo (fix_demo_trace c w) w)"
proof -
  let ?ims = "enumerate 1 (eager_objects (next_session w + 1) w)"
  let ?w4 = "after_demo (fix_banner @ prepare_trace w
                   @ fix_query_trace (next_session w + 1) (next_engine w)
                   @ [Stdout (nl @ lit ''Step 3: Serialize with Pydantic (should work now)...'' @ nl)])
                 w"
  let ?n = "length (filter (serializes c) (eager_objects (next_session w + 1) w))"
  have loop: "fix_loop c ?ims 0 ?w4 =
      (Inr ?n, ?w4\<lparr>trace := trace ?w4 @ concat (map (fix_pass_trace c) ?ims)\<rparr>)"
    using fix_loop_run[where c = c and ims = ?ims and n = 0 and w = ?w4, OF prefetched_eager assms(2)]
      enc
    by (simp add: filter_enumerate_length)
  have all: "(?n = 3) = list_all (serializes c) (eager_objects (next_session w + 1) w)"
    using length_filter_all[of "serializes c" "eager_objects (next_session w + 1) w"]
    by (simp add: length_eager)
  have "demonstrate_fix_with_eager_loading c w = bnd (fix_loop c ?ims 0) (fix_verdict 3) ?w4"
    by (rule demonstrate_fix_to_loop[OF assms(1) enc])
  also have "\<dots> = fix_verdict 3 ?n (?w4\<lparr>trace := trace ?w4 @ concat (map (fix_pass_trace c) ?ims)\<rparr>)"
    by (rule bnd_Inr) (rule loop)
  also have "\<dots> = (Inr (list_all (serializes c) (eager_objects (next_session w + 1) w)),
            after_demo (fix_demo_trace c w) w)"
  proof (cases "?n = 3")
    case True
    with all enc show ?thesis
      by (simp add: fix_verdict_run after_demo_def fix_demo_trace_def)
  next
    case False
    with all enc show ?thesis
      by (simp add: fix_verdict_run after_demo_def fix_demo_trace_def)
  qed
  finally show ?thesis .
qed

lemma demonstrate_fix_result:
  assumes "fresh_uuids w" and "demonstrate_fix_with_eager_loading c w = (Inr b, w')"
    and enc: "writes_all w"
  shows "b = list_all (serializes c) (eager_objects (next_session w + 1) w)"
proof -
  let ?ims = "enumerate 1 (eager_objects (next_session w + 1) w)"
  let ?w4 = "after_demo (fix_banner @ prepare_trace w
                   @ fix_query_trace (next_session w + 1) (next_engine w)
                   @ [Stdout (nl @ lit ''Step 3: Serialize with Pydantic (should work now)...'' @ nl)])
                 w"
  let ?n = "length (filter (serializes c) (eager_objects (next_session w + 1) w))"
  have run: "bnd (fix_loop c ?ims 0) (fix_verdict 3) ?w4 = (Inr b, w')"
    using assms(2) by (simp only: demonstrate_fix_to_loop[OF assms(1) enc])
  obtain r w5 where loop: "fix_loop c ?ims 0 ?w4 = (r, w5)"
    by (cases "fix_loop c ?ims 0 ?w4")
  have enc4: "writes_all ?w4" using enc by simp
  have "writes_all (snd (fix_loop c ?ims 0 ?w4))"
    by (rule fix_loop_writes_all[OF prefetched_eager enc4])
  then have enc5: "writes_all w5" by (simp only: loop snd_conv)
  show ?thesis
  proof (cases r)
    case (Inl e)
    with loop run show ?thesis by (simp add: bnd_def)
  next
    case (Inr k)
    with loop have "k = 0 + length (filter (\<lambda>im. serializes c (snd im)) ?ims)"
      using fix_loop_count[OF prefetched_eager _ enc4] by blast
    then have k: "k = ?n" by (simp add: filter_enumerate_length)
    from loop Inr run have "fix_verdict 3 k w5 = (Inr b, w')" by (simp add: bnd_def)
    then have "b = (k = 3)" using enc5 by (simp add: fix_verdict_run)
    with k length_filter_all[of "serializes c" "eager_objects (next_session w + 1) w"]
    show ?thesis by (simp add: length_eager)
  qed
qed

section \<open>Building one response\<close>

lemma bug_serialize_detached:
  assumes "obj_app m = None" and "sess_closed (sessions w (obj_session m))"
  shows "bug_serialize c m w =
           (Inl (detached_instance_error (lit ''app'')),
            w\<lparr>trace := trace w @ [Db (Read_relationship (memory_id (obj_row m)) False)]\<rparr>)"
  using assms by (simp add: bug_serialize_def get_app_def bnd_def)

lemma fix_serialize_prefetched:
  assumes "prefetched m"
  shows "fix_serialize c m w =
           (c (loaded_arguments m),
            w\<lparr>trace := trace w @
               [Db (Read_relationship (memory_id (obj_row m)) True),
                Db (Read_relationship (memory_id (obj_row m)) True),
                Db (Read_relationship (memory_id (obj_row m)) True)]\<rparr>)"
proof -
  from assms obtain a cs where "obj_app m = Some (Some a)" "obj_categories m = Some cs"
    by (auto simp: prefetched_def split: option.splits)
  then show ?thesis
    by (simp add: fix_serialize_def get_app_def get_categories_def bnd_def name_of_def
        construct_def ret_def loaded_arguments_def)
qed

lemma eager_arguments:
  assumes "m \<in> set (eager_objects h w)"
  shows "prefetched m"
    and "\<exists>t. arg_created_at (loaded_arguments m) = Timestamp_int t"
    and "\<exists>n. arg_app_name (loaded_arguments m) = Some n"
  using assms
  by (auto simp: eager_objects_def test_memories_def prefetched_def loaded_arguments_def
      fix_arguments_def)

lemma closed_after_query:
  "m \<in> set (lazy_objects (next_session w) w0) \<Longrightarrow>
     obj_app m = None \<and> sess_closed (sessions (after_query t e w) (obj_session m))"
  by (auto simp: lazy_objects_def after_query_def closed_session_def)

section \<open>Running main\<close>

lemma show_the_actual_code_diff_run:
  "writes_all w \<Longrightarrow> show_the_actual_code_diff w = (Inr (), w\<lparr>trace := trace w @ diff_trace\<rparr>)"
  by (simp add: show_the_actual_code_diff_def diff_trace_def seq_print ret_def)

lemma summary_run: "writes_all w \<Longrightarrow> summary b f w = (Inr (), w\<lparr>trace := trace w @ summary_trace b f\<rparr>)"
  by (cases b; cases f)
     (simp_all add: summary_def summary_trace_def seq_assoc seq_ret seq_print print_run)

lemma after_demo_irrelevant:
  "fresh_uuids ((after_demo t w)\<lparr>trace := x\<rparr>) = fresh_uuids (after_demo [] w)"
  "fix_demo_trace c ((after_demo t w)\<lparr>trace := x\<rparr>) = fix_demo_trace c (after_demo [] w)"
  "eager_objects h ((after_demo t w)\<lparr>trace := x\<rparr>) = eager_objects h (after_demo [] w)"
  "next_session ((after_demo t w)\<lparr>trace := x\<rparr>) = next_session w + 2"
  "next_engine ((after_demo t w)\<lparr>trace := x\<rparr>) = next_engine w + 1"
  "trace ((after_demo t w)\<lparr>trace := x\<rparr>) = x"
  by (simp_all add: fresh_uuids_def fix_demo_trace_def eager_objects_def after_demo_def
      test_defs prepare_trace_def)

lemma after_demo_banner:
  "after_demo t (w\<lparr>trace := x\<rparr>) = (after_demo [] w)\<lparr>trace := x @ t\<rparr>"
  by (simp add: after_demo_def test_db_def test_defs)

lemma bug_demo_trace_irrelevant: "bug_demo_trace (w\<lparr>trace := x\<rparr>) = bug_demo_trace w"
  by (simp add: bug_demo_trace_def prepare_trace_def lazy_objects_def test_defs)

lemma main_run:
  assumes "fresh_uuids w" and "fresh_uuids (after_demo [] w)"
    and "\<And>a e. c a = Inl e \<Longrightarrow> is_Exception e"
    and enc: "writes_all w"
  shows "main c w =
           (Inr (),
            (after_demo [] (after_demo [] w))
              \<lparr>trace := trace w @ banner
                 @ [Stdout (nl @ lit ''Part 1: Attempting to reproduce the bug...'')]
                 @ bug_demo_trace w
                 @ [Stdout (nl @ lit ''Part 2: Demonstrating the fix...'')]
                 @ fix_demo_trace c (after_demo [] w)
                 @ diff_trace
                 @ summary_trace True
                     (list_all (serializes c)
                        (eager_objects (next_session w + 3) (after_demo [] w)))\<rparr>)"
proof -
  let ?w1 = "w\<lparr>trace := trace w @ banner
                 @ [Stdout (nl @ lit ''Part 1: Attempting to reproduce the bug...'')]\<rparr>"
  let ?t2 = "trace w @ banner
                 @ [Stdout (nl @ lit ''Part 1: Attempting to reproduce the bug...'')]
                 @ bug_demo_trace w
                 @ [Stdout (nl @ lit ''Part 2: Demonstrating the fix...'')]"
  let ?w2 = "(after_demo [] w)\<lparr>trace := ?t2\<rparr>"
  let ?b = "list_all (serializes c) (eager_objects (next_session w + 3) (after_demo [] w))"
  let ?w3 = "(after_demo [] (after_demo [] w))\<lparr>trace := ?t2 @ fix_demo_trace c (after_demo [] w)\<rparr>"
  have fresh1: "fresh_uuids ?w1"
    using assms(1) by (simp add: trace_irrelevant)
  have bug: "reproduce_bug_without_fix c ?w1 =
      (Inr True, (after_demo [] w)\<lparr>trace := trace w @ banner
                 @ [Stdout (nl @ lit ''Part 1: Attempting to reproduce the bug...'')]
                 @ bug_demo_trace w\<rparr>)"
    using enc by (simp add: reproduce_bug_run[OF fresh1] after_demo_banner bug_demo_trace_irrelevant)
  have fresh2: "fresh_uuids ?w2"
    using assms(2) by (simp add: trace_irrelevant)
  have sess2: "next_session ?w2 + 1 = next_session w + 3"
    by (simp add: after_demo_def)
  have fixd: "demonstrate_fix_with_eager_loading c ?w2 = (Inr ?b, ?w3)"
    using demonstrate_fix_run[OF fresh2, of c] assms(3) enc
    by (simp add: after_demo_banner sess2 trace_irrelevant plus_Suc_numerals
        after_demo_irrelevant[where t = "[]", simplified])
  let ?K2 = "\<lambda>bug_reproduced fix_works.
        seq show_the_actual_code_diff (summary bug_reproduced fix_works)"
  let ?K1 = "\<lambda>bug_reproduced.
     seq (print (nl @ lit ''Part 2: Demonstrating the fix...''))
    (bnd (demonstrate_fix_with_eager_loading c) (?K2 bug_reproduced))"
  have "main_try (reproduce_bug_without_fix c) (demonstrate_fix_with_eager_loading c)
          show_the_actual_code_diff (w\<lparr>trace := trace w @ banner\<rparr>) =
        bnd (reproduce_bug_without_fix c) ?K1 ?w1"
    using enc by (simp add: main_try_def seq_print)
  also have "\<dots> = ?K1 True ((after_demo [] w)\<lparr>trace := trace w @ banner
                 @ [Stdout (nl @ lit ''Part 1: Attempting to reproduce the bug...'')]
                 @ bug_demo_trace w\<rparr>)"
    by (rule bnd_Inr) (rule bug)
  also have "\<dots> = bnd (demonstrate_fix_with_eager_loading c) (?K2 True) ?w2"
    using enc by (simp add: seq_print)
  also have "\<dots> = ?K2 True ?b ?w3"
    by (rule bnd_Inr) (rule fixd)
  also have "\<dots> = (Inr (), ?w3\<lparr>trace := trace ?w3 @ diff_trace @ summary_trace True ?b\<rparr>)"
    using enc by (simp add: seq_Inr[OF show_the_actual_code_diff_run] summary_run)
  finally have body: "main_try (reproduce_bug_without_fix c) (demonstrate_fix_with_eager_loading c)
          show_the_actual_code_diff (w\<lparr>trace := trace w @ banner\<rparr>) =
      (Inr (), ?w3\<lparr>trace := trace ?w3 @ diff_trace @ summary_trace True ?b\<rparr>)" .
  show ?thesis
    unfolding main_def main_with_run[OF enc]
    by (simp add: try_except_def body)
qed

section \<open>The database calls of the traces\<close>

lemma db_ops_append: "db_ops (a @ b) = db_ops a @ db_ops b"
  by (induction a rule: db_ops.induct) simp_all

lemma db_ops_prints: "db_ops banner = []" "db_ops diff_trace = []" "db_ops (summary_trace b f) = []"
  "db_ops bug_banner = []" "db_ops fix_banner = []"
  by (simp_all add: banner_def diff_trace_def summary_trace_def bug_banner_def fix_banner_def)

lemma db_ops_prepare:
  "db_ops (prepare_trace w) =
     [Create_engine (next_engine w) memory_url, Create_all (next_engine w),
      Open_session (next_session w) (next_engine w),
      Flush (next_session w) 1, Flush (next_session w) 1, Flush (next_session w) 2,
      Flush (next_session w) 3, Commit (next_session w), Close_session (next_session w)]"
  by (simp add: prepare_trace_def)

lemma db_ops_bug_pass: "db_ops (bug_pass_trace im) = [Read_relationship (memory_id (obj_row (snd im))) False]"
  by (simp add: bug_pass_trace_def)

lemma db_ops_fix_pass:
  "db_ops (fix_pass_trace c im) = replicate 3 (Read_relationship (memory_id (obj_row (snd im))) True)"
proof (cases "c (loaded_arguments (snd im))")
  case (Inl e)
  then show ?thesis
    by (cases "is_Exception e") (simp_all add: fix_pass_trace_def numeral_3_eq_3)
next
  case (Inr r)
  then show ?thesis by (simp add: fix_pass_trace_def numeral_3_eq_3)
qed

lemma db_ops_concat: "db_ops (concat ts) = concat (map db_ops ts)"
  by (induction ts) (simp_all add: db_ops_append)

lemma db_ops_bug_demo:
  "db_ops (bug_demo_trace w) =
     demo_ops (next_engine w) (next_session w) False
     @ map (\<lambda>m. Read_relationship (memory_id m) False) (test_memories w)"
  by (simp add: bug_demo_trace_def db_ops_append db_ops_prints db_ops_prepare db_ops_concat
      bug_query_trace_def demo_ops_def lazy_objects_def test_memories_def db_ops_bug_pass)

lemma db_ops_fix_demo:
  "db_ops (fix_demo_trace c w) =
     demo_ops (next_engine w) (next_session w) True
     @ concat (map (\<lambda>m. replicate 3 (Read_relationship (memory_id m) True)) (test_memories w))"
  by (simp add: fix_demo_trace_def db_ops_append db_ops_prints db_ops_prepare db_ops_concat
      fix_query_trace_def demo_ops_def eager_objects_def test_memories_def db_ops_fix_pass)

section \<open>Runs on the concrete inputs\<close>

lemma fix_loop_interrupted:
  assumes "ims \<noteq> []" and "list_all (\<lambda>im. prefetched (snd im)) ims" and enc: "writes_all w"
  shows "fst (fix_loop interrupted ims n w) = Inl KeyboardInterrupt"
proof (cases ims)
  case Nil
  with assms show ?thesis by simp
next
  case (Cons im rest)
  with assms(2) have "prefetched (snd im)" by simp
  from fix_iteration_run[OF this enc, of interrupted n] Cons show ?thesis
    by (simp add: bnd_def interrupted_def interrupted_def)
qed

lemma demonstrate_fix_interrupted:
  assumes "fresh_uuids w" and enc: "writes_all w"
  shows "fst (demonstrate_fix_with_eager_loading interrupted w) = Inl KeyboardInterrupt"
proof -
  let ?ims = "enumerate 1 (eager_objects (next_session w + 1) w)"
  have ne: "?ims \<noteq> []"
    by (simp add: eager_objects_def test_memories_def)
  obtain w' where "fix_loop interrupted ?ims 0
      (after_demo (fix_banner @ prepare_trace w
                   @ fix_query_trace (next_session w + 1) (next_engine w)
                   @ [Stdout (nl @ lit ''Step 3: Serialize with Pydantic (should work now)...'' @ nl)])
                 w) = (Inl KeyboardInterrupt, w')"
    using fix_loop_interrupted[OF ne prefetched_eager] enc
    by (metis prod.collapse writes_all_after(3))
  then show ?thesis
    by (simp add: demonstrate_fix_to_loop[OF assms] bnd_def)
qed

lemma main_interrupted:
  assumes "fresh_uuids w" and "fresh_uuids (after_demo [] w)" and enc: "writes_all w"
  shows "fst (main interrupted w) = Inl KeyboardInterrupt"
proof -
  let ?w1 = "w\<lparr>trace := trace w @ banner
                 @ [Stdout (nl @ lit ''Part 1: Attempting to reproduce the bug...'')]\<rparr>"
  let ?w2 = "(after_demo [] w)\<lparr>trace := trace w @ banner
                 @ [Stdout (nl @ lit ''Part 1: Attempting to reproduce the bug...'')]
                 @ bug_demo_trace w
                 @ [Stdout (nl @ lit ''Part 2: Demonstrating the fix...'')]\<rparr>"
  have fresh1: "fresh_uuids ?w1"
    using assms(1) by (simp add: trace_irrelevant)
  have bug: "reproduce_bug_without_fix interrupted ?w1 =
      (Inr True, (after_demo [] w)\<lparr>trace := trace w @ banner
                 @ [Stdout (nl @ lit ''Part 1: Attempting to reproduce the bug...'')]
                 @ bug_demo_trace w\<rparr>)"
    using enc by (simp add: reproduce_bug_run[OF fresh1] after_demo_banner bug_demo_trace_irrelevant)
  have fresh2: "fresh_uuids ?w2"
    using assms(2) by (simp add: trace_irrelevant)
  obtain w3 where fixd: "demonstrate_fix_with_eager_loading interrupted ?w2 =
      (Inl KeyboardInterrupt, w3)"
    using demonstrate_fix_interrupted[OF fresh2] enc
    by (metis prod.collapse writes_all_after(3) writes_all_update(1))
  have body: "main_try (reproduce_bug_without_fix interrupted)
          (demonstrate_fix_with_eager_loading interrupted)
          show_the_actual_code_diff (w\<lparr>trace := trace w @ banner\<rparr>) = (Inl KeyboardInterrupt, w3)"
    using fixd enc by (simp add: main_try_def seq_print bnd_def bug)
  show ?thesis
    unfolding main_def main_with_run[OF enc]
    by (simp add: try_except_def body)
qed

lemma main_returns:
  assumes "fresh_uuids w" and "fresh_uuids (after_demo [] w)"
    and "\<And>a e. c a = Inl e \<Longrightarrow> is_Exception e"
    and "writes_all w"
  shows "fst (main c w) = Inr ()"
  by (simp add: main_run[OF assms])

lemma fresh_world0:
  "fresh_uuids world0" "fresh_uuids (after_demo [] world0)"
  "fresh_uuids (world0\<lparr>sys_path := p\<rparr>)" "fresh_uuids (after_demo [] (world0\<lparr>sys_path := p\<rparr>))"
  by (simp_all add: fresh_uuids_def after_demo_def world0_def)

lemma writes_all_world0 [simp]: "writes_all world0"
  by (simp add: writes_all_def world0_def utf8_stdout_def)

lemma accept_all_never_raises: "(accept_all a = Inl e) = False"
  by (simp add: accept_all_def)

section \<open>Exceptions that leave a step of main\<close>

lemma prepare_database_collision:
  assumes "uuid_source w (uuid_count w + 2) = uuid_source w (uuid_count w + 3)" and "writes_all w"
  shows "fst (prepare_database w) = Inl (integrity_error (lit ''categories''))"
  using assms
  by (simp add: prepare_database_def create_test_database_def setup_test_data_def run_defs
      range2 range3 plus_Suc_numerals empty_db_def
      new_user_def new_app_def new_memory_def new_category_def)

lemma reproduce_bug_collision:
  assumes "uuid_source w (uuid_count w + 2) = uuid_source w (uuid_count w + 3)" and enc: "writes_all w"
  shows "fst (reproduce_bug_without_fix c w) = Inl (integrity_error (lit ''categories''))"
proof -
  let ?w1 = "w\<lparr>trace := trace w @ bug_banner\<rparr>"
  have "fst (prepare_database ?w1) = Inl (integrity_error (lit ''categories''))"
    by (rule prepare_database_collision) (use assms in simp_all)
  then obtain w' where "prepare_database ?w1 = (Inl (integrity_error (lit ''categories'')), w')"
    by (metis prod.collapse)
  with enc show ?thesis
    by (simp add: reproduce_bug_without_fix_def seq_assoc seq_ret seq_print bug_banner_def bnd_def)
qed

lemma tracebacks_append: "tracebacks (a @ b) = tracebacks a @ tracebacks b"
  by (induction a rule: tracebacks.induct) simp_all

lemma tracebacks_concat: "tracebacks (concat ts) = concat (map tracebacks ts)"
  by (induction ts) (simp_all add: tracebacks_append)

lemma tracebacks_fix_pass: "tracebacks (fix_pass_trace c im) = []"
proof (cases "c (loaded_arguments (snd im))")
  case (Inl e)
  then show ?thesis
    by (cases "is_Exception e") (simp_all add: fix_pass_trace_def)
next
  case (Inr r)
  then show ?thesis by (simp add: fix_pass_trace_def)
qed

lemma tracebacks_parts:
  "tracebacks banner = []" "tracebacks diff_trace = []" "tracebacks (summary_trace b f) = []"
  "tracebacks (bug_demo_trace w) = []" "tracebacks (fix_demo_trace c w) = []"
  by (simp_all add: banner_def diff_trace_def summary_trace_def bug_banner_def fix_banner_def
      bug_demo_trace_def fix_demo_trace_def tracebacks_append tracebacks_concat
      prepare_trace_def bug_query_trace_def fix_query_trace_def bug_pass_trace_def
      tracebacks_fix_pass lazy_objects_def eager_objects_def test_memories_def)

section \<open>What the fix demonstration depends on\<close>

lemma trace_only_trans:
  assumes "v = u\<lparr>trace := trace v\<rparr>" and "u = w\<lparr>trace := x\<rparr>"
  shows "v = w\<lparr>trace := trace v\<rparr>"
proof -
  have "v = (w\<lparr>trace := x\<rparr>)\<lparr>trace := trace v\<rparr>"
    by (subst assms(1)) (simp only: assms(2))
  then show ?thesis by simp
qed

lemma fix_loop_outcome:
  assumes "list_all (\<lambda>im. prefetched (snd im)) ims" and "fix_loop c ims n w = (r, v)"
    and "writes_all w"
  shows "r = count_accepted c (map (\<lambda>im. loaded_arguments (snd im)) ims) n \<and>
         v = w\<lparr>trace := trace v\<rparr>"
  using assms
proof (induction ims arbitrary: n w)
  case Nil
  then show ?case by (auto simp: ret_def)
next
  case (Cons im ims)
  from Cons.prems have hd: "prefetched (snd im)"
    and tl: "list_all (\<lambda>im. prefetched (snd im)) ims"
    by simp_all
  let ?w = "w\<lparr>trace := trace w @ fix_pass_trace c im\<rparr>"
  note enc = Cons.prems(3)
  have enc': "writes_all ?w" using enc by simp
  note it = fix_iteration_run[OF hd enc, of c n]
  show ?case
  proof (cases "c (loaded_arguments (snd im))")
    case (Inl e)
    show ?thesis
    proof (cases "is_Exception e")
      case True
      with Inl it Cons.prems(2) have rest: "fix_loop c ims n ?w = (r, v)"
        by (simp add: bnd_def)
      from Cons.IH[OF tl rest enc']
      have "r = count_accepted c (map (\<lambda>im. loaded_arguments (snd im)) ims) n"
        and "v = ?w\<lparr>trace := trace v\<rparr>" by blast+
      with Inl True show ?thesis
        by (intro conjI) (simp, erule trace_only_trans, rule refl)
    next
      case False
      with Inl it Cons.prems(2) have "r = Inl e" "v = ?w"
        by (simp_all add: bnd_def)
      with Inl False show ?thesis by simp
    qed
  next
    case (Inr x)
    with it Cons.prems(2) have rest: "fix_loop c ims (n + 1) ?w = (r, v)"
      by (simp add: bnd_def)
    from Cons.IH[OF tl rest enc']
    have "r = count_accepted c (map (\<lambda>im. loaded_arguments (snd im)) ims) (n + 1)"
      and "v = ?w\<lparr>trace := trace v\<rparr>" by blast+
    with Inr show ?thesis
      by (intro conjI) (simp, erule trace_only_trans, rule refl)
  qed
qed

lemma enumerate_arguments:
  "map (\<lambda>im. loaded_arguments (snd im)) (enumerate n (eager_objects h w)) = test_arguments w"
  by (simp add: test_arguments_def eager_objects_def test_memories_def loaded_arguments_def)

lemma demonstrate_fix_outcome:
  assumes "fresh_uuids w" and "demonstrate_fix_with_eager_loading c w = (r, v)"
    and enc: "writes_all w"
  shows "r = fix_outcome c w \<and> v = (after_demo [] w)\<lparr>trace := trace v\<rparr>"
proof -
  let ?ims = "enumerate 1 (eager_objects (next_session w + 1) w)"
  let ?t4 = "fix_banner @ prepare_trace w
                   @ fix_query_trace (next_session w + 1) (next_engine w)
                   @ [Stdout (nl @ lit ''Step 3: Serialize with Pydantic (should work now)...'' @ nl)]"
  let ?w4 = "after_demo ?t4 w"
  have w4: "?w4 = (after_demo [] w)\<lparr>trace := trace w @ ?t4\<rparr>"
    by (simp add: after_demo_def)
  obtain k w5 where run: "fix_loop c ?ims 0 ?w4 = (k, w5)"
    by (cases "fix_loop c ?ims 0 ?w4")
  have enc4: "writes_all ?w4" using enc by simp
  have "writes_all (snd (fix_loop c ?ims 0 ?w4))"
    by (rule fix_loop_writes_all[OF prefetched_eager enc4])
  then have enc5: "writes_all w5" by (simp only: run snd_conv)
  from fix_loop_outcome[OF prefetched_eager run enc4]
  have count: "k = count_accepted c (test_arguments w) 0" and "w5 = ?w4\<lparr>trace := trace w5\<rparr>"
    by (simp_all only: enumerate_arguments)
  from this(2) w4 have w5: "w5 = (after_demo [] w)\<lparr>trace := trace w5\<rparr>"
    by (rule trace_only_trans)
  from assms(2) have whole: "bnd (fix_loop c ?ims 0) (fix_verdict 3) ?w4 = (r, v)"
    by (simp only: demonstrate_fix_to_loop[OF assms(1) enc])
  show ?thesis
  proof (cases k)
    case (Inl e)
    with run whole have "r = Inl e" "v = w5"
      by (simp_all add: bnd_def)
    with Inl count w5 show ?thesis
      by (intro conjI) (simp add: fix_outcome_def, simp)
  next
    case (Inr n)
    with run whole enc5 have rv: "r = Inr (n = 3)" "v = w5\<lparr>trace := trace w5 @
        [Stdout (if n = 3
                 then nl @ emoji_check @ lit '' Fix confirmed: All '' @ str_nat n
                      @ lit '' memories serialized successfully!''
                 else nl @ emoji_warning @ lit ''  Partial success: '' @ str_nat n
                      @ lit ''/'' @ str_nat 3 @ lit '' serialized'')]\<rparr>"
      by (simp_all add: bnd_def fix_verdict_run)
    have "v = w5\<lparr>trace := trace v\<rparr>"
      by (subst rv(2)) (simp add: rv(2))
    from this w5 have "v = (after_demo [] w)\<lparr>trace := trace v\<rparr>"
      by (rule trace_only_trans)
    with rv(1) Inr count show ?thesis
      by (intro conjI) (simp add: fix_outcome_def, assumption)
  qed
qed

lemma supplies_only:
  "fresh_uuids (w\<lparr>trace := t, dbs := d, next_engine := e, sessions := s, next_session := h\<rparr>) =
     fresh_uuids w"
  "fix_outcome c (w\<lparr>trace := t, dbs := d, next_engine := e, sessions := s, next_session := h\<rparr>) =
     fix_outcome c w"
  "fresh_uuids (after_demo t w) = fresh_uuids (after_demo [] w)"
  "fix_outcome c (after_demo t w) =
     fix_outcome c (w\<lparr>uuid_count := uuid_count w + 7, clock_count := clock_count w + 3\<rparr>)"
  "fresh_uuids (w\<lparr>uuid_count := uuid_count w + 7, clock_count := clock_count w + 3\<rparr>) =
     fresh_uuids (after_demo [] w)"
  by (simp_all add: fresh_uuids_def fix_outcome_def test_arguments_def eager_objects_def
      test_defs after_demo_def)

section \<open>What the statements of the script leave alone\<close>

named_theorems confined_intros

lemma confinedI:
  assumes "\<And>w a e p. m (w\<lparr>argv := a, environ := e, sys_path := p\<rparr>) =
             (fst (m w), (snd (m w))\<lparr>argv := a, environ := e, sys_path := p\<rparr>)"
    and "\<And>w. files (snd (m w)) = files w \<and> stdout_raises (snd (m w)) = stdout_raises w"
  shows "confined m"
  using assms by (simp add: confined_def)

lemma confined_run:
  assumes "confined m"
  shows "m (w\<lparr>argv := a, environ := e, sys_path := p\<rparr>) =
           (fst (m w), (snd (m w))\<lparr>argv := a, environ := e, sys_path := p\<rparr>)"
  using assms by (simp add: confined_def)

lemma confined_files:
  assumes "confined m"
  shows "files (snd (m w)) = files w \<and> stdout_raises (snd (m w)) = stdout_raises w"
  using assms by (simp add: confined_def)

lemma confined_writes_all:
  assumes "confined m"
  shows "writes_all (snd (m w)) = writes_all w"
  using confined_files[OF assms, of w] by (simp add: writes_all_def)

lemma confined_ret [confined_intros]: "confined (ret x)"
  by (simp add: confined_def ret_def)

lemma confined_raise [confined_intros]: "confined (raise x)"
  by (simp add: confined_def raise_def)

lemma confined_bnd [confined_intros]:
  assumes "confined m" and "\<And>x. confined (f x)"
  shows "confined (bnd m f)"
proof (rule confinedI)
  fix w a e p
  obtain r v where run: "m w = (r, v)" by (cases "m w")
  with confined_run[OF assms(1), where w = w and a = a and e = e and p = p]
  have run': "m (w\<lparr>argv := a, environ := e, sys_path := p\<rparr>) =
      (r, v\<lparr>argv := a, environ := e, sys_path := p\<rparr>)" by simp
  show "bnd m f (w\<lparr>argv := a, environ := e, sys_path := p\<rparr>) =
          (fst (bnd m f w), (snd (bnd m f w))\<lparr>argv := a, environ := e, sys_path := p\<rparr>)"
  proof (cases r)
    case (Inl x)
    with run run' show ?thesis by (simp add: bnd_def)
  next
    case (Inr x)
    with run run' confined_run[OF assms(2), where w = v and a = a and e = e and p = p] show ?thesis by (simp add: bnd_def)
  qed
next
  fix w
  obtain r v where run: "m w = (r, v)" by (cases "m w")
  with confined_files[OF assms(1), where w = w]
  have v: "files v = files w" "stdout_raises v = stdout_raises w" by simp_all
  show "files (snd (bnd m f w)) = files w \<and> stdout_raises (snd (bnd m f w)) = stdout_raises w"
  proof (cases r)
    case (Inl x)
    with run v show ?thesis by (simp add: bnd_def)
  next
    case (Inr x)
    with run v confined_files[OF assms(2), where w = v] show ?thesis by (simp add: bnd_def)
  qed
qed

lemma confined_seq [confined_intros]:
  "confined m \<Longrightarrow> confined n \<Longrightarrow> confined (seq m n)"
  by (simp add: seq_def confined_bnd)

lemma confined_block [confined_intros]:
  "list_all confined ss \<Longrightarrow> confined (block ss)"
  by (induction ss) (simp_all add: confined_ret confined_seq)

lemma confined_try_except [confined_intros]:
  assumes "confined body" and "\<And>x. confined (handler x)"
  shows "confined (try_except body handler)"
proof (rule confinedI)
  fix w a e p
  obtain r v where run: "body w = (r, v)" by (cases "body w")
  with confined_run[OF assms(1), where w = w and a = a and e = e and p = p]
  have run': "body (w\<lparr>argv := a, environ := e, sys_path := p\<rparr>) =
      (r, v\<lparr>argv := a, environ := e, sys_path := p\<rparr>)" by simp
  show "try_except body handler (w\<lparr>argv := a, environ := e, sys_path := p\<rparr>) =
          (fst (try_except body handler w),
           (snd (try_except body handler w))\<lparr>argv := a, environ := e, sys_path := p\<rparr>)"
  proof (cases r)
    case (Inl x)
    with run run' confined_run[OF assms(2), where w = v and a = a and e = e and p = p] show ?thesis
      by (simp add: try_except_def)
  next
    case (Inr x)
    with run run' show ?thesis by (simp add: try_except_def)
  qed
next
  fix w
  obtain r v where run: "body w = (r, v)" by (cases "body w")
  with confined_files[OF assms(1), where w = w]
  have v: "files v = files w" "stdout_raises v = stdout_raises w" by simp_all
  show "files (snd (try_except body handler w)) = files w \<and>
        stdout_raises (snd (try_except body handler w)) = stdout_raises w"
  proof (cases r)
    case (Inl x)
    with run v confined_files[OF assms(2), where w = v] show ?thesis by (simp add: try_except_def)
  next
    case (Inr x)
    with run v show ?thesis by (simp add: try_except_def)
  qed
qed

lemma confined_if [confined_intros]:
  "confined m \<Longrightarrow> confined n \<Longrightarrow> confined (if b then m else n)"
  by simp

lemma confined_case_prod [confined_intros]:
  "(\<And>a b. confined (f a b)) \<Longrightarrow> confined (case x of (a, b) \<Rightarrow> f a b)"
  by (cases x) simp

lemma confined_case_option [confined_intros]:
  "confined m \<Longrightarrow> (\<And>y. confined (f y)) \<Longrightarrow> confined (case x of None \<Rightarrow> m | Some y \<Rightarrow> f y)"
  by (cases x) simp_all

lemma confined_emit [confined_intros]: "confined (emit ev)"
  by (simp add: confined_def emit_def)

lemma confined_print [confined_intros]: "confined (print s)"
  by (rule confinedI) (simp_all add: print_def emit_def split: option.splits)

lemma confined_print_exc [confined_intros]: "confined (print_exc x)"
  by (simp add: print_exc_def confined_emit)

lemma confined_uuid4 [confined_intros]: "confined uuid4"
  by (simp add: confined_def uuid4_def)

lemma confined_datetime_now [confined_intros]: "confined datetime_now"
  by (simp add: confined_def datetime_now_def)

lemma confined_session_add [confined_intros]: "confined (session_add h obj)"
  by (simp add: confined_def session_add_def Let_def)

lemma session_view_confined:
  "session_view (w\<lparr>argv := a, environ := e, sys_path := p\<rparr>) h = session_view w h"
  by (simp add: session_view_def split: option.splits)

lemma confined_session_flush [confined_intros]: "confined (session_flush h)"
  by (rule confinedI)
     (simp_all add: session_flush_def session_view_confined Let_def split: sum.splits)

lemma confined_commit_tx [confined_intros]: "confined (commit_tx h)"
  by (simp add: confined_def commit_tx_def Let_def split: option.splits)

lemma confined_session_commit [confined_intros]: "confined (session_commit h)"
  by (simp add: session_commit_def confined_seq confined_session_flush confined_commit_tx)

lemma confined_session_close [confined_intros]: "confined (session_close h)"
  by (simp add: confined_def session_close_def Let_def)

lemma confined_new_session [confined_intros]: "confined (new_session f)"
  by (simp add: confined_def new_session_def Let_def)

lemma confined_with_session [confined_intros]:
  assumes "\<And>h. confined (body h)"
  shows "confined (with_session f body)"
proof -
  have "with_session f body =
      bnd (new_session f)
        (\<lambda>h w. case body h w of (r, w') \<Rightarrow> (r, snd (session_close h w')))"
    by (simp add: with_session_def)
  moreover have "confined (\<lambda>w. case body h w of (r, w') \<Rightarrow> (r, snd (session_close h w')))" for h
  proof (rule confinedI)
    fix w a e p
    obtain r v where run: "body h w = (r, v)" by (cases "body h w")
    with confined_run[OF assms[of h], where w = w and a = a and e = e and p = p] show
      "(case body h (w\<lparr>argv := a, environ := e, sys_path := p\<rparr>) of
          (r, w') \<Rightarrow> (r, snd (session_close h w'))) =
       (fst (case body h w of (r, w') \<Rightarrow> (r, snd (session_close h w'))),
        (snd (case body h w of (r, w') \<Rightarrow> (r, snd (session_close h w'))))
          \<lparr>argv := a, environ := e, sys_path := p\<rparr>)"
      by (simp add: session_close_def Let_def)
  next
    fix w
    obtain r v where run: "body h w = (r, v)" by (cases "body h w")
    with confined_files[OF assms[of h], where w = w]
    show "files (snd (case body h w of (r, w') \<Rightarrow> (r, snd (session_close h w')))) = files w \<and>
          stdout_raises (snd (case body h w of (r, w') \<Rightarrow> (r, snd (session_close h w')))) =
            stdout_raises w"
      by (simp add: session_close_def Let_def)
  qed
  ultimately show ?thesis by (simp add: confined_bnd confined_new_session)
qed

lemma confined_create_test_database [confined_intros]: "confined create_test_database"
  by (rule confinedI)
     (simp_all add: create_test_database_def create_engine_def create_all_def bnd_def seq_def
       ret_def empty_db_def sessionmaker_def Let_def)

lemma confined_query_all [confined_intros]: "confined (query_all q)"
  by (rule confinedI) (simp_all add: query_all_def session_view_confined Let_def)

lemma confined_get_app [confined_intros]: "confined (get_app m)"
  by (rule confinedI) (simp_all add: get_app_def session_view_confined split: option.splits)

lemma confined_get_categories [confined_intros]: "confined (get_categories m)"
  by (rule confinedI) (simp_all add: get_categories_def session_view_confined split: option.splits)

lemma confined_name_of [confined_intros]: "confined (name_of x)"
  by (cases x) (simp_all add: name_of_def confined_ret confined_raise)

lemma confined_construct [confined_intros]: "confined (construct c args)"
  by (simp add: confined_def construct_def)

lemma confined_create_categories [confined_intros]: "confined (create_categories h is cs)"
  by (induction "is" arbitrary: cs) (simp_all add: confined_intros)

lemma confined_create_memories [confined_intros]:
  "confined (create_memories h user app cs is ms)"
  by (induction "is" arbitrary: ms) (simp_all add: confined_intros)

lemma confined_setup_test_data [confined_intros]: "confined (setup_test_data h)"
  unfolding setup_test_data_def Let_def by (intro confined_intros)

lemma confined_prepare_database [confined_intros]: "confined prepare_database"
  unfolding prepare_database_def by (intro confined_intros)

lemma confined_bug_query [confined_intros]: "confined (bug_query f uid)"
  unfolding bug_query_def by (intro confined_intros)

lemma confined_fix_query [confined_intros]: "confined (fix_query f uid)"
  unfolding fix_query_def by (intro confined_intros)

lemma confined_bug_serialize [confined_intros]: "confined (bug_serialize c m)"
  unfolding bug_serialize_def by (intro confined_intros)

lemma confined_fix_serialize [confined_intros]: "confined (fix_serialize c m)"
  unfolding fix_serialize_def by (intro confined_intros)

lemma confined_bug_handler [confined_intros]: "confined (bug_handler x)"
  unfolding bug_handler_def by (intro confined_intros) (simp add: confined_intros)

lemma confined_bug_iteration [confined_intros]: "confined (bug_iteration c failed im)"
  unfolding bug_iteration_def by (intro confined_intros)

lemma confined_fix_iteration [confined_intros]: "confined (fix_iteration c n im)"
  unfolding fix_iteration_def by (intro confined_intros)

lemma confined_bug_loop [confined_intros]: "confined (bug_loop c ims failed)"
  by (induction ims arbitrary: failed) (simp_all add: confined_intros)

lemma confined_fix_loop [confined_intros]: "confined (fix_loop c ims n)"
  by (induction ims arbitrary: n) (simp_all add: confined_intros)

lemma confined_reproduce_bug [confined_intros]: "confined (reproduce_bug_without_fix c)"
  unfolding reproduce_bug_without_fix_def
  by (intro confined_intros) (simp_all add: confined_intros)

lemma confined_demonstrate_fix [confined_intros]: "confined (demonstrate_fix_with_eager_loading c)"
  unfolding demonstrate_fix_with_eager_loading_def
  by (intro confined_intros) (simp_all add: confined_intros)

lemma confined_show_diff [confined_intros]: "confined show_the_actual_code_diff"
  unfolding show_the_actual_code_diff_def
  by (intro confined_intros) (simp add: confined_intros)

lemma confined_summary [confined_intros]: "confined (summary b f)"
  unfolding summary_def by (intro confined_intros) (simp_all add: confined_intros)

lemma confined_main_handler [confined_intros]: "confined (main_handler x)"
  unfolding main_handler_def by (intro confined_intros)

lemma confined_main: "confined (main c)"
  unfolding main_def main_with_def main_try_def
  by (intro confined_intros) (simp_all add: confined_intros)

lemma confined_keeps:
  assumes "confined m"
  shows "argv (snd (m w)) = argv w" and "environ (snd (m w)) = environ w"
    and "sys_path (snd (m w)) = sys_path w"
proof -
  have same: "w\<lparr>argv := argv w, environ := environ w, sys_path := sys_path w\<rparr> = w"
    by simp
  from confined_run[OF assms, where w = w and a = "argv w" and e = "environ w" and p = "sys_path w"]
  have "m w = (fst (m w),
      (snd (m w))\<lparr>argv := argv w, environ := environ w, sys_path := sys_path w\<rparr>)"
    by (simp only: same)
  then have eq: "snd (m w) =
      (snd (m w))\<lparr>argv := argv w, environ := environ w, sys_path := sys_path w\<rparr>"
    by (metis snd_conv)
  show "argv (snd (m w)) = argv w" by (subst eq) simp
  show "environ (snd (m w)) = environ w" by (subst eq) simp
  show "sys_path (snd (m w)) = sys_path w" by (subst eq) simp
qed

lemma sys_path_same:
  "sys_path v = p \<Longrightarrow> v\<lparr>argv := a, environ := e, sys_path := p\<rparr> = v\<lparr>argv := a, environ := e\<rparr>"
  by (cases v) simp


section \<open>The worlds the demonstrations leave\<close>

lemma bug_demo_world:
  "after_demo (bug_demo_trace w) w =
     (after_query (bug_query_trace (next_session w + 1) (next_engine w)) (next_engine w)
        (after_prepare (w\<lparr>trace := trace w @ bug_banner\<rparr>)))
     \<lparr>trace :=
        trace (after_query (bug_query_trace (next_session w + 1) (next_engine w)) (next_engine w)
                 (after_prepare (w\<lparr>trace := trace w @ bug_banner\<rparr>)))
        @ [Stdout (nl @ lit ''Step 3: Try to serialize with Pydantic (accessing relationships)...''),
           Stdout (lit ''   This should fail because relationships weren''
                   @ quote @ lit ''t eager-loaded!'' @ nl)]
        @ concat (map bug_pass_trace (enumerate 1 (lazy_objects (next_session w + 1) w)))
        @ [Stdout (nl @ emoji_check @ lit '' Bug successfully reproduced!'')]\<rparr>"
  by (simp add: after_demo_def bug_demo_trace_def after_query_def after_prepare_def
      trace_irrelevant fun_upd_twist)

lemma fix_demo_world:
  assumes "list_all (serializes c) (eager_objects (next_session w + 1) w)"
  shows "after_demo (fix_demo_trace c w) w =
     (after_query (fix_query_trace (next_session w + 1) (next_engine w)) (next_engine w)
        (after_prepare (w\<lparr>trace := trace w @ fix_banner\<rparr>)))
     \<lparr>trace :=
        trace (after_query (fix_query_trace (next_session w + 1) (next_engine w)) (next_engine w)
                 (after_prepare (w\<lparr>trace := trace w @ fix_banner\<rparr>)))
        @ [Stdout (nl @ lit ''Step 3: Serialize with Pydantic (should work now)...'' @ nl)]
        @ concat (map (fix_pass_trace c) (enumerate 1 (eager_objects (next_session w + 1) w)))
        @ [Stdout (nl @ emoji_check @ lit '' Fix confirmed: All '' @ str_nat 3
                   @ lit '' memories serialized successfully!'')]\<rparr>"
  using assms
  by (simp add: after_demo_def fix_demo_trace_def after_query_def after_prepare_def
      trace_irrelevant fun_upd_twist)

section \<open>The handler of main\<close>

lemma print_accepted:
  "stdout_raises w s = None \<Longrightarrow> print s w = (Inr (), w\<lparr>trace := trace w @ [Stdout s]\<rparr>)"
  by (simp add: print_def emit_def)

lemma print_rejected: "stdout_raises w s = Some x \<Longrightarrow> print s w = (Inl x, w)"
  by (simp add: print_def)

lemma seq_print_accepted:
  "stdout_raises w s = None \<Longrightarrow> seq (print s) m w = m (w\<lparr>trace := trace w @ [Stdout s]\<rparr>)"
  by (simp add: seq_def bnd_def print_accepted)

lemma seq_print_rejected: "stdout_raises w s = Some x \<Longrightarrow> seq (print s) m w = (Inl x, w)"
  by (simp add: seq_def bnd_def print_rejected)

lemma main_handler_reported: "main_handler e w = reported e w"
  by (cases "stdout_raises w (handler_line e)")
     (simp_all add: main_handler_def reported_def handler_line_def seq_print_accepted
       seq_print_rejected print_exc_def emit_def unexpected_error_def)

lemma main_started:
  assumes "accepts w banner"
  shows "main c w = try_except (try_body c) main_handler (w\<lparr>trace := trace w @ banner\<rparr>)"
  using assms
  by (simp add: main_def main_with_def try_body_def accepts_def banner_def seq_assoc seq_ret
      seq_print_accepted)

lemma main_reports:
  assumes "accepts w banner" and "try_body c (w\<lparr>trace := trace w @ banner\<rparr>) = (Inl e, w')"
    and "is_Exception e"
  shows "main c w = reported e w'"
  using assms(2,3)
  by (simp add: main_started[OF assms(1)] try_except_def main_handler_reported)

lemma stdout_kept:
  assumes "confined m" and "m w = (r, w')"
  shows "stdout_raises w' = stdout_raises w"
  using confined_files[OF assms(1), of w] assms(2) by simp

lemma try_body_bug_raises:
  assumes "stdout_raises w (nl @ lit ''Part 1: Attempting to reproduce the bug...'') = None"
    and "reproduce_bug_without_fix c (entering_bug w) = (Inl e, w')"
  shows "try_body c (w\<lparr>trace := trace w @ banner\<rparr>) = (Inl e, w')"
  using assms
  by (simp add: try_body_def main_try_def seq_print_accepted bnd_def entering_bug_def)

lemma try_body_fix_raises:
  assumes "stdout_raises w (nl @ lit ''Part 1: Attempting to reproduce the bug...'') = None"
    and "reproduce_bug_without_fix c (entering_bug w) = (Inr b, w2)"
    and "stdout_raises w (nl @ lit ''Part 2: Demonstrating the fix...'') = None"
    and "demonstrate_fix_with_eager_loading c (entering_fix w2) = (Inl e, w')"
  shows "try_body c (w\<lparr>trace := trace w @ banner\<rparr>) = (Inl e, w')"
proof -
  have "stdout_raises w2 = stdout_raises (entering_bug w)"
    by (rule stdout_kept[OF confined_reproduce_bug assms(2)])
  then have "stdout_raises w2 (nl @ lit ''Part 2: Demonstrating the fix...'') = None"
    using assms(3) by (simp add: entering_bug_def)
  with assms(1,2,4) show ?thesis
    by (simp add: try_body_def main_try_def seq_print_accepted bnd_def entering_bug_def
        entering_fix_def)
qed

lemma try_body_diff_raises:
  assumes "stdout_raises w (nl @ lit ''Part 1: Attempting to reproduce the bug...'') = None"
    and "reproduce_bug_without_fix c (entering_bug w) = (Inr b, w2)"
    and "stdout_raises w (nl @ lit ''Part 2: Demonstrating the fix...'') = None"
    and "demonstrate_fix_with_eager_loading c (entering_fix w2) = (Inr f, w3)"
    and "show_the_actual_code_diff w3 = (Inl e, w')"
  shows "try_body c (w\<lparr>trace := trace w @ banner\<rparr>) = (Inl e, w')"
proof -
  have "stdout_raises w2 = stdout_raises (entering_bug w)"
    by (rule stdout_kept[OF confined_reproduce_bug assms(2)])
  then have "stdout_raises w2 (nl @ lit ''Part 2: Demonstrating the fix...'') = None"
    using assms(3) by (simp add: entering_bug_def)
  with assms(1,2,4,5) show ?thesis
    by (simp add: try_body_def main_try_def seq_print_accepted print_accepted bnd_def
        entering_bug_def entering_fix_def seq_def)
qed

lemma bug_setup_raises:
  assumes "accepts v bug_banner"
    and "prepare_database (v\<lparr>trace := trace v @ bug_banner\<rparr>) = (Inl e, w')"
  shows "reproduce_bug_without_fix c v = (Inl e, w')"
  using assms
  by (simp add: reproduce_bug_without_fix_def accepts_def bug_banner_def seq_assoc seq_ret
      seq_print_accepted bnd_def)

lemma bug_query_raises:
  assumes "accepts v bug_banner"
    and "prepare_database (v\<lparr>trace := trace v @ bug_banner\<rparr>) = (Inr (sl, uid, aid, ids), v1)"
    and "bug_query sl uid v1 = (Inl e, w')"
  shows "reproduce_bug_without_fix c v = (Inl e, w')"
  using assms
  by (simp add: reproduce_bug_without_fix_def accepts_def bug_banner_def seq_assoc seq_ret
      seq_print_accepted bnd_def)

lemma fix_setup_raises:
  assumes "accepts v fix_banner"
    and "prepare_database (v\<lparr>trace := trace v @ fix_banner\<rparr>) = (Inl e, w')"
  shows "demonstrate_fix_with_eager_loading c v = (Inl e, w')"
  using assms
  by (simp add: demonstrate_fix_with_eager_loading_def accepts_def fix_banner_def seq_assoc
      seq_ret seq_print_accepted bnd_def)

lemma fix_query_raises:
  assumes "accepts v fix_banner"
    and "prepare_database (v\<lparr>trace := trace v @ fix_banner\<rparr>) = (Inr (sl, uid, aid, ids), v1)"
    and "fix_query sl uid v1 = (Inl e, w')"
  shows "demonstrate_fix_with_eager_loading c v = (Inl e, w')"
  using assms
  by (simp add: demonstrate_fix_with_eager_loading_def accepts_def fix_banner_def seq_assoc
      seq_ret seq_print_accepted bnd_def)

lemma ascii_lit: "list_all (\<lambda>c. c < 128) (lit cs) = list_all (\<lambda>c. of_char c < (128::nat)) cs"
  by (simp add: lit_def list_all_iff)

lemma ascii_str_mul:
  "list_all (\<lambda>c. c < 128) (str_mul cs n) = (n = 0 \<or> list_all (\<lambda>c. c < 128) (lit cs))"
  by (induction n) (auto simp: str_mul_def)

lemma ascii_nl: "list_all (\<lambda>c. c < 128) nl"
  by (simp add: nl_def)

lemmas ascii_simps = ascii_stdout_def ascii_lit ascii_str_mul ascii_nl

lemma accepted_same: "stdout_raises v = stdout_raises w \<Longrightarrow> accepted v ev = accepted w ev"
  by (cases ev) simp_all

lemma accepts_same: "stdout_raises v = stdout_raises w \<Longrightarrow> accepts v t = accepts w t"
  by (simp add: accepts_def accepted_same[of v w] cong: list.pred_cong)

lemma accepts_entering [simp]:
  "accepts (entering_bug w) t = accepts w t" "accepts (entering_fix w) t = accepts w t"
  "accepts (w\<lparr>trace := x\<rparr>) t = accepts w t"
  by (rule accepts_same, simp add: entering_bug_def entering_fix_def)+

lemma writes_all_accepts: "writes_all w \<Longrightarrow> accepts w t"
proof -
  assume "writes_all w"
  then have "accepted w ev" for ev
    by (cases ev) (simp_all add: writes_all_def)
  then show ?thesis
    by (simp add: accepts_def list_all_iff)
qed

lemma bug_on_ascii:
  assumes "stdout_raises w = ascii_stdout"
  shows "reproduce_bug_without_fix c (entering_bug w) =
     (Inl (unicode_encode_error (emoji_bug @ lit '' REPRODUCING THE BUG (WITHOUT FIX)'')),
      w\<lparr>trace := trace w @ banner
        @ [Stdout (nl @ lit ''Part 1: Attempting to reproduce the bug...''),
           Stdout (nl @ str_mul ''='' 60)]\<rparr>)"
proof -
  let ?e = "unicode_encode_error (emoji_bug @ lit '' REPRODUCING THE BUG (WITHOUT FIX)'')"
  have c1: "stdout_raises (entering_bug w) (nl @ str_mul ''='' 60) = None"
    by (simp add: entering_bug_def assms ascii_simps)
  have c2: "stdout_raises (entering_bug w)
       (emoji_bug @ lit '' REPRODUCING THE BUG (WITHOUT FIX)'') = Some ?e"
    by (simp add: entering_bug_def assms ascii_simps emoji_bug_def)
  show ?thesis
    using c1 c2
    by (simp add: reproduce_bug_without_fix_def seq_assoc seq_print_accepted seq_print_rejected)
       (simp add: entering_bug_def)
qed

lemma main_on_ascii:
  assumes "stdout_raises w = ascii_stdout"
  shows "main c w =
     (Inl (unicode_encode_error
             (handler_line
                (unicode_encode_error (emoji_bug @ lit '' REPRODUCING THE BUG (WITHOUT FIX)'')))),
      w\<lparr>trace := trace w @ banner
        @ [Stdout (nl @ lit ''Part 1: Attempting to reproduce the bug...''),
           Stdout (nl @ str_mul ''='' 60)]\<rparr>)"
proof -
  let ?e = "unicode_encode_error (emoji_bug @ lit '' REPRODUCING THE BUG (WITHOUT FIX)'')"
  let ?w' = "w\<lparr>trace := trace w @ banner
        @ [Stdout (nl @ lit ''Part 1: Attempting to reproduce the bug...''),
           Stdout (nl @ str_mul ''='' 60)]\<rparr>"
  have ban: "accepts w banner"
    by (simp add: accepts_def assms banner_def ascii_simps)
  have p1: "stdout_raises w (nl @ lit ''Part 1: Attempting to reproduce the bug...'') = None"
    by (simp add: assms ascii_simps)
  have exc: "is_Exception ?e"
    by (simp add: unicode_encode_error_def Let_def)
  have line: "stdout_raises w (handler_line ?e) = Some (unicode_encode_error (handler_line ?e))"
    by (simp add: assms ascii_simps handler_line_def emoji_boom_def)
  have "main c w = reported ?e ?w'"
    by (rule main_reports[OF ban try_body_bug_raises[OF p1 bug_on_ascii[OF assms]] exc])
  then show ?thesis
    by (simp add: reported_def line)
qed

lemma ascii_world_stdout: "stdout_raises ascii_world = ascii_stdout" "trace ascii_world = []"
  by (simp_all add: ascii_world_def world0_def)

lemma bug_in_ascii:
  "reproduce_bug_without_fix c (entering_bug ascii_world) =
     (Inl (unicode_encode_error (emoji_bug @ lit '' REPRODUCING THE BUG (WITHOUT FIX)'')),
      ascii_world\<lparr>trace := banner
        @ [Stdout (nl @ lit ''Part 1: Attempting to reproduce the bug...''),
           Stdout (nl @ str_mul ''='' 60)]\<rparr>)"
  by (simp add: bug_on_ascii[OF ascii_world_stdout(1)] ascii_world_stdout(2))

lemma main_in_ascii:
  "main c ascii_world =
     (Inl (unicode_encode_error
             (handler_line
                (unicode_encode_error (emoji_bug @ lit '' REPRODUCING THE BUG (WITHOUT FIX)'')))),
      ascii_world\<lparr>trace := banner
        @ [Stdout (nl @ lit ''Part 1: Attempting to reproduce the bug...''),
           Stdout (nl @ str_mul ''='' 60)]\<rparr>)"
  by (simp add: main_on_ascii[OF ascii_world_stdout(1)] ascii_world_stdout(2))

lemma main_in_broken: "main c broken_world = (Inl broken_pipe_error, broken_world)"
  by (simp add: main_def main_with_def seq_assoc seq_print_rejected[where x = broken_pipe_error]
      broken_world_def broken_stdout_def)

section \<open>The process\<close>

lemma python_run: "python pk w = bnd (import_statements pk) main (booted w)"
  by (simp add: python_def script_def booted_def seq_def bnd_def interpreter_startup_def
      sys_path_insert_def)

lemma booted_fields:
  "stdout_raises (booted w) = stdio w (environ w)"
  "files (booted w) = files w" "argv (booted w) = argv w" "environ (booted w) = environ w"
  "sys_path (booted w) = script_dir w # sys_path w" "trace (booted w) = trace w"
  "dbs (booted w) = dbs w" "cache_tag (booted w) = cache_tag w"
  "dont_write_bytecode (booted w) =
     (dont_write_bytecode w \<or>
      (case map_of (environ w) (lit ''PYTHONDONTWRITEBYTECODE'') of
         None \<Rightarrow> False | Some v \<Rightarrow> v \<noteq> []))"
  by (simp_all add: booted_def interpreter_startup_def sys_path_insert_def)

lemma python_imports_raise:
  "import_statements pk (booted w) = (Inl e, w1) \<Longrightarrow> python pk w = (Inl e, w1)"
  by (simp add: python_run bnd_def)

lemma python_imports_return:
  "import_statements pk (booted w) = (Inr c, w1) \<Longrightarrow> python pk w = main c w1"
  by (simp add: python_run bnd_def)

lemma prints_raise:
  assumes "block (map print ss) w = (Inl e, w')"
  shows "\<exists>s. stdout_raises w s = Some e"
  using assms
proof (induction ss arbitrary: w)
  case Nil
  then show ?case by (simp add: ret_def)
next
  case (Cons s ss)
  show ?case
  proof (cases "stdout_raises w s")
    case None
    with Cons.prems have "block (map print ss) (w\<lparr>trace := trace w @ [Stdout s]\<rparr>) = (Inl e, w')"
      by (simp add: seq_print_accepted)
    from Cons.IH[OF this] show ?thesis by simp
  next
    case (Some x)
    with Cons.prems have "x = e" by (simp add: seq_print_rejected[where x = x])
    with Some show ?thesis by blast
  qed
qed

lemma prints_return:
  assumes "block (map print ss) w = (Inr u, w')"
  shows "accepts w (map Stdout ss)"
  using assms
proof (induction ss arbitrary: w)
  case Nil
  then show ?case by (simp add: accepts_def)
next
  case (Cons s ss)
  show ?case
  proof (cases "stdout_raises w s")
    case None
    with Cons.prems have "block (map print ss) (w\<lparr>trace := trace w @ [Stdout s]\<rparr>) = (Inr u, w')"
      by (simp add: seq_print_accepted)
    from Cons.IH[OF this] have "accepts w (map Stdout ss)" by simp
    with None show ?thesis by (simp add: accepts_def)
  next
    case (Some x)
    with Cons.prems show ?thesis by (simp add: seq_print_rejected[where x = x])
  qed
qed

lemma main_banner:
  "main c w =
     seq (block (map print [nl @ str_mul ''='' 60,
                            lit '' OpenMemory MCP - Pydantic Validation Bug Reproduction'',
                            lit '' Using actual models from openmemory/api/app/'',
                            str_mul ''='' 60]))
         (try_except (try_body c) main_handler) w"
  by (simp add: main_def main_with_def try_body_def)

lemma banner_lines:
  "banner = map Stdout [nl @ str_mul ''='' 60,
                        lit '' OpenMemory MCP - Pydantic Validation Bug Reproduction'',
                        lit '' Using actual models from openmemory/api/app/'',
                        str_mul ''='' 60]"
  by (simp add: banner_def)

lemma confined_try_body: "confined (try_body c)"
  unfolding try_body_def main_try_def by (intro confined_intros)

lemma main_raises:
  assumes "main c w = (Inl e, w')"
  shows "\<not> is_Exception e \<or> (\<exists>s. stdout_raises w s = Some e)"
proof -
  let ?ss = "[nl @ str_mul ''='' 60,
              lit '' OpenMemory MCP - Pydantic Validation Bug Reproduction'',
              lit '' Using actual models from openmemory/api/app/'',
              str_mul ''='' 60]"
  obtain r0 v0 where ban: "block (map print ?ss) w = (r0, v0)"
    by (cases "block (map print ?ss) w")
  show ?thesis
  proof (cases r0)
    case (Inl x)
    with ban assms have "x = e"
      by (simp add: main_banner seq_def bnd_def del: block.simps list.map)
    with ban Inl prints_raise[of ?ss w e v0] show ?thesis by blast
  next
    case (Inr u0)
    with ban have acc: "accepts w banner"
      by (simp only: banner_lines prints_return)
    let ?w0 = "w\<lparr>trace := trace w @ banner\<rparr>"
    obtain r v where body: "try_body c ?w0 = (r, v)" by (cases "try_body c ?w0")
    have same: "stdout_raises v = stdout_raises w"
      using stdout_kept[OF confined_try_body body] by simp
    show ?thesis
    proof (cases r)
      case (Inl x)
      show ?thesis
      proof (cases "is_Exception x")
        case True
        with body Inl have "main c w = reported x v"
          by (intro main_reports[OF acc]) simp_all
        with assms show ?thesis
          by (auto simp: reported_def same split: option.splits)
      next
        case False
        with body Inl assms show ?thesis
          by (simp add: main_started[OF acc] try_except_def)
      qed
    next
      case (Inr u)
      with body assms show ?thesis
        by (simp add: main_started[OF acc] try_except_def)
    qed
  qed
qed

lemma write_caches_run:
  "\<exists>fs. write_caches srcs w = (Inr (), w\<lparr>files := files w @ fs\<rparr>) \<and>
        set fs = (if dont_write_bytecode w then {}
                  else cache_file (cache_tag w) ` set srcs - set (files w))"
proof (induction srcs arbitrary: w)
  case Nil
  have "w\<lparr>files := files w @ []\<rparr> = w" by simp
  then show ?case by (simp add: ret_def)
next
  case (Cons src srcs)
  let ?p = "cache_file (cache_tag w) src"
  show ?case
  proof (cases "dont_write_bytecode w \<or> ?p \<in> set (files w)")
    case True
    from Cons.IH[of w] obtain fs where
      "write_caches srcs w = (Inr (), w\<lparr>files := files w @ fs\<rparr>)"
      "set fs = (if dont_write_bytecode w then {}
                  else cache_file (cache_tag w) ` set srcs - set (files w))" by blast
    with True show ?thesis
      by (intro exI[of _ fs]) (auto simp: seq_def bnd_def)
  next
    case False
    let ?w = "w\<lparr>files := files w @ [?p]\<rparr>"
    from Cons.IH[of ?w] obtain fs where
      "write_caches srcs ?w = (Inr (), ?w\<lparr>files := files ?w @ fs\<rparr>)"
      "set fs = (if dont_write_bytecode ?w then {}
                  else cache_file (cache_tag ?w) ` set srcs - set (files ?w))" by blast
    with False show ?thesis
      by (intro exI[of _ "?p # fs"]) (auto simp: seq_def bnd_def)
  qed
qed

lemma write_caches_ignores:
  "write_caches srcs (w\<lparr>argv := a, environ := e\<rparr>) =
     (fst (write_caches srcs w), (snd (write_caches srcs w))\<lparr>argv := a, environ := e\<rparr>)"
proof (induction srcs arbitrary: w)
  case Nil
  then show ?case by (simp add: ret_def)
next
  case (Cons src srcs)
  let ?p = "cache_file (cache_tag w) src"
  let ?w = "w\<lparr>files := files w @ [?p]\<rparr>"
  have swap: "w\<lparr>argv := a, environ := e, files := files w @ [?p]\<rparr> = ?w\<lparr>argv := a, environ := e\<rparr>"
    by simp
  show ?case
  proof (cases "dont_write_bytecode w \<or> ?p \<in> set (files w)")
    case True
    then show ?thesis
      by (simp add: seq_def bnd_def Cons.IH)
  next
    case False
    then show ?thesis
      by (simp add: seq_def bnd_def) (simp only: swap Cons.IH[of ?w])
  qed
qed

lemma lit_append: "lit (a @ b) = lit a @ lit b"
  by (simp add: lit_def)

lemma checkout_imports:
  assumes "files w = []" and "\<not> dont_write_bytecode w" and "cache_tag w = lit ''cpython-312''"
  shows "import_statements (checkout c) w = (Inr c, w\<lparr>files := checkout_caches\<rparr>)"
  using assms
  by (simp add: import_statements_def checkout_def seq_def bnd_def ret_def cache_file_def
      checkout_caches_def lit_def)

lemma booted_world0:
  "stdout_raises (booted world0) = utf8_stdout"
  "stdout_raises (booted world_same_uuid) = utf8_stdout"
  "stdout_raises (booted (world0\<lparr>environ := ascii_environ\<rparr>)) = ascii_stdout"
  "stdout_raises (booted (world0\<lparr>argv := a, environ := other_environ\<rparr>)) = utf8_stdout"
  by (simp_all add: booted_fields world0_def world_same_uuid_def cpython_stdio_def
      ascii_environ_def other_environ_def lit_def)

lemma checkout_booted:
  assumes "files w = []" and "\<not> dont_write_bytecode w" and "cache_tag w = lit ''cpython-312''"
    and "map_of (environ w) (lit ''PYTHONDONTWRITEBYTECODE'') = None"
  shows "import_statements (checkout c) (booted w) = (Inr c, (booted w)\<lparr>files := checkout_caches\<rparr>)"
  by (rule checkout_imports) (simp_all add: booted_fields assms)

lemma started_world0:
  "import_statements (checkout c) (booted world0) =
     (Inr c, (booted world0)\<lparr>files := checkout_caches\<rparr>)"
  "import_statements (checkout c) (booted world_same_uuid) =
     (Inr c, (booted world_same_uuid)\<lparr>files := checkout_caches\<rparr>)"
  "import_statements (checkout c) (booted (world0\<lparr>environ := ascii_environ\<rparr>)) =
     (Inr c, (booted (world0\<lparr>environ := ascii_environ\<rparr>))\<lparr>files := checkout_caches\<rparr>)"
  by (rule checkout_booted;
      simp add: world0_def world_same_uuid_def ascii_environ_def lit_def)+

lemma utf8_writes_all: "stdout_raises w = utf8_stdout \<Longrightarrow> writes_all w"
  by (simp add: writes_all_def utf8_stdout_def)

section \<open>Lazy and pre-fetched relationships (C1)\<close>

text \<open>
  C1. Start either demonstration in a world whose next values of \<open>uuid4()\<close> are fresh
  and whose standard output writes what it is given, with a constructor that accepts an
  argument list whose \<open>created_at\<close> is an integer timestamp and whose \<open>app_name\<close> is a
  string. In \<open>reproduce_bug_without_fix\<close> the query returns three memories; none has its
  \<open>app\<close> loaded and the session of each is closed, so building the response raises
  \<open>DetachedInstanceError\<close> at the read of \<open>memory.app\<close>, before the constructor is
  called; the function goes through its loop once per memory, each pass leaving the
  failed read and the three lines of the handler in the trace, and returns \<open>True\<close>. In
  \<open>demonstrate_fix_with_eager_loading\<close> the query returns three memories whose session
  is closed as well; for each of them the three reads of the relationships succeed and
  the constructor returns a response; the function goes through its loop once per
  memory and returns \<open>True\<close>.
\<close>

theorem lazy_read_raises_and_prefetched_read_does_not:
  assumes "fresh_uuids w" and "writes_all w"
    and "\<And>a t n. arg_created_at a = Timestamp_int t \<Longrightarrow> arg_app_name a = Some n \<Longrightarrow>
           \<exists>r. c a = Inr r"
  shows "(\<exists>SessionLocal uid aid ids w1 ms w2.
            prepare_database (w\<lparr>trace := trace w @ bug_banner\<rparr>) =
              (Inr (SessionLocal, uid, aid, ids), w1) \<and>
            bug_query SessionLocal uid w1 = (Inr ms, w2) \<and> length ms = 3 \<and>
            (\<forall>m\<in>set ms.
               obj_app m = None \<and> sess_closed (sessions w2 (obj_session m)) \<and>
               (\<forall>v. sess_closed (sessions v (obj_session m)) \<longrightarrow>
                  bug_serialize c m v =
                    (Inl (detached_instance_error (lit ''app'')),
                     v\<lparr>trace := trace v @
                        [Db (Read_relationship (memory_id (obj_row m)) False)]\<rparr>))) \<and>
            reproduce_bug_without_fix c w =
              (Inr True,
               w2\<lparr>trace := trace w2
                  @ [Stdout (nl @ lit ''Step 3: Try to serialize with Pydantic (accessing relationships)...''),
                     Stdout (lit ''   This should fail because relationships weren''
                             @ quote @ lit ''t eager-loaded!'' @ nl)]
                  @ concat (map bug_pass_trace (enumerate 1 ms))
                  @ [Stdout (nl @ emoji_check @ lit '' Bug successfully reproduced!'')]\<rparr>)) \<and>
         (\<exists>SessionLocal uid aid ids w1 ms w2.
            prepare_database (w\<lparr>trace := trace w @ fix_banner\<rparr>) =
              (Inr (SessionLocal, uid, aid, ids), w1) \<and>
            fix_query SessionLocal uid w1 = (Inr ms, w2) \<and> length ms = 3 \<and>
            (\<forall>m\<in>set ms.
               sess_closed (sessions w2 (obj_session m)) \<and>
               (\<exists>r. c (loaded_arguments m) = Inr r) \<and>
               (\<forall>v. fix_serialize c m v =
                  (c (loaded_arguments m),
                   v\<lparr>trace := trace v @
                      [Db (Read_relationship (memory_id (obj_row m)) True),
                       Db (Read_relationship (memory_id (obj_row m)) True),
                       Db (Read_relationship (memory_id (obj_row m)) True)]\<rparr>))) \<and>
            demonstrate_fix_with_eager_loading c w =
              (Inr True,
               w2\<lparr>trace := trace w2
                  @ [Stdout (nl @ lit ''Step 3: Serialize with Pydantic (should work now)...'' @ nl)]
                  @ concat (map (fix_pass_trace c) (enumerate 1 ms))
                  @ [Stdout (nl @ emoji_check @ lit '' Fix confirmed: All '' @ str_nat 3
                             @ lit '' memories serialized successfully!'')]\<rparr>))"
proof -
  let ?e = "next_engine w"
  let ?h = "next_session w + 1"
  let ?b1 = "w\<lparr>trace := trace w @ bug_banner\<rparr>"
  let ?f1 = "w\<lparr>trace := trace w @ fix_banner\<rparr>"
  let ?b2 = "after_query (bug_query_trace ?h ?e) ?e (after_prepare ?b1)"
  let ?f2 = "after_query (fix_query_trace ?h ?e) ?e (after_prepare ?f1)"
  have fresh: "fresh_uuids ?b1" "fresh_uuids ?f1"
    using assms(1) by (simp_all add: trace_irrelevant)
  have enc: "writes_all ?b1" "writes_all ?f1" "writes_all (after_prepare ?b1)"
    "writes_all (after_prepare ?f1)"
    using assms(2) by simp_all
  have db: "dbs (after_prepare ?b1) ?e = test_db w" "dbs (after_prepare ?f1) ?e = test_db w"
    by (simp_all add: after_prepare_def trace_irrelevant)
  have h: "next_session (after_prepare ?b1) = ?h" "next_session (after_prepare ?f1) = ?h"
    by (simp_all add: after_prepare_def)
  have prep_bug: "prepare_database ?b1 =
      (Inr (?e, user_id (test_user w), app_id (test_app w), map memory_id (test_memories w)),
       after_prepare ?b1)"
    using prepare_database_run[OF fresh(1) enc(1)] by (simp add: trace_irrelevant)
  have prep_fix: "prepare_database ?f1 =
      (Inr (?e, user_id (test_user w), app_id (test_app w), map memory_id (test_memories w)),
       after_prepare ?f1)"
    using prepare_database_run[OF fresh(2) enc(2)] by (simp add: trace_irrelevant)
  have query_bug: "bug_query ?e (user_id (test_user w)) (after_prepare ?b1) =
      (Inr (lazy_objects ?h w), ?b2)"
    using bug_query_run[OF assms(1) db(1) enc(3)] by (simp only: h)
  have query_fix: "fix_query ?e (user_id (test_user w)) (after_prepare ?f1) =
      (Inr (eager_objects ?h w), ?f2)"
    using fix_query_run[OF assms(1) db(2) enc(4)] by (simp only: h)
  have len: "length (lazy_objects ?h w) = 3"
    by (simp add: lazy_objects_def test_memories_def)
  have lazy: "\<forall>m\<in>set (lazy_objects ?h w).
      obj_app m = None \<and> sess_closed (sessions ?b2 (obj_session m)) \<and>
      (\<forall>v. sess_closed (sessions v (obj_session m)) \<longrightarrow>
         bug_serialize c m v =
           (Inl (detached_instance_error (lit ''app'')),
            v\<lparr>trace := trace v @ [Db (Read_relationship (memory_id (obj_row m)) False)]\<rparr>))"
  proof (intro ballI conjI allI impI)
    fix m assume m: "m \<in> set (lazy_objects ?h w)"
    then have "m \<in> set (lazy_objects (next_session (after_prepare ?b1)) w)"
      by (simp only: h)
    from closed_after_query[OF this]
    show none: "obj_app m = None" and "sess_closed (sessions ?b2 (obj_session m))"
      by blast+
    fix v :: world assume "sess_closed (sessions v (obj_session m))"
    with none show "bug_serialize c m v =
           (Inl (detached_instance_error (lit ''app'')),
            v\<lparr>trace := trace v @ [Db (Read_relationship (memory_id (obj_row m)) False)]\<rparr>)"
      by (rule bug_serialize_detached)
  qed
  have bug_run: "reproduce_bug_without_fix c w =
      (Inr True,
       ?b2\<lparr>trace := trace ?b2
          @ [Stdout (nl @ lit ''Step 3: Try to serialize with Pydantic (accessing relationships)...''),
             Stdout (lit ''   This should fail because relationships weren''
                     @ quote @ lit ''t eager-loaded!'' @ nl)]
          @ concat (map bug_pass_trace (enumerate 1 (lazy_objects ?h w)))
          @ [Stdout (nl @ emoji_check @ lit '' Bug successfully reproduced!'')]\<rparr>)"
    by (simp only: reproduce_bug_run[OF assms(1,2)] bug_demo_world)
  have accepted: "serializes c m" "\<exists>r. c (loaded_arguments m) = Inr r"
    if "m \<in> set (eager_objects k w)" for m k
  proof -
    from eager_arguments(2,3)[OF that] obtain t n where
      "arg_created_at (loaded_arguments m) = Timestamp_int t"
      "arg_app_name (loaded_arguments m) = Some n" by blast
    from assms(3)[OF this] show "\<exists>r. c (loaded_arguments m) = Inr r" .
    then show "serializes c m" by (auto simp: serializes_def)
  qed
  have all: "list_all (serializes c) (eager_objects ?h w)"
    using accepted(1) by (auto simp: list_all_iff)
  have no_exn: "is_Exception x"
    if "im \<in> set (enumerate 1 (eager_objects ?h w))"
      and "c (loaded_arguments (snd im)) = Inl x" for im x
  proof -
    from that(1) have "snd im \<in> set (map snd (enumerate 1 (eager_objects ?h w)))"
      by (simp del: enumerate_eq_zip map_snd_enumerate)
    then have "snd im \<in> set (eager_objects ?h w)"
      by (simp only: map_snd_enumerate)
    from accepted(2)[OF this] that(2) show ?thesis by simp
  qed
  have leng: "length (eager_objects ?h w) = 3"
    by (rule length_eager)
  have eager: "\<forall>m\<in>set (eager_objects ?h w).
      sess_closed (sessions ?f2 (obj_session m)) \<and>
      (\<exists>r. c (loaded_arguments m) = Inr r) \<and>
      (\<forall>v. fix_serialize c m v =
         (c (loaded_arguments m),
          v\<lparr>trace := trace v @
             [Db (Read_relationship (memory_id (obj_row m)) True),
              Db (Read_relationship (memory_id (obj_row m)) True),
              Db (Read_relationship (memory_id (obj_row m)) True)]\<rparr>))"
  proof (intro ballI conjI allI)
    fix m assume m: "m \<in> set (eager_objects ?h w)"
    then show "sess_closed (sessions ?f2 (obj_session m))"
      by (auto simp: eager_objects_def after_query_def after_prepare_def closed_session_def
          test_memories_def)
    from accepted(2)[OF m] show "\<exists>r. c (loaded_arguments m) = Inr r" .
    fix v :: world
    show "fix_serialize c m v =
         (c (loaded_arguments m),
          v\<lparr>trace := trace v @
             [Db (Read_relationship (memory_id (obj_row m)) True),
              Db (Read_relationship (memory_id (obj_row m)) True),
              Db (Read_relationship (memory_id (obj_row m)) True)]\<rparr>)"
      by (rule fix_serialize_prefetched[OF eager_arguments(1)[OF m]])
  qed
  have fix_run: "demonstrate_fix_with_eager_loading c w =
      (Inr True,
       ?f2\<lparr>trace := trace ?f2
          @ [Stdout (nl @ lit ''Step 3: Serialize with Pydantic (should work now)...'' @ nl)]
          @ concat (map (fix_pass_trace c) (enumerate 1 (eager_objects ?h w)))
          @ [Stdout (nl @ emoji_check @ lit '' Fix confirmed: All '' @ str_nat 3
                     @ lit '' memories serialized successfully!'')]\<rparr>)"
    using all
    by (simp only: demonstrate_fix_run[OF assms(1) no_exn assms(2)] fix_demo_world[OF all])
  have bug_part: "\<exists>SessionLocal uid aid ids w1 ms w2.
            prepare_database ?b1 = (Inr (SessionLocal, uid, aid, ids), w1) \<and>
            bug_query SessionLocal uid w1 = (Inr ms, w2) \<and> length ms = 3 \<and>
            (\<forall>m\<in>set ms.
               obj_app m = None \<and> sess_closed (sessions w2 (obj_session m)) \<and>
               (\<forall>v. sess_closed (sessions v (obj_session m)) \<longrightarrow>
                  bug_serialize c m v =
                    (Inl (detached_instance_error (lit ''app'')),
                     v\<lparr>trace := trace v @
                        [Db (Read_relationship (memory_id (obj_row m)) False)]\<rparr>))) \<and>
            reproduce_bug_without_fix c w =
              (Inr True,
               w2\<lparr>trace := trace w2
                  @ [Stdout (nl @ lit ''Step 3: Try to serialize with Pydantic (accessing relationships)...''),
                     Stdout (lit ''   This should fail because relationships weren''
                             @ quote @ lit ''t eager-loaded!'' @ nl)]
                  @ concat (map bug_pass_trace (enumerate 1 ms))
                  @ [Stdout (nl @ emoji_check @ lit '' Bug successfully reproduced!'')]\<rparr>)"
    by (intro exI conjI) (rule prep_bug, rule query_bug, rule len, rule lazy, rule bug_run)
  have fix_part: "\<exists>SessionLocal uid aid ids w1 ms w2.
            prepare_database ?f1 = (Inr (SessionLocal, uid, aid, ids), w1) \<and>
            fix_query SessionLocal uid w1 = (Inr ms, w2) \<and> length ms = 3 \<and>
            (\<forall>m\<in>set ms.
               sess_closed (sessions w2 (obj_session m)) \<and>
               (\<exists>r. c (loaded_arguments m) = Inr r) \<and>
               (\<forall>v. fix_serialize c m v =
                  (c (loaded_arguments m),
                   v\<lparr>trace := trace v @
                      [Db (Read_relationship (memory_id (obj_row m)) True),
                       Db (Read_relationship (memory_id (obj_row m)) True),
                       Db (Read_relationship (memory_id (obj_row m)) True)]\<rparr>))) \<and>
            demonstrate_fix_with_eager_loading c w =
              (Inr True,
               w2\<lparr>trace := trace w2
                  @ [Stdout (nl @ lit ''Step 3: Serialize with Pydantic (should work now)...'' @ nl)]
                  @ concat (map (fix_pass_trace c) (enumerate 1 ms))
                  @ [Stdout (nl @ emoji_check @ lit '' Fix confirmed: All '' @ str_nat 3
                             @ lit '' memories serialized successfully!'')]\<rparr>)"
    by (intro exI conjI) (rule prep_fix, rule query_fix, rule leng, rule eager, rule fix_run)
  from bug_part fix_part show ?thesis by (rule conjI)
qed

theorem lazy_read_raises_and_prefetched_read_does_not_witness:
  "fst (reproduce_bug_without_fix accept_all world0) = Inr True \<and>
   fst (demonstrate_fix_with_eager_loading accept_all world0) = Inr True"
proof -
  have ok: "\<exists>r. accept_all a = Inr r" for a
    by (simp add: accept_all_def)
  from lazy_read_raises_and_prefetched_read_does_not[where c = accept_all,
      OF fresh_world0(1) writes_all_world0 ok]
  show ?thesis by (elim conjE exE) simp
qed

section \<open>Exit code (C2)\<close>




section \<open>The handler of the bug demonstration (C3)\<close>

text \<open>
  C3. In the loop of \<open>reproduce_bug_without_fix\<close>, on a standard output that writes
  what it is given, when building the response of a memory raises an \<open>Exception\<close>
  \<open>e\<close>, the pass returns normally with \<open>failed = True\<close>, having printed the type
  name of \<open>e\<close> and the first 100 characters of its message, and the loop goes on with
  the remaining memories.
\<close>

theorem bug_iteration_catches_exception:
  assumes "bug_serialize c memory
             (w\<lparr>trace := trace w @ [Stdout (lit ''   Memory '' @ str_nat i
                @ lit '': Attempting to access memory.app.name...'')]\<rparr>) = (Inl e, w')"
    and "is_Exception e"
    and "writes_all w"
  shows "bug_iteration c failed (i, memory) w =
           (Inr True, w'\<lparr>trace := trace w' @
              [Stdout (lit ''      '' @ emoji_boom @ lit '' FAILED: '' @ type_name e),
               Stdout (lit ''         Error: '' @ take 100 (message e) @ lit ''...''),
               Stdout (lit ''         ^ This is the bug! Can'' @ quote
                       @ lit ''t access relationships after session close'')]\<rparr>) \<and>
         bug_loop c ((i, memory) # rest) failed w =
           bug_loop c rest True (w'\<lparr>trace := trace w' @
              [Stdout (lit ''      '' @ emoji_boom @ lit '' FAILED: '' @ type_name e),
               Stdout (lit ''         Error: '' @ take 100 (message e) @ lit ''...''),
               Stdout (lit ''         ^ This is the bug! Can'' @ quote
                       @ lit ''t access relationships after session close'')]\<rparr>)"
proof -
  let ?w1 = "w\<lparr>trace := trace w @ [Stdout (lit ''   Memory '' @ str_nat i
                @ lit '': Attempting to access memory.app.name...'')]\<rparr>"
  let ?body = "seq (print (lit ''   Memory '' @ str_nat (fst (i, memory))
                    @ lit '': Attempting to access memory.app.name...''))
       (bnd (bug_serialize c (snd (i, memory))) (\<lambda>response.
        seq (print (lit ''      '' @ emoji_check @ lit '' Success (unexpected!) - app_name: ''
                    @ str_opt (resp_app_name response)))
       (ret failed)))"
  have "writes_all (snd (bug_serialize c memory ?w1)) = writes_all ?w1"
    by (rule confined_writes_all[OF confined_bug_serialize])
  with assms(1,3) have enc': "writes_all w'" by simp
  have body: "?body w = (Inl e, w')"
    using assms(1,3) by (simp add: seq_print bnd_Inl)
  have handler: "seq (bug_handler e) (ret True) w' =
      (Inr True, w'\<lparr>trace := trace w' @
              [Stdout (lit ''      '' @ emoji_boom @ lit '' FAILED: '' @ type_name e),
               Stdout (lit ''         Error: '' @ take 100 (message e) @ lit ''...''),
               Stdout (lit ''         ^ This is the bug! Can'' @ quote
                       @ lit ''t access relationships after session close'')]\<rparr>)"
    using enc' by (simp add: bug_handler_def seq_assoc seq_ret seq_print ret_def)
  have it: "bug_iteration c failed (i, memory) w = seq (bug_handler e) (ret True) w'"
    unfolding bug_iteration_def using body assms(2) by (simp add: try_except_def)
  show ?thesis
    using it handler by (simp add: bnd_Inr)
qed

theorem bug_iteration_catches_exception_witness:
  "fst (bug_iteration accept_all False (1, detached_memory) world0) = Inr True \<and>
   bug_loop accept_all [(1, detached_memory)] False world0 =
     bug_loop accept_all [] True (snd (bug_iteration accept_all False (1, detached_memory) world0))"
proof -
  let ?w1 = "world0\<lparr>trace := trace world0 @ [Stdout (lit ''   Memory '' @ str_nat 1
                @ lit '': Attempting to access memory.app.name...'')]\<rparr>"
  have raised: "bug_serialize accept_all detached_memory ?w1 =
      (Inl (detached_instance_error (lit ''app'')),
       ?w1\<lparr>trace := trace ?w1 @
          [Db (Read_relationship (memory_id (obj_row detached_memory)) False)]\<rparr>)"
    by (simp add: bug_serialize_def get_app_def bnd_def detached_memory_def world0_def)
  have exc: "is_Exception (detached_instance_error (lit ''app''))"
    by (simp add: detached_instance_error_def)
  from bug_iteration_catches_exception[OF raised exc writes_all_world0, of False "[]"]
  show ?thesis by simp
qed

section \<open>The handler of main (C4)\<close>





section \<open>The order of the steps (C5)\<close>

text \<open>
  C5. When the values of \<open>uuid4()\<close> are fresh for both demonstrations, the
  constructor raises nothing but \<open>Exception\<close>s and standard output writes what it is
  given, \<open>main\<close> returns normally and its trace
  is, in this order: the banner, the bug demonstration, the fix demonstration, the
  lines of the code diff, the summary. The database calls of the bug demonstration are:
  create the engine and the tables, open a session, flush and commit the rows, close;
  open a second session, query without pre-fetching, close; then one failed
  relationship read per memory. Those of the fix are the same on an engine and
  sessions of its own, with a pre-fetching query and three successful reads per
  memory. The banner, the diff and the summary make no database call.
\<close>

theorem main_runs_the_steps_in_order:
  assumes "fresh_uuids w" and "fresh_uuids (after_demo [] w)"
    and "\<And>a e. c a = Inl e \<Longrightarrow> is_Exception e"
    and "writes_all w"
  shows "fst (main c w) = Inr () \<and>
         trace (snd (main c w)) =
           trace w @ banner
           @ [Stdout (nl @ lit ''Part 1: Attempting to reproduce the bug...'')]
           @ bug_demo_trace w
           @ [Stdout (nl @ lit ''Part 2: Demonstrating the fix...'')]
           @ fix_demo_trace c (after_demo [] w)
           @ diff_trace
           @ summary_trace True
               (list_all (serializes c) (eager_objects (next_session w + 3) (after_demo [] w))) \<and>
         db_ops (bug_demo_trace w) =
           demo_ops (next_engine w) (next_session w) False
           @ map (\<lambda>m. Read_relationship (memory_id m) False) (test_memories w) \<and>
         db_ops (fix_demo_trace c (after_demo [] w)) =
           demo_ops (next_engine w + 1) (next_session w + 2) True
           @ concat (map (\<lambda>m. replicate 3 (Read_relationship (memory_id m) True))
                         (test_memories (after_demo [] w))) \<and>
         db_ops banner = [] \<and> db_ops diff_trace = [] \<and>
         db_ops (summary_trace True
               (list_all (serializes c) (eager_objects (next_session w + 3) (after_demo [] w)))) = []"
proof -
  have ids: "next_engine (after_demo [] w) = next_engine w + 1"
    "next_session (after_demo [] w) = next_session w + 2"
    by (simp_all add: after_demo_def)
  have fix_ops: "db_ops (fix_demo_trace c (after_demo [] w)) =
           demo_ops (next_engine w + 1) (next_session w + 2) True
           @ concat (map (\<lambda>m. replicate 3 (Read_relationship (memory_id m) True))
                         (test_memories (after_demo [] w)))"
    by (simp only: db_ops_fix_demo ids)
  have run: "main c w =
           (Inr (),
            (after_demo [] (after_demo [] w))
              \<lparr>trace := trace w @ banner
                 @ [Stdout (nl @ lit ''Part 1: Attempting to reproduce the bug...'')]
                 @ bug_demo_trace w
                 @ [Stdout (nl @ lit ''Part 2: Demonstrating the fix...'')]
                 @ fix_demo_trace c (after_demo [] w)
                 @ diff_trace
                 @ summary_trace True
                     (list_all (serializes c)
                        (eager_objects (next_session w + 3) (after_demo [] w)))\<rparr>)"
    by (rule main_run[OF assms])
  have res: "fst (main c w) = Inr ()"
    by (simp add: run)
  have tr: "trace (snd (main c w)) =
           trace w @ banner
           @ [Stdout (nl @ lit ''Part 1: Attempting to reproduce the bug...'')]
           @ bug_demo_trace w
           @ [Stdout (nl @ lit ''Part 2: Demonstrating the fix...'')]
           @ fix_demo_trace c (after_demo [] w)
           @ diff_trace
           @ summary_trace True
               (list_all (serializes c) (eager_objects (next_session w + 3) (after_demo [] w)))"
    by (simp add: run)
  show ?thesis
    by (intro conjI)
       (rule res, rule tr, rule db_ops_bug_demo, rule fix_ops, simp_all only: db_ops_prints)
qed

theorem main_runs_the_steps_in_order_witness:
  "fst (main accept_all world0) = Inr () \<and>
   db_ops (trace (snd (main accept_all world0))) =
     demo_ops 0 0 False
     @ [Read_relationship 104 False, Read_relationship 105 False, Read_relationship 106 False]
     @ demo_ops 1 2 True
     @ [Read_relationship 111 True, Read_relationship 111 True, Read_relationship 111 True,
        Read_relationship 112 True, Read_relationship 112 True, Read_relationship 112 True,
        Read_relationship 113 True, Read_relationship 113 True, Read_relationship 113 True]"
proof -
  have fresh: "fresh_uuids world0" "fresh_uuids (after_demo [] world0)"
    by (simp_all add: fresh_uuids_def after_demo_def world0_def)
  have exc: "(accept_all a = Inl e) = False" for a e
    by (simp add: accept_all_def)
  have m1: "map (\<lambda>m. Read_relationship (memory_id m) False) (test_memories world0) =
       [Read_relationship 104 False, Read_relationship 105 False, Read_relationship 106 False]"
    by (simp add: test_memories_def world0_def new_memory_def)
  have m2: "concat (map (\<lambda>m. replicate 3 (Read_relationship (memory_id m) True))
                         (test_memories (after_demo [] world0))) =
       [Read_relationship 111 True, Read_relationship 111 True, Read_relationship 111 True,
        Read_relationship 112 True, Read_relationship 112 True, Read_relationship 112 True,
        Read_relationship 113 True, Read_relationship 113 True, Read_relationship 113 True]"
    by (simp add: test_memories_def after_demo_def world0_def new_memory_def numeral_3_eq_3)
  have w0: "trace world0 = []" "next_engine world0 = 0" "next_session world0 = 0"
    by (simp_all add: world0_def)
  from main_runs_the_steps_in_order[where c = accept_all and w = world0, OF fresh(1) fresh(2)]
  show ?thesis
    by (simp add: db_ops_append db_ops_prints m1 m2 w0 exc Suc_numerals)
qed

section \<open>The rows setup\_test\_data writes (C8)\<close>

text \<open>
  C8. Call \<open>setup_test_data\<close> on a session with nothing pending and no open transaction,
  bound to a database that has its tables, in a world whose next values of \<open>uuid4()\<close>
  are not primary keys already and differ from each other. Then it returns the user id,
  the app id and the three memory ids in insertion order, and it has committed: the
  database holds, after the rows it had, exactly one more user, one more app owned by
  that user, two more categories and three more memories, all active and belonging to
  that user and app; the first memory is linked to the first category, the second to
  the second, the third to none.
\<close>

theorem setup_test_data_inserts:
  assumes "sess_pending (sessions w h) = []" and "sess_tx (sessions w h) = None"
    and "has_schema (dbs w (sess_engine (sessions w h)))"
    and "user_id (test_user w) \<notin> user_id ` set (tbl_users (dbs w (sess_engine (sessions w h))))"
    and "app_id (test_app w) \<notin> app_id ` set (tbl_apps (dbs w (sess_engine (sessions w h))))"
    and "distinct (map category_id
           (tbl_categories (dbs w (sess_engine (sessions w h))) @ test_categories w))"
    and "distinct (map memory_id
           (tbl_memories (dbs w (sess_engine (sessions w h))) @ test_memories w))"
  shows "fst (setup_test_data h w) =
           Inr (user_id (test_user w), app_id (test_app w), map memory_id (test_memories w)) \<and>
         dbs (snd (setup_test_data h w)) (sess_engine (sessions w h)) =
           (dbs w (sess_engine (sessions w h)))
             \<lparr>tbl_users := tbl_users (dbs w (sess_engine (sessions w h))) @ [test_user w],
              tbl_apps := tbl_apps (dbs w (sess_engine (sessions w h))) @ [test_app w],
              tbl_categories :=
                tbl_categories (dbs w (sess_engine (sessions w h))) @ test_categories w,
              tbl_memories := tbl_memories (dbs w (sess_engine (sessions w h))) @ test_memories w,
              tbl_memory_categories :=
                tbl_memory_categories (dbs w (sess_engine (sessions w h))) @ test_links w\<rparr> \<and>
         sess_tx (sessions (snd (setup_test_data h w)) h) = None \<and>
         sess_pending (sessions (snd (setup_test_data h w)) h) = [] \<and>
         app_owner_id (test_app w) = user_id (test_user w) \<and>
         length (test_categories w) = 2 \<and>
         length (test_memories w) = 3 \<and>
         list_all (\<lambda>m. memory_state m = active \<and> memory_user_id m = user_id (test_user w) \<and>
                       memory_app_id m = app_id (test_app w)) (test_memories w) \<and>
         test_links w =
           [(memory_id (test_memories w ! 0), category_id (test_categories w ! 0)),
            (memory_id (test_memories w ! 1), category_id (test_categories w ! 1))]"
proof -
  have run: "fst (setup_test_data h w) =
           Inr (user_id (test_user w), app_id (test_app w), map memory_id (test_memories w)) \<and>
         dbs (snd (setup_test_data h w)) (sess_engine (sessions w h)) =
           (dbs w (sess_engine (sessions w h)))
             \<lparr>tbl_users := tbl_users (dbs w (sess_engine (sessions w h))) @ [test_user w],
              tbl_apps := tbl_apps (dbs w (sess_engine (sessions w h))) @ [test_app w],
              tbl_categories :=
                tbl_categories (dbs w (sess_engine (sessions w h))) @ test_categories w,
              tbl_memories := tbl_memories (dbs w (sess_engine (sessions w h))) @ test_memories w,
              tbl_memory_categories :=
                tbl_memory_categories (dbs w (sess_engine (sessions w h))) @ test_links w\<rparr> \<and>
         sess_tx (sessions (snd (setup_test_data h w)) h) = None \<and>
         sess_pending (sessions (snd (setup_test_data h w)) h) = []"
    using assms
    apply (simp add: setup_test_data_def run_defs range2 range3 test_defs plus_Suc_numerals)
    apply (auto simp: new_user_def new_app_def new_memory_def new_category_def)
    done
  have rows: "app_owner_id (test_app w) = user_id (test_user w) \<and>
         length (test_categories w) = 2 \<and>
         length (test_memories w) = 3 \<and>
         list_all (\<lambda>m. memory_state m = active \<and> memory_user_id m = user_id (test_user w) \<and>
                       memory_app_id m = app_id (test_app w)) (test_memories w) \<and>
         test_links w =
           [(memory_id (test_memories w ! 0), category_id (test_categories w ! 0)),
            (memory_id (test_memories w ! 1), category_id (test_categories w ! 1))]"
    by (simp add: test_defs new_user_def new_app_def new_memory_def new_category_def)
  from run rows show ?thesis by (simp only: simp_thms)
qed

theorem setup_test_data_inserts_witness:
  "fst (setup_test_data 0 world_in_session) = Inr (100, 101, [104, 105, 106]) \<and>
   map memory_id (tbl_memories (dbs (snd (setup_test_data 0 world_in_session)) 0)) =
     [104, 105, 106]"
proof -
  have w: "world_in_session =
      world0\<lparr>trace := [Db (Create_engine 0 memory_url), Db (Create_all 0), Db (Open_session 0 0)],
             dbs := (dbs world0)(0 := (empty_db None)\<lparr>has_schema := True\<rparr>),
             next_engine := 1,
             sessions := (sessions world0)(0 :=
                \<lparr>sess_engine = 0, sess_pending = [], sess_tx = None, sess_closed = False\<rparr>),
             next_session := 1\<rparr>"
    by (simp add: world_in_session_def create_test_database_def run_defs world0_def empty_db_def)
  have ids: "user_id (test_user world_in_session) = 100"
    "app_id (test_app world_in_session) = 101"
    "map memory_id (test_memories world_in_session) = [104, 105, 106]"
    "map category_id (test_categories world_in_session) = [102, 103]"
    by (simp_all add: w test_defs world0_def new_user_def new_app_def new_category_def
        new_memory_def)
  have pre: "sess_pending (sessions world_in_session 0) = []"
    "sess_tx (sessions world_in_session 0) = None"
    "sess_engine (sessions world_in_session 0) = 0"
    "has_schema (dbs world_in_session 0)"
    "tbl_users (dbs world_in_session 0) = []" "tbl_apps (dbs world_in_session 0) = []"
    "tbl_categories (dbs world_in_session 0) = []" "tbl_memories (dbs world_in_session 0) = []"
    by (simp_all add: w world0_def empty_db_def)
  from setup_test_data_inserts[of world_in_session 0]
  show ?thesis
    by (simp add: pre ids)
qed

section \<open>The demonstrations share no database (C9)\<close>

text \<open>
  C9. When the values of \<open>uuid4()\<close> are fresh and standard output writes what it
  is given, each demonstration changes the
  databases of the process in one place only: at a new engine, which it creates and
  fills itself; the next demonstration gets the next engine, and the fix leaves the
  database of the bug demonstration as it was. The result of the fix demonstration does
  not depend on the databases, the sessions, the engine and session counters or the
  console: run after the bug demonstration, with whatever constructor that one used, it
  returns what it returns in the starting world once \<open>uuid4()\<close> has been called
  seven times and the clock read three times.
\<close>

theorem demonstrations_share_no_database:
  assumes "fresh_uuids w" and "fresh_uuids (after_demo [] w)" and enc: "writes_all w"
  shows "dbs (snd (reproduce_bug_without_fix c w)) = (dbs w)(next_engine w := test_db w) \<and>
         dbs (snd (demonstrate_fix_with_eager_loading c w)) = (dbs w)(next_engine w := test_db w) \<and>
         next_engine (snd (reproduce_bug_without_fix c w)) = next_engine w + 1 \<and>
         fst (demonstrate_fix_with_eager_loading c
                (w\<lparr>trace := t, dbs := d, next_engine := e, sessions := s, next_session := h\<rparr>)) =
           fst (demonstrate_fix_with_eager_loading c w) \<and>
         fst (demonstrate_fix_with_eager_loading c (snd (reproduce_bug_without_fix c' w))) =
           fst (demonstrate_fix_with_eager_loading c
                  (w\<lparr>uuid_count := uuid_count w + 7, clock_count := clock_count w + 3\<rparr>)) \<and>
         dbs (snd (demonstrate_fix_with_eager_loading c (snd (reproduce_bug_without_fix c' w))))
             (next_engine w) = test_db w"
proof -
  let ?w' = "w\<lparr>trace := t, dbs := d, next_engine := e, sessions := s, next_session := h\<rparr>"
  let ?ws = "w\<lparr>uuid_count := uuid_count w + 7, clock_count := clock_count w + 3\<rparr>"
  have bug: "snd (reproduce_bug_without_fix c w) = after_demo (bug_demo_trace w) w" for c
    by (simp add: reproduce_bug_run[OF assms(1) enc])
  have outcome: "fst (demonstrate_fix_with_eager_loading c u) = fix_outcome c u"
    if "fresh_uuids u" and "writes_all u" for u
    using demonstrate_fix_outcome[OF that(1) _ that(2), of c] by (metis prod.collapse)
  have world: "dbs (snd (demonstrate_fix_with_eager_loading c u)) = dbs (after_demo [] u)"
    if "fresh_uuids u" and "writes_all u" for u
  proof -
    obtain r v where run: "demonstrate_fix_with_eager_loading c u = (r, v)"
      by (cases "demonstrate_fix_with_eager_loading c u")
    from demonstrate_fix_outcome[OF that(1) run that(2)]
    have "v = (after_demo [] u)\<lparr>trace := trace v\<rparr>" by blast
    then have "dbs v = dbs ((after_demo [] u)\<lparr>trace := trace v\<rparr>)" by (rule arg_cong)
    with run show ?thesis by simp
  qed
  have fresh': "fresh_uuids ?w'"
    using assms(1) by (simp only: supplies_only(1))
  have enc': "writes_all ?w'" "writes_all (after_demo (bug_demo_trace w) w)" "writes_all ?ws"
    using enc by simp_all
  have indep: "fst (demonstrate_fix_with_eager_loading c ?w') =
           fst (demonstrate_fix_with_eager_loading c w)"
    by (simp only: outcome[OF fresh' enc'(1)] outcome[OF assms(1) enc] supplies_only(2))
  have fresh_b: "fresh_uuids (after_demo (bug_demo_trace w) w)"
    using assms(2) by (simp only: supplies_only(3)[of "bug_demo_trace w" w])
  have fresh_s: "fresh_uuids ?ws"
    using assms(2) by (simp only: supplies_only(5))
  have same: "fst (demonstrate_fix_with_eager_loading c (snd (reproduce_bug_without_fix c' w))) =
           fst (demonstrate_fix_with_eager_loading c ?ws)"
    by (simp only: bug outcome[OF fresh_b enc'(2)] outcome[OF fresh_s enc'(3)] supplies_only(4))
  have kept: "dbs (snd (demonstrate_fix_with_eager_loading c (snd (reproduce_bug_without_fix c' w))))
             (next_engine w) = test_db w"
    unfolding bug world[OF fresh_b enc'(2)] by (simp add: after_demo_def)
  have fix_dbs: "dbs (snd (demonstrate_fix_with_eager_loading c w)) =
      (dbs w)(next_engine w := test_db w)"
    unfolding world[OF assms(1) enc] by (simp add: after_demo_def)
  show ?thesis
    by (intro conjI)
       (simp add: bug after_demo_def, rule fix_dbs,
        simp add: bug after_demo_def, rule indep, rule same, rule kept)
qed

theorem demonstrations_share_no_database_witness:
  "dbs (snd (reproduce_bug_without_fix accept_all world0)) 0 = test_db world0 \<and>
   next_engine (snd (reproduce_bug_without_fix accept_all world0)) = 1 \<and>
   dbs (snd (demonstrate_fix_with_eager_loading accept_all
              (snd (reproduce_bug_without_fix accept_all world0)))) 0 = test_db world0 \<and>
   fst (demonstrate_fix_with_eager_loading accept_all
          (snd (reproduce_bug_without_fix reject_all world0))) =
     fst (demonstrate_fix_with_eager_loading accept_all
            (world0\<lparr>uuid_count := uuid_count world0 + 7, clock_count := clock_count world0 + 3\<rparr>))"
proof -
  have e0: "next_engine world0 = 0"
    by (simp add: world0_def)
  from demonstrations_share_no_database[OF fresh_world0(1) fresh_world0(2) writes_all_world0,
      where c = accept_all and c' = accept_all]
  have a: "dbs (snd (reproduce_bug_without_fix accept_all world0)) 0 = test_db world0"
    "next_engine (snd (reproduce_bug_without_fix accept_all world0)) = 1"
    "dbs (snd (demonstrate_fix_with_eager_loading accept_all
              (snd (reproduce_bug_without_fix accept_all world0)))) 0 = test_db world0"
    by (simp_all add: e0)
  from demonstrations_share_no_database[OF fresh_world0(1) fresh_world0(2) writes_all_world0,
      where c = accept_all and c' = reject_all]
  have b: "fst (demonstrate_fix_with_eager_loading accept_all
          (snd (reproduce_bug_without_fix reject_all world0))) =
     fst (demonstrate_fix_with_eager_loading accept_all
            (world0\<lparr>uuid_count := uuid_count world0 + 7, clock_count := clock_count world0 + 3\<rparr>))"
    by blast
  from a b show ?thesis by (intro conjI)
qed

section \<open>What the queries return (C10)\<close>

text \<open>
  C10. When the values of \<open>uuid4()\<close> are fresh and standard output writes what it
  is given, the database a demonstration prepares
  holds three memories, all active and owned by the test user; the query of the bug
  demonstration and the query of the fix both return exactly these three rows; and
  whenever \<open>demonstrate_fix_with_eager_loading\<close> returns, it returns \<open>True\<close> if and
  only if building the response succeeds for every memory its query returned.
\<close>

theorem query_returns_the_three_memories:
  assumes "fresh_uuids w" and enc: "writes_all w"
  shows "\<exists>e uid aid ids w1 ms_bug w2 ms_fix w3.
           prepare_database w = (Inr (e, uid, aid, ids), w1) \<and>
           length ids = 3 \<and> distinct ids \<and>
           map memory_id (tbl_memories (dbs w1 e)) = ids \<and>
           list_all (\<lambda>m. memory_state m = active \<and> memory_user_id m = uid)
                    (tbl_memories (dbs w1 e)) \<and>
           bug_query e uid w1 = (Inr ms_bug, w2) \<and>
           map obj_row ms_bug = tbl_memories (dbs w1 e) \<and>
           fix_query e uid w1 = (Inr ms_fix, w3) \<and>
           map obj_row ms_fix = tbl_memories (dbs w1 e) \<and>
           (\<forall>b w'. demonstrate_fix_with_eager_loading c w = (Inr b, w') \<longrightarrow>
              b = list_all (\<lambda>m. \<exists>r w4. fix_serialize c m w3 = (Inr r, w4)) ms_fix)"
proof -
  let ?e = "next_engine w"
  let ?w1 = "after_prepare w"
  let ?h = "next_session ?w1"
  let ?w3 = "after_query (fix_query_trace ?h ?e) ?e ?w1"
  have db1: "dbs ?w1 ?e = test_db w"
    by (simp add: after_prepare_def)
  have enc1: "writes_all ?w1"
    using enc by simp
  have rows: "tbl_memories (dbs ?w1 ?e) = test_memories w"
    by (simp add: db1 test_db_def)
  have len: "length (map memory_id (test_memories w)) = 3"
    by (simp add: test_memories_def)
  have dist: "distinct (map memory_id (test_memories w))"
    using assms by (simp add: fresh_uuids_def test_memories_def new_memory_def)
  have act: "list_all (\<lambda>m. memory_state m = active \<and> memory_user_id m = user_id (test_user w))
               (tbl_memories (dbs ?w1 ?e))"
    by (simp add: rows test_memories_def new_memory_def)
  have lazy_rows: "map obj_row (lazy_objects ?h w) = tbl_memories (dbs ?w1 ?e)"
    by (simp add: rows lazy_objects_def comp_def)
  have eager_rows: "map obj_row (eager_objects ?h w) = tbl_memories (dbs ?w1 ?e)"
    by (simp add: rows eager_objects_def test_memories_def)
  have h: "?h = next_session w + 1"
    by (simp add: after_prepare_def)
  have ser: "(\<exists>r w4. fix_serialize c m ?w3 = (Inr r, w4)) = serializes c m"
    if "m \<in> set (eager_objects ?h w)" for m
    using fix_serialize_prefetched[OF eager_arguments(1)[OF that], of c ?w3]
    by (auto simp: serializes_def split: sum.splits)
  have all: "list_all (\<lambda>m. \<exists>r w4. fix_serialize c m ?w3 = (Inr r, w4)) (eager_objects ?h w) =
             list_all (serializes c) (eager_objects ?h w)"
    unfolding list_all_iff using ser by blast
  have iff: "\<forall>b w'. demonstrate_fix_with_eager_loading c w = (Inr b, w') \<longrightarrow>
              b = list_all (\<lambda>m. \<exists>r w4. fix_serialize c m ?w3 = (Inr r, w4)) (eager_objects ?h w)"
    unfolding all using demonstrate_fix_result[OF assms(1) _ enc] by (simp only: h) blast
  show ?thesis
    by (intro exI conjI)
       (rule prepare_database_run[OF assms], rule len, rule dist,
        simp only: rows, rule act, rule bug_query_run[OF assms(1) db1 enc1], rule lazy_rows,
        rule fix_query_run[OF assms(1) db1 enc1], rule eager_rows, rule iff)
qed

theorem query_returns_the_three_memories_witness:
  "\<exists>e uid aid ids w1 ms_fix w3.
     prepare_database world0 = (Inr (e, uid, aid, ids), w1) \<and> length ids = 3 \<and>
     fix_query e uid w1 = (Inr ms_fix, w3) \<and> length ms_fix = 3 \<and>
     fst (demonstrate_fix_with_eager_loading reject_all world0) = Inr False \<and>
     \<not> list_all (\<lambda>m. \<exists>r w4. fix_serialize reject_all m w3 = (Inr r, w4)) ms_fix"
proof -
  have fresh: "fresh_uuids world0"
    by (simp add: fresh_uuids_def world0_def)
  from query_returns_the_three_memories[OF fresh writes_all_world0, of reject_all]
  obtain e uid aid ids w1 ms_bug w2 ms_fix w3 where
    prep: "prepare_database world0 = (Inr (e, uid, aid, ids), w1)" and len: "length ids = 3"
    and rows: "map memory_id (tbl_memories (dbs w1 e)) = ids"
    and q: "fix_query e uid w1 = (Inr ms_fix, w3)"
    and objs: "map obj_row ms_fix = tbl_memories (dbs w1 e)"
    and iff: "\<forall>b w'. demonstrate_fix_with_eager_loading reject_all world0 = (Inr b, w') \<longrightarrow>
              b = list_all (\<lambda>m. \<exists>r w4. fix_serialize reject_all m w3 = (Inr r, w4)) ms_fix"
    by blast
  have len3: "length ms_fix = 3"
    using len rows objs by (metis length_map)
  have exc: "is_Exception e"
    if "reject_all (loaded_arguments (snd im)) = Inl e" for im e
    using that by (auto simp: reject_all_def validation_error_def)
  have run: "demonstrate_fix_with_eager_loading reject_all world0 =
      (Inr (list_all (serializes reject_all) (eager_objects (next_session world0 + 1) world0)),
       after_demo (fix_demo_trace reject_all world0) world0)"
    by (rule demonstrate_fix_run[OF fresh exc writes_all_world0])
  have no: "\<not> list_all (serializes reject_all) (eager_objects (next_session world0 + 1) world0)"
    by (simp add: eager_objects_def test_memories_def serializes_def reject_all_def)
  from run no have res: "fst (demonstrate_fix_with_eager_loading reject_all world0) = Inr False"
    by simp
  with iff run no have "\<not> list_all (\<lambda>m. \<exists>r w4. fix_serialize reject_all m w3 = (Inr r, w4)) ms_fix"
    by (metis (no_types, lifting))
  with prep len q len3 res show ?thesis by blast
qed

end
